theory Spec2Isabelle
  imports Complex_Main "HOL-Library.Word" "HOL-Library.Log_Nat" "HOL-Library.AList"
begin

unbundle bit_operations_syntax

section \<open>JavaScript values\<close>

text \<open>
  The option resolvers of \<^verbatim>\<open>lib/output.js\<close> and the input descriptor builder of
  \<^verbatim>\<open>lib/input.js\<close> receive loosely typed JavaScript values and store them in
  \<^verbatim>\<open>this.options\<close>. Values are modelled by one datatype. A finite number is the rational
  it denotes, beside NaN and the two infinities; the sign of zero is not modelled. The code
  compares and stores the numbers it is given and computes on integers, with one exception:
  the distance formula of \<^verbatim>\<open>jxl\<close>, whose operations are rounded to binary64 as JavaScript
  rounds them (section \<open>Floating-point arithmetic\<close>). A plain object is the list of its own
  enumerable properties in the order \<^verbatim>\<open>Object.entries\<close> lists them, with distinct keys. A
  typed array carries its kind, the bytes of the \<^verbatim>\<open>ArrayBuffer\<close> behind it, its byte offset
  and its elements. A function supplied by the caller is told from the others by a number;
  a method inherited from a built-in prototype is named. A string is the list of its code
  units, each below 256.
\<close>

datatype array_kind =
    Uint8Array | Uint8ClampedArray | Int8Array | Uint16Array | Int16Array
  | Uint32Array | Int32Array | Float32Array | Float64Array

datatype jsval =
    JUndefined
  | JNull
  | JBool bool
  | JNum rat
  | JNaN
  | JInfinity bool
  | JStr string
  | JObj "(string \<times> jsval) list"
  | JArr "jsval list"
  | JFunction nat
  | JBuiltin string
  | JBuffer "8 word list"
  | JArrayBuffer "8 word list"
  | JTypedArray array_kind "8 word list" nat "jsval list"

text \<open>Property read \<^verbatim>\<open>v.k\<close> for the option names the code asks for. A plain object
  answers with its own property. Arrays, typed arrays and Buffers inherit \<^verbatim>\<open>join\<close> from
  \<^verbatim>\<open>Array.prototype\<close> and \<^verbatim>\<open>%TypedArray%.prototype\<close>; no other name the two files read from
  an options value is defined on \<^verbatim>\<open>Object.prototype\<close>, \<^verbatim>\<open>Function.prototype\<close>,
  \<^verbatim>\<open>Array.prototype\<close>, \<^verbatim>\<open>%TypedArray%.prototype\<close>, \<^verbatim>\<open>ArrayBuffer.prototype\<close> or
  \<^verbatim>\<open>Buffer.prototype\<close>. Reading a property of \<^verbatim>\<open>null\<close> or \<^verbatim>\<open>undefined\<close> raises a TypeError
  in JavaScript; every function below tests for that case before it reads a property of an
  argument. \<^verbatim>\<open>this.options.input\<close> is read without such a test by \<^verbatim>\<open>toFile\<close> and
  \<^verbatim>\<open>_isStreamInput\<close>: it holds the input descriptor on every instance.\<close>

fun prop_of :: "jsval \<Rightarrow> string \<Rightarrow> jsval" where
  "prop_of (JObj kvs) k = (case map_of kvs k of Some v \<Rightarrow> v | None \<Rightarrow> JUndefined)"
| "prop_of (JArr xs) k = (if k = ''join'' then JBuiltin ''Array.prototype.join'' else JUndefined)"
| "prop_of (JBuffer bs) k =
     (if k = ''join'' then JBuiltin ''%TypedArray%.prototype.join'' else JUndefined)"
| "prop_of (JTypedArray kind bs off xs) k =
     (if k = ''join'' then JBuiltin ''%TypedArray%.prototype.join'' else JUndefined)"
| "prop_of _ k = JUndefined"

text \<open>JavaScript truthiness, as used by \<^verbatim>\<open>a || b\<close> and \<^verbatim>\<open>if (a)\<close>.\<close>

fun truthy :: "jsval \<Rightarrow> bool" where
  "truthy JUndefined = False"
| "truthy JNull = False"
| "truthy (JBool b) = b"
| "truthy (JNum r) = (r \<noteq> 0)"
| "truthy JNaN = False"
| "truthy (JStr s) = (s \<noteq> [])"
| "truthy _ = True"

definition js_or :: "jsval \<Rightarrow> jsval \<Rightarrow> jsval" where
  "js_or a b = (if truthy a then a else b)"

section \<open>Errors\<close>

text \<open>An error message is kept as the fragments of its template literal.\<close>

datatype frag = Lit string | Val jsval | TypeOf jsval

datatype error =
    Error "frag list"
  | InvalidParameter string "frag list" jsval
  | TypeError string
  | RangeError string

definition nullTypeError :: error where
  "nullTypeError = TypeError ''Cannot read properties of null''"

section \<open>Option predicates\<close>

text \<open>Modelled from the spec: the predicate library \<^verbatim>\<open>lib/is.js\<close> (required as \<^verbatim>\<open>is\<close>) is
  not among the sources. \<^verbatim>\<open>is.defined\<close>: the value is neither undefined nor null.\<close>

definition is_defined :: "jsval \<Rightarrow> bool" where
  "is_defined v = (v \<noteq> JUndefined \<and> v \<noteq> JNull)"

text \<open>Modelled from the spec: \<^verbatim>\<open>is.object\<close> of the missing \<^verbatim>\<open>lib/is.js\<close>, the type check
  \<^verbatim>\<open>typeof v === 'object'\<close>, which null, arrays and binary data pass as well.\<close>

fun is_object :: "jsval \<Rightarrow> bool" where
  "is_object JNull = True"
| "is_object (JObj kvs) = True"
| "is_object (JArr xs) = True"
| "is_object (JBuffer bs) = True"
| "is_object (JArrayBuffer bs) = True"
| "is_object (JTypedArray k bs off xs) = True"
| "is_object _ = False"

text \<open>Modelled from the spec: \<^verbatim>\<open>is.plainObject\<close> of the missing \<^verbatim>\<open>lib/is.js\<close>: a plain
  options object.\<close>

fun is_plainObject :: "jsval \<Rightarrow> bool" where
  "is_plainObject (JObj kvs) = True"
| "is_plainObject _ = False"

text \<open>Modelled from the spec: \<^verbatim>\<open>is.fn\<close> of the missing \<^verbatim>\<open>lib/is.js\<close>: a function.\<close>

fun is_fn :: "jsval \<Rightarrow> bool" where
  "is_fn (JFunction n) = True"
| "is_fn (JBuiltin name) = True"
| "is_fn _ = False"

text \<open>Modelled from the spec: \<^verbatim>\<open>is.bool\<close> of the missing \<^verbatim>\<open>lib/is.js\<close>: a boolean.\<close>

fun is_bool :: "jsval \<Rightarrow> bool" where
  "is_bool (JBool b) = True"
| "is_bool _ = False"

text \<open>Modelled from the spec: \<^verbatim>\<open>is.buffer\<close>, \<^verbatim>\<open>is.arrayBuffer\<close> and \<^verbatim>\<open>is.typedArray\<close> of
  the missing \<^verbatim>\<open>lib/is.js\<close>: a binary buffer, a fixed-size binary region, a typed numeric
  array.\<close>

fun is_buffer :: "jsval \<Rightarrow> bool" where
  "is_buffer (JBuffer bs) = True"
| "is_buffer _ = False"

fun is_arrayBuffer :: "jsval \<Rightarrow> bool" where
  "is_arrayBuffer (JArrayBuffer bs) = True"
| "is_arrayBuffer _ = False"

fun is_typedArray :: "jsval \<Rightarrow> bool" where
  "is_typedArray (JTypedArray k bs off xs) = True"
| "is_typedArray _ = False"

text \<open>Modelled from the spec: \<^verbatim>\<open>is.string\<close> of the missing \<^verbatim>\<open>lib/is.js\<close>: a string that
  is not empty.\<close>

fun is_string :: "jsval \<Rightarrow> bool" where
  "is_string (JStr s) = (s \<noteq> [])"
| "is_string _ = False"

text \<open>Modelled from the spec: \<^verbatim>\<open>is.number\<close> of the missing \<^verbatim>\<open>lib/is.js\<close>: a number other
  than NaN.\<close>

fun is_number :: "jsval \<Rightarrow> bool" where
  "is_number (JNum r) = True"
| "is_number (JInfinity b) = True"
| "is_number _ = False"

text \<open>Modelled from the spec: \<^verbatim>\<open>is.integer\<close> of the missing \<^verbatim>\<open>lib/is.js\<close>: a finite number
  without fractional part.\<close>

fun is_integer :: "jsval \<Rightarrow> bool" where
  "is_integer (JNum r) = (of_int \<lfloor>r\<rfloor> = r)"
| "is_integer _ = False"

text \<open>Modelled from the spec: \<^verbatim>\<open>is.inRange\<close> of the missing \<^verbatim>\<open>lib/is.js\<close>:
  \<^verbatim>\<open>min <= v && v <= max\<close> on numbers. Where the code calls it on a value it has not
  checked to be a number, the call site converts the value first.\<close>

fun is_inRange :: "jsval \<Rightarrow> rat \<Rightarrow> rat \<Rightarrow> bool" where
  "is_inRange (JNum r) lo hi = (lo \<le> r \<and> r \<le> hi)"
| "is_inRange _ lo hi = False"

text \<open>Modelled from the spec: \<^verbatim>\<open>is.inArray\<close> of the missing \<^verbatim>\<open>lib/is.js\<close>: membership in
  a list of admissible values.\<close>

definition is_inArray :: "jsval \<Rightarrow> jsval list \<Rightarrow> bool" where
  "is_inArray v xs = (v \<in> set xs)"

text \<open>Modelled from the spec: \<^verbatim>\<open>is.invalidParameterError\<close> of the missing \<^verbatim>\<open>lib/is.js\<close>:
  the uniformly shaped error naming the field, the expected constraint and the received
  value.\<close>

definition invalidParameterError :: "string \<Rightarrow> string \<Rightarrow> jsval \<Rightarrow> error" where
  "invalidParameterError name expected actual = InvalidParameter name [Lit expected] actual"

section \<open>External collaborators\<close>

text \<open>
  What the code obtains from outside the two files is a parameter of the model: the
  \<^verbatim>\<open>color\<close> package (the parsed colour, or the error it throws), JavaScript's conversion
  of strings and objects to numbers, \<^verbatim>\<open>path.resolve\<close> and \<^verbatim>\<open>path.extname\<close> of Node.js,
  and the capability flags of the engine build: \<^verbatim>\<open>format.jp2k.output.file\<close>,
  \<^verbatim>\<open>format.jp2k.output.buffer\<close> and whether \<^verbatim>\<open>versions.heif\<close> is set (a prebuilt
  binary).
\<close>

record env =
  colour :: "jsval \<Rightarrow> error + jsval"
  toNumber :: "jsval \<Rightarrow> jsval"
  path_resolve :: "string \<Rightarrow> string"
  path_extname :: "string \<Rightarrow> string"
  jp2k_output_file :: bool
  jp2k_output_buffer :: bool
  versions_heif :: bool

section \<open>Strings and object enumeration\<close>

text \<open>\<^verbatim>\<open>String.prototype.toLowerCase\<close> on code units below 256: the letters A to Z, and
  the letters from U+00C0 to U+00DE other than the multiplication sign U+00D7, are moved up
  by 32; every other code unit is kept.\<close>

definition lower_char :: "char \<Rightarrow> char" where
  "lower_char c =
     (case map_of (zip (''ABCDEFGHIJKLMNOPQRSTUVWXYZ'' @
                        [CHR 0xC0, CHR 0xC1, CHR 0xC2, CHR 0xC3, CHR 0xC4, CHR 0xC5, CHR 0xC6, CHR 0xC7,
                         CHR 0xC8, CHR 0xC9, CHR 0xCA, CHR 0xCB, CHR 0xCC, CHR 0xCD, CHR 0xCE, CHR 0xCF,
                         CHR 0xD0, CHR 0xD1, CHR 0xD2, CHR 0xD3, CHR 0xD4, CHR 0xD5, CHR 0xD6, CHR 0xD8,
                         CHR 0xD9, CHR 0xDA, CHR 0xDB, CHR 0xDC, CHR 0xDD, CHR 0xDE])
                       (''abcdefghijklmnopqrstuvwxyz'' @
                        [CHR 0xE0, CHR 0xE1, CHR 0xE2, CHR 0xE3, CHR 0xE4, CHR 0xE5, CHR 0xE6, CHR 0xE7,
                         CHR 0xE8, CHR 0xE9, CHR 0xEA, CHR 0xEB, CHR 0xEC, CHR 0xED, CHR 0xEE, CHR 0xEF,
                         CHR 0xF0, CHR 0xF1, CHR 0xF2, CHR 0xF3, CHR 0xF4, CHR 0xF5, CHR 0xF6, CHR 0xF8,
                         CHR 0xF9, CHR 0xFA, CHR 0xFB, CHR 0xFC, CHR 0xFD, CHR 0xFE])) c of
        Some l \<Rightarrow> l
      | None \<Rightarrow> c)"

definition toLowerCase :: "string \<Rightarrow> string" where
  "toLowerCase s = map lower_char s"

text \<open>The decimal numeral of an array index, as a property key.\<close>

function string_of_nat :: "nat \<Rightarrow> string" where
  "string_of_nat n =
     (if n < 10 then [char_of (48 + n)]
      else string_of_nat (n div 10) @ [char_of (48 + n mod 10)])"
  by pat_completeness auto
termination
  by (relation "measure id") auto

declare string_of_nat.simps [simp del]

definition indexed :: "jsval list \<Rightarrow> (string \<times> jsval) list" where
  "indexed xs = zip (map string_of_nat [0..<length xs]) xs"

text \<open>The own enumerable properties of a value, as \<^verbatim>\<open>Object.entries\<close> and object spread
  list them; null and undefined have none (\<^verbatim>\<open>Object.entries\<close> throws on them, which its
  callers below test first).\<close>

fun own_entries :: "jsval \<Rightarrow> (string \<times> jsval) list" where
  "own_entries (JObj kvs) = kvs"
| "own_entries (JArr xs) = indexed xs"
| "own_entries (JStr s) = indexed (map (\<lambda>c. JStr [c]) s)"
| "own_entries (JBuffer bs) = indexed (map (\<lambda>b. JNum (of_nat (unat b))) bs)"
| "own_entries (JTypedArray k bs off xs) = indexed xs"
| "own_entries _ = []"

section \<open>Job Options and statements\<close>

text \<open>
  \<^verbatim>\<open>this.options\<close> is a JavaScript object written by key. A statement of a resolver either
  completes or throws; since an exception does not undo the assignments made before it, a
  statement returns the error, if any, together with the Job Options it leaves behind.
\<close>

type_synonym joboptions = "string \<Rightarrow> jsval option"

type_synonym 's stmt = "'s \<Rightarrow> error option \<times> 's"

type_synonym action = "joboptions stmt"

definition opt :: "joboptions \<Rightarrow> string \<Rightarrow> jsval" where
  "opt s k = (case s k of Some v \<Rightarrow> v | None \<Rightarrow> JUndefined)"

definition skip :: "'s stmt" where
  "skip s = (None, s)"

definition throw :: "error \<Rightarrow> 's stmt" where
  "throw e s = (Some e, s)"

definition assign :: "string \<Rightarrow> jsval \<Rightarrow> action" where
  "assign k v s = (None, s(k \<mapsto> v))"

fun block :: "'s stmt list \<Rightarrow> 's stmt" where
  "block [] s = (None, s)"
| "block (a # as) s = (case a s of (None, s') \<Rightarrow> block as s' | (Some e, s') \<Rightarrow> (Some e, s'))"

definition reading :: "('s \<Rightarrow> 's stmt) \<Rightarrow> 's stmt" where
  "reading f s = f s s"

section \<open>Floating-point arithmetic\<close>

text \<open>
  A JavaScript number is an IEEE 754 binary64 value, and each of \<^verbatim>\<open>+\<close>, \<^verbatim>\<open>-\<close>, \<^verbatim>\<open>*\<close> and
  \<^verbatim>\<open>/\<close> returns the exact result rounded to the nearest such value, a tie going to the
  even significand; a decimal literal denotes the binary64 value nearest to it. A finite
  binary64 value other than zero is an integer multiple, of at most 53 bits, of
  \<open>2 ^ (e - 52)\<close>, where \<open>e\<close> is its binary exponent and at least -1022.

  \<open>exponent x\<close> is the binary exponent of a positive rational: \<open>2 ^ e \<le> x < 2 ^ (e + 1)\<close>.
  \<open>binary64 x\<close> is the rounding of \<open>x\<close>; a result of magnitude \<open>2 ^ 1024 - 2 ^ 970\<close> or more,
  which JavaScript gives as an infinity, does not arise from the operands met here, all
  of magnitude below 128.
\<close>

definition exponent :: "rat \<Rightarrow> int" where
  "exponent x =
     (if 1 \<le> x then int (floorlog 2 (nat \<lfloor>x\<rfloor>)) - 1
      else - int (floorlog 2 (nat (\<lceil>1 / x\<rceil> - 1))))"

definition round_half_even :: "rat \<Rightarrow> int" where
  "round_half_even y =
     (let n = \<lfloor>y\<rfloor>; r = y - of_int n
      in if r < 1 / 2 then n else if 1 / 2 < r then n + 1 else if even n then n else n + 1)"

definition binary64 :: "rat \<Rightarrow> rat" where
  "binary64 x =
     (if x = 0 then 0
      else let u = 2 powi (max (exponent \<bar>x\<bar>) (- 1022) - 52)
           in of_int (round_half_even (x / u)) * u)"

definition js_add :: "rat \<Rightarrow> rat \<Rightarrow> rat" where
  "js_add x y = binary64 (x + y)"

definition js_sub :: "rat \<Rightarrow> rat \<Rightarrow> rat" where
  "js_sub x y = binary64 (x - y)"

definition js_mul :: "rat \<Rightarrow> rat \<Rightarrow> rat" where
  "js_mul x y = binary64 (x * y)"

definition js_div :: "rat \<Rightarrow> rat \<Rightarrow> rat" where
  "js_div x y = binary64 (x / y)"

section \<open>Output option resolvers (lib/output.js)\<close>

text \<open>\<^verbatim>\<open>_setBooleanOption(key, val)\<close>, lines 1492-1498.\<close>

definition setBooleanOption :: "string \<Rightarrow> jsval \<Rightarrow> action" where
  "setBooleanOption key val =
     (if is_bool val then assign key val
      else throw (invalidParameterError key ''boolean'' val))"

text \<open>\<^verbatim>\<open>_updateFormatOut(formatOut, options)\<close>, lines 1478-1483. The first test is the
  TypeError that reading \<^verbatim>\<open>options.force\<close> raises on null.\<close>

definition updateFormatOut :: "string \<Rightarrow> jsval \<Rightarrow> action" where
  "updateFormatOut formatOut options =
     (if is_object options \<and> options = JNull then throw nullTypeError
      else if \<not> (is_object options \<and> prop_of options ''force'' = JBool False)
        then assign ''formatOut'' (JStr formatOut)
      else skip)"

text \<open>\<^verbatim>\<open>jpeg(options)\<close>, lines 497-557.\<close>

definition jpeg :: "jsval \<Rightarrow> action" where
  "jpeg options = block [
     if is_object options then
       (if options = JNull then throw nullTypeError else block [
          if is_defined (prop_of options ''quality'') then
            (if is_integer (prop_of options ''quality'') \<and> is_inRange (prop_of options ''quality'') 1 100
             then assign ''jpegQuality'' (prop_of options ''quality'')
             else throw (invalidParameterError ''quality'' ''integer between 1 and 100''
                           (prop_of options ''quality'')))
          else skip,
          if is_defined (prop_of options ''progressive'') then
            setBooleanOption ''jpegProgressive'' (prop_of options ''progressive'')
          else skip,
          if is_defined (prop_of options ''chromaSubsampling'') then
            (if is_string (prop_of options ''chromaSubsampling'') \<and>
                is_inArray (prop_of options ''chromaSubsampling'') [JStr ''4:2:0'', JStr ''4:4:4'']
             then assign ''jpegChromaSubsampling'' (prop_of options ''chromaSubsampling'')
             else throw (invalidParameterError ''chromaSubsampling'' ''one of: 4:2:0, 4:4:4''
                           (prop_of options ''chromaSubsampling'')))
          else skip,
          (let optimiseCoding =
                 (if is_bool (prop_of options ''optimizeCoding'') then prop_of options ''optimizeCoding''
                  else prop_of options ''optimiseCoding'')
           in if is_defined optimiseCoding then setBooleanOption ''jpegOptimiseCoding'' optimiseCoding
              else skip),
          if is_defined (prop_of options ''mozjpeg'') then
            (if is_bool (prop_of options ''mozjpeg'') then
               (if truthy (prop_of options ''mozjpeg'') then block [
                  assign ''jpegTrellisQuantisation'' (JBool True),
                  assign ''jpegOvershootDeringing'' (JBool True),
                  assign ''jpegOptimiseScans'' (JBool True),
                  assign ''jpegProgressive'' (JBool True),
                  assign ''jpegQuantisationTable'' (JNum 3)]
                else skip)
             else throw (invalidParameterError ''mozjpeg'' ''boolean'' (prop_of options ''mozjpeg'')))
          else skip,
          (let trellisQuantisation =
                 (if is_bool (prop_of options ''trellisQuantization'')
                  then prop_of options ''trellisQuantization''
                  else prop_of options ''trellisQuantisation'')
           in if is_defined trellisQuantisation
              then setBooleanOption ''jpegTrellisQuantisation'' trellisQuantisation
              else skip),
          if is_defined (prop_of options ''overshootDeringing'') then
            setBooleanOption ''jpegOvershootDeringing'' (prop_of options ''overshootDeringing'')
          else skip,
          (let optimiseScans =
                 (if is_bool (prop_of options ''optimizeScans'') then prop_of options ''optimizeScans''
                  else prop_of options ''optimiseScans'')
           in if is_defined optimiseScans then block [
                setBooleanOption ''jpegOptimiseScans'' optimiseScans,
                if truthy optimiseScans then assign ''jpegProgressive'' (JBool True) else skip]
              else skip),
          (let quantisationTable =
                 (if is_number (prop_of options ''quantizationTable'')
                  then prop_of options ''quantizationTable''
                  else prop_of options ''quantisationTable'')
           in if is_defined quantisationTable then
                (if is_integer quantisationTable \<and> is_inRange quantisationTable 0 8
                 then assign ''jpegQuantisationTable'' quantisationTable
                 else throw (invalidParameterError ''quantisationTable'' ''integer between 0 and 8''
                               quantisationTable))
              else skip)])
     else skip,
     updateFormatOut ''jpeg'' options]"

text \<open>\<^verbatim>\<open>bitdepthFromColourCount\<close>, line 36:
  \<^verbatim>\<open>(colours) => 1 << 31 - Math.clz32(Math.ceil(Math.log2(colours)))\<close>, in which
  \<^verbatim>\<open>-\<close> binds tighter than \<^verbatim>\<open><<\<close>. Its callers pass integers between 2 and 256 only.

  \<^verbatim>\<open>Math.ceil(Math.log2(n))\<close> on an integer \<open>n \<ge> 1\<close> is the least \<open>k\<close> with \<open>n \<le> 2 ^ k\<close>
  (\<^verbatim>\<open>Math.log2\<close> is taken to be exact on powers of two); for \<open>n \<le> 0\<close> JavaScript yields
  NaN or -Infinity, which \<^verbatim>\<open>Math.clz32\<close> reads as 0, the value returned here.
  \<^verbatim>\<open>Math.clz32\<close> counts the leading zero bits of a 32-bit unsigned integer, and
  \<^verbatim>\<open>a << b\<close> shifts the 32-bit integer \<open>a\<close> by \<open>b mod 32\<close> and reads the result as signed.\<close>

definition math_ceil_log2 :: "int \<Rightarrow> nat" where
  "math_ceil_log2 n = (if n \<le> 1 then 0 else floorlog 2 (nat (n - 1)))"

definition math_clz32 :: "nat \<Rightarrow> nat" where
  "math_clz32 x = 32 - floorlog 2 (x mod 2 ^ 32)"

definition js_shl :: "int \<Rightarrow> int \<Rightarrow> int" where
  "js_shl a b = sint (push_bit (nat (b mod 32)) (word_of_int a :: 32 word))"

definition bitdepthFromColourCount :: "int \<Rightarrow> int" where
  "bitdepthFromColourCount colours = js_shl 1 (31 - int (math_clz32 (math_ceil_log2 colours)))"

text \<open>The integer held by a number that passed \<^verbatim>\<open>is.integer\<close>.\<close>

fun int_of :: "jsval \<Rightarrow> int" where
  "int_of (JNum r) = \<lfloor>r\<rfloor>"
| "int_of _ = 0"

definition num :: "int \<Rightarrow> jsval" where
  "num i = JNum (of_int i)"

text \<open>\<^verbatim>\<open>Array.isArray\<close> and the elements of an array.\<close>

fun isArray :: "jsval \<Rightarrow> bool" where
  "isArray (JArr xs) = True"
| "isArray _ = False"

fun elements :: "jsval \<Rightarrow> jsval list" where
  "elements (JArr xs) = xs"
| "elements _ = []"

text \<open>\<^verbatim>\<open>trySetAnimationOptions(source, target)\<close>, lines 936-957; every caller passes
  \<^verbatim>\<open>this.options\<close> as target.\<close>

definition trySetAnimationOptions :: "jsval \<Rightarrow> action" where
  "trySetAnimationOptions source = block [
     if is_object source \<and> source = JNull then throw nullTypeError
     else if is_object source \<and> is_defined (prop_of source ''loop'') then
       (if is_integer (prop_of source ''loop'') \<and> is_inRange (prop_of source ''loop'') 0 65535
        then assign ''loop'' (prop_of source ''loop'')
        else throw (invalidParameterError ''loop'' ''integer between 0 and 65535''
                      (prop_of source ''loop'')))
     else skip,
     if is_object source \<and> is_defined (prop_of source ''delay'') then
       (if is_integer (prop_of source ''delay'') \<and> is_inRange (prop_of source ''delay'') 0 65535
        then assign ''delay'' (JArr [prop_of source ''delay''])
        else if isArray (prop_of source ''delay'') \<and>
                list_all is_integer (elements (prop_of source ''delay'')) \<and>
                list_all (\<lambda>v. is_inRange v 0 65535) (elements (prop_of source ''delay''))
        then assign ''delay'' (prop_of source ''delay'')
        else throw (invalidParameterError ''delay''
                      ''integer or an array of integers between 0 and 65535''
                      (prop_of source ''delay'')))
     else skip]"

text \<open>\<^verbatim>\<open>png(options)\<close>, lines 603-656.\<close>

definition png :: "jsval \<Rightarrow> action" where
  "png options = block [
     if is_object options then
       (if options = JNull then throw nullTypeError else block [
          if is_defined (prop_of options ''progressive'') then
            setBooleanOption ''pngProgressive'' (prop_of options ''progressive'')
          else skip,
          if is_defined (prop_of options ''compressionLevel'') then
            (if is_integer (prop_of options ''compressionLevel'') \<and>
                is_inRange (prop_of options ''compressionLevel'') 0 9
             then assign ''pngCompressionLevel'' (prop_of options ''compressionLevel'')
             else throw (invalidParameterError ''compressionLevel'' ''integer between 0 and 9''
                           (prop_of options ''compressionLevel'')))
          else skip,
          if is_defined (prop_of options ''adaptiveFiltering'') then
            setBooleanOption ''pngAdaptiveFiltering'' (prop_of options ''adaptiveFiltering'')
          else skip,
          (let colours = js_or (prop_of options ''colours'') (prop_of options ''colors'')
           in if is_defined colours then
                (if is_integer colours \<and> is_inRange colours 2 256
                 then assign ''pngBitdepth'' (num (bitdepthFromColourCount (int_of colours)))
                 else throw (invalidParameterError ''colours'' ''integer between 2 and 256'' colours))
              else skip),
          if is_defined (prop_of options ''palette'') then
            setBooleanOption ''pngPalette'' (prop_of options ''palette'')
          else if list_ex is_defined
                    [prop_of options ''quality'', prop_of options ''effort'',
                     prop_of options ''colours'', prop_of options ''colors'',
                     prop_of options ''dither'']
          then setBooleanOption ''pngPalette'' (JBool True)
          else skip,
          reading (\<lambda>this. if truthy (opt this ''pngPalette'') then block [
            if is_defined (prop_of options ''quality'') then
              (if is_integer (prop_of options ''quality'') \<and> is_inRange (prop_of options ''quality'') 0 100
               then assign ''pngQuality'' (prop_of options ''quality'')
               else throw (invalidParameterError ''quality'' ''integer between 0 and 100''
                             (prop_of options ''quality'')))
            else skip,
            if is_defined (prop_of options ''effort'') then
              (if is_integer (prop_of options ''effort'') \<and> is_inRange (prop_of options ''effort'') 1 10
               then assign ''pngEffort'' (prop_of options ''effort'')
               else throw (invalidParameterError ''effort'' ''integer between 1 and 10''
                             (prop_of options ''effort'')))
            else skip,
            if is_defined (prop_of options ''dither'') then
              (if is_number (prop_of options ''dither'') \<and> is_inRange (prop_of options ''dither'') 0 1
               then assign ''pngDither'' (prop_of options ''dither'')
               else throw (invalidParameterError ''dither'' ''number between 0.0 and 1.0''
                             (prop_of options ''dither'')))
            else skip]
          else skip)])
     else skip,
     updateFormatOut ''png'' options]"

text \<open>\<^verbatim>\<open>gif(options)\<close>, lines 792-846.\<close>

definition gif :: "jsval \<Rightarrow> action" where
  "gif options = block [
     if is_object options then
       (if options = JNull then throw nullTypeError else block [
          if is_defined (prop_of options ''reuse'') then
            setBooleanOption ''gifReuse'' (prop_of options ''reuse'')
          else skip,
          if is_defined (prop_of options ''progressive'') then
            setBooleanOption ''gifProgressive'' (prop_of options ''progressive'')
          else skip,
          (let colours = js_or (prop_of options ''colours'') (prop_of options ''colors'')
           in if is_defined colours then
                (if is_integer colours \<and> is_inRange colours 2 256
                 then assign ''gifBitdepth'' (num (bitdepthFromColourCount (int_of colours)))
                 else throw (invalidParameterError ''colours'' ''integer between 2 and 256'' colours))
              else skip),
          if is_defined (prop_of options ''effort'') then
            (if is_number (prop_of options ''effort'') \<and> is_inRange (prop_of options ''effort'') 1 10
             then assign ''gifEffort'' (prop_of options ''effort'')
             else throw (invalidParameterError ''effort'' ''integer between 1 and 10''
                           (prop_of options ''effort'')))
          else skip,
          if is_defined (prop_of options ''dither'') then
            (if is_number (prop_of options ''dither'') \<and> is_inRange (prop_of options ''dither'') 0 1
             then assign ''gifDither'' (prop_of options ''dither'')
             else throw (invalidParameterError ''dither'' ''number between 0.0 and 1.0''
                           (prop_of options ''dither'')))
          else skip,
          if is_defined (prop_of options ''interFrameMaxError'') then
            (if is_number (prop_of options ''interFrameMaxError'') \<and>
                is_inRange (prop_of options ''interFrameMaxError'') 0 32
             then assign ''gifInterFrameMaxError'' (prop_of options ''interFrameMaxError'')
             else throw (invalidParameterError ''interFrameMaxError'' ''number between 0.0 and 32.0''
                           (prop_of options ''interFrameMaxError'')))
          else skip,
          if is_defined (prop_of options ''interPaletteMaxError'') then
            (if is_number (prop_of options ''interPaletteMaxError'') \<and>
                is_inRange (prop_of options ''interPaletteMaxError'') 0 256
             then assign ''gifInterPaletteMaxError'' (prop_of options ''interPaletteMaxError'')
             else throw (invalidParameterError ''interPaletteMaxError'' ''number between 0.0 and 256.0''
                           (prop_of options ''interPaletteMaxError'')))
          else skip,
          if is_defined (prop_of options ''keepDuplicateFrames'') then
            (if is_bool (prop_of options ''keepDuplicateFrames'')
             then setBooleanOption ''gifKeepDuplicateFrames'' (prop_of options ''keepDuplicateFrames'')
             else throw (invalidParameterError ''keepDuplicateFrames'' ''boolean''
                           (prop_of options ''keepDuplicateFrames'')))
          else skip])
     else skip,
     trySetAnimationOptions options,
     updateFormatOut ''gif'' options]"

text \<open>\<^verbatim>\<open>errJp2Save\<close>, line 34.\<close>

definition errJp2Save :: error where
  "errJp2Save = Error [Lit ''JP2 output requires libvips with support for OpenJPEG'']"

text \<open>\<^verbatim>\<open>webp(options)\<close>, lines 690-741.\<close>

definition webp :: "jsval \<Rightarrow> action" where
  "webp options = block [
     if is_object options then
       (if options = JNull then throw nullTypeError else block [
          if is_defined (prop_of options ''quality'') then
            (if is_integer (prop_of options ''quality'') \<and> is_inRange (prop_of options ''quality'') 1 100
             then assign ''webpQuality'' (prop_of options ''quality'')
             else throw (invalidParameterError ''quality'' ''integer between 1 and 100''
                           (prop_of options ''quality'')))
          else skip,
          if is_defined (prop_of options ''alphaQuality'') then
            (if is_integer (prop_of options ''alphaQuality'') \<and>
                is_inRange (prop_of options ''alphaQuality'') 0 100
             then assign ''webpAlphaQuality'' (prop_of options ''alphaQuality'')
             else throw (invalidParameterError ''alphaQuality'' ''integer between 0 and 100''
                           (prop_of options ''alphaQuality'')))
          else skip,
          if is_defined (prop_of options ''lossless'') then
            setBooleanOption ''webpLossless'' (prop_of options ''lossless'')
          else skip,
          if is_defined (prop_of options ''nearLossless'') then
            setBooleanOption ''webpNearLossless'' (prop_of options ''nearLossless'')
          else skip,
          if is_defined (prop_of options ''smartSubsample'') then
            setBooleanOption ''webpSmartSubsample'' (prop_of options ''smartSubsample'')
          else skip,
          if is_defined (prop_of options ''smartDeblock'') then
            setBooleanOption ''webpSmartDeblock'' (prop_of options ''smartDeblock'')
          else skip,
          if is_defined (prop_of options ''preset'') then
            (if is_string (prop_of options ''preset'') \<and>
                is_inArray (prop_of options ''preset'')
                  [JStr ''default'', JStr ''photo'', JStr ''picture'', JStr ''drawing'',
                   JStr ''icon'', JStr ''text'']
             then assign ''webpPreset'' (prop_of options ''preset'')
             else throw (invalidParameterError ''preset''
                           ''one of: default, photo, picture, drawing, icon, text''
                           (prop_of options ''preset'')))
          else skip,
          if is_defined (prop_of options ''effort'') then
            (if is_integer (prop_of options ''effort'') \<and> is_inRange (prop_of options ''effort'') 0 6
             then assign ''webpEffort'' (prop_of options ''effort'')
             else throw (invalidParameterError ''effort'' ''integer between 0 and 6''
                           (prop_of options ''effort'')))
          else skip,
          if is_defined (prop_of options ''minSize'') then
            setBooleanOption ''webpMinSize'' (prop_of options ''minSize'')
          else skip,
          if is_defined (prop_of options ''mixed'') then
            setBooleanOption ''webpMixed'' (prop_of options ''mixed'')
          else skip])
     else skip,
     trySetAnimationOptions options,
     updateFormatOut ''webp'' options]"

text \<open>\<^verbatim>\<open>jp2(options)\<close>, lines 882-924.\<close>

definition jp2 :: "env \<Rightarrow> jsval \<Rightarrow> action" where
  "jp2 env options = block [
     if \<not> jp2k_output_buffer env then throw errJp2Save else skip,
     if is_object options then
       (if options = JNull then throw nullTypeError else block [
          if is_defined (prop_of options ''quality'') then
            (if is_integer (prop_of options ''quality'') \<and> is_inRange (prop_of options ''quality'') 1 100
             then assign ''jp2Quality'' (prop_of options ''quality'')
             else throw (invalidParameterError ''quality'' ''integer between 1 and 100''
                           (prop_of options ''quality'')))
          else skip,
          if is_defined (prop_of options ''lossless'') then
            (if is_bool (prop_of options ''lossless'')
             then assign ''jp2Lossless'' (prop_of options ''lossless'')
             else throw (invalidParameterError ''lossless'' ''boolean'' (prop_of options ''lossless'')))
          else skip,
          if is_defined (prop_of options ''tileWidth'') then
            (if is_integer (prop_of options ''tileWidth'') \<and>
                is_inRange (prop_of options ''tileWidth'') 1 32768
             then assign ''jp2TileWidth'' (prop_of options ''tileWidth'')
             else throw (invalidParameterError ''tileWidth'' ''integer between 1 and 32768''
                           (prop_of options ''tileWidth'')))
          else skip,
          if is_defined (prop_of options ''tileHeight'') then
            (if is_integer (prop_of options ''tileHeight'') \<and>
                is_inRange (prop_of options ''tileHeight'') 1 32768
             then assign ''jp2TileHeight'' (prop_of options ''tileHeight'')
             else throw (invalidParameterError ''tileHeight'' ''integer between 1 and 32768''
                           (prop_of options ''tileHeight'')))
          else skip,
          if is_defined (prop_of options ''chromaSubsampling'') then
            (if is_string (prop_of options ''chromaSubsampling'') \<and>
                is_inArray (prop_of options ''chromaSubsampling'') [JStr ''4:2:0'', JStr ''4:4:4'']
             then assign ''jp2ChromaSubsampling'' (prop_of options ''chromaSubsampling'')
             else throw (invalidParameterError ''chromaSubsampling'' ''one of: 4:2:0, 4:4:4''
                           (prop_of options ''chromaSubsampling'')))
          else skip])
     else skip,
     updateFormatOut ''jp2'' options]"

text \<open>\<^verbatim>\<open>tiff(options)\<close>, lines 992-1075; \<^verbatim>\<open>v > 0\<close> on a value that passed
  \<^verbatim>\<open>is.integer\<close> or \<^verbatim>\<open>is.number\<close>.\<close>

fun positive :: "jsval \<Rightarrow> bool" where
  "positive (JNum r) = (0 < r)"
| "positive (JInfinity b) = b"
| "positive _ = False"

definition tiff :: "jsval \<Rightarrow> action" where
  "tiff options = block [
     if is_object options then
       (if options = JNull then throw nullTypeError else block [
          if is_defined (prop_of options ''quality'') then
            (if is_integer (prop_of options ''quality'') \<and> is_inRange (prop_of options ''quality'') 1 100
             then assign ''tiffQuality'' (prop_of options ''quality'')
             else throw (invalidParameterError ''quality'' ''integer between 1 and 100''
                           (prop_of options ''quality'')))
          else skip,
          if is_defined (prop_of options ''bitdepth'') then
            (if is_integer (prop_of options ''bitdepth'') \<and>
                is_inArray (prop_of options ''bitdepth'') [JNum 1, JNum 2, JNum 4, JNum 8]
             then assign ''tiffBitdepth'' (prop_of options ''bitdepth'')
             else throw (invalidParameterError ''bitdepth'' ''1, 2, 4 or 8''
                           (prop_of options ''bitdepth'')))
          else skip,
          if is_defined (prop_of options ''tile'') then
            setBooleanOption ''tiffTile'' (prop_of options ''tile'')
          else skip,
          if is_defined (prop_of options ''tileWidth'') then
            (if is_integer (prop_of options ''tileWidth'') \<and> positive (prop_of options ''tileWidth'')
             then assign ''tiffTileWidth'' (prop_of options ''tileWidth'')
             else throw (invalidParameterError ''tileWidth'' ''integer greater than zero''
                           (prop_of options ''tileWidth'')))
          else skip,
          if is_defined (prop_of options ''tileHeight'') then
            (if is_integer (prop_of options ''tileHeight'') \<and> positive (prop_of options ''tileHeight'')
             then assign ''tiffTileHeight'' (prop_of options ''tileHeight'')
             else throw (invalidParameterError ''tileHeight'' ''integer greater than zero''
                           (prop_of options ''tileHeight'')))
          else skip,
          if is_defined (prop_of options ''miniswhite'') then
            setBooleanOption ''tiffMiniswhite'' (prop_of options ''miniswhite'')
          else skip,
          if is_defined (prop_of options ''pyramid'') then
            setBooleanOption ''tiffPyramid'' (prop_of options ''pyramid'')
          else skip,
          if is_defined (prop_of options ''xres'') then
            (if is_number (prop_of options ''xres'') \<and> positive (prop_of options ''xres'')
             then assign ''tiffXres'' (prop_of options ''xres'')
             else throw (invalidParameterError ''xres'' ''number greater than zero''
                           (prop_of options ''xres'')))
          else skip,
          if is_defined (prop_of options ''yres'') then
            (if is_number (prop_of options ''yres'') \<and> positive (prop_of options ''yres'')
             then assign ''tiffYres'' (prop_of options ''yres'')
             else throw (invalidParameterError ''yres'' ''number greater than zero''
                           (prop_of options ''yres'')))
          else skip,
          if is_defined (prop_of options ''compression'') then
            (if is_string (prop_of options ''compression'') \<and>
                is_inArray (prop_of options ''compression'')
                  [JStr ''none'', JStr ''jpeg'', JStr ''deflate'', JStr ''packbits'',
                   JStr ''ccittfax4'', JStr ''lzw'', JStr ''webp'', JStr ''zstd'', JStr ''jp2k'']
             then assign ''tiffCompression'' (prop_of options ''compression'')
             else throw (invalidParameterError ''compression''
                           ''one of: none, jpeg, deflate, packbits, ccittfax4, lzw, webp, zstd, jp2k''
                           (prop_of options ''compression'')))
          else skip,
          if is_defined (prop_of options ''predictor'') then
            (if is_string (prop_of options ''predictor'') \<and>
                is_inArray (prop_of options ''predictor'')
                  [JStr ''none'', JStr ''horizontal'', JStr ''float'']
             then assign ''tiffPredictor'' (prop_of options ''predictor'')
             else throw (invalidParameterError ''predictor'' ''one of: none, horizontal, float''
                           (prop_of options ''predictor'')))
          else skip,
          if is_defined (prop_of options ''resolutionUnit'') then
            (if is_string (prop_of options ''resolutionUnit'') \<and>
                is_inArray (prop_of options ''resolutionUnit'') [JStr ''inch'', JStr ''cm'']
             then assign ''tiffResolutionUnit'' (prop_of options ''resolutionUnit'')
             else throw (invalidParameterError ''resolutionUnit'' ''one of: inch, cm''
                           (prop_of options ''resolutionUnit'')))
          else skip])
     else skip,
     updateFormatOut ''tiff'' options]"

text \<open>\<^verbatim>\<open>heif(options)\<close>, lines 1134-1183.\<close>

definition heif :: "env \<Rightarrow> jsval \<Rightarrow> action" where
  "heif env options = block [
     if is_object options then
       (if options = JNull then throw nullTypeError else block [
          if is_string (prop_of options ''compression'') \<and>
             is_inArray (prop_of options ''compression'') [JStr ''av1'', JStr ''hevc'']
          then assign ''heifCompression'' (prop_of options ''compression'')
          else throw (invalidParameterError ''compression'' ''one of: av1, hevc''
                        (prop_of options ''compression'')),
          if is_defined (prop_of options ''quality'') then
            (if is_integer (prop_of options ''quality'') \<and> is_inRange (prop_of options ''quality'') 1 100
             then assign ''heifQuality'' (prop_of options ''quality'')
             else throw (invalidParameterError ''quality'' ''integer between 1 and 100''
                           (prop_of options ''quality'')))
          else skip,
          if is_defined (prop_of options ''lossless'') then
            (if is_bool (prop_of options ''lossless'')
             then assign ''heifLossless'' (prop_of options ''lossless'')
             else throw (invalidParameterError ''lossless'' ''boolean'' (prop_of options ''lossless'')))
          else skip,
          if is_defined (prop_of options ''effort'') then
            (if is_integer (prop_of options ''effort'') \<and> is_inRange (prop_of options ''effort'') 0 9
             then assign ''heifEffort'' (prop_of options ''effort'')
             else throw (invalidParameterError ''effort'' ''integer between 0 and 9''
                           (prop_of options ''effort'')))
          else skip,
          if is_defined (prop_of options ''chromaSubsampling'') then
            (if is_string (prop_of options ''chromaSubsampling'') \<and>
                is_inArray (prop_of options ''chromaSubsampling'') [JStr ''4:2:0'', JStr ''4:4:4'']
             then assign ''heifChromaSubsampling'' (prop_of options ''chromaSubsampling'')
             else throw (invalidParameterError ''chromaSubsampling'' ''one of: 4:2:0, 4:4:4''
                           (prop_of options ''chromaSubsampling'')))
          else skip,
          if is_defined (prop_of options ''bitdepth'') then
            (if is_integer (prop_of options ''bitdepth'') \<and>
                is_inArray (prop_of options ''bitdepth'') [JNum 8, JNum 10, JNum 12]
             then block [
               if prop_of options ''bitdepth'' \<noteq> JNum 8 \<and> versions_heif env
               then throw (invalidParameterError ''bitdepth when using prebuilt binaries'' ''8''
                             (prop_of options ''bitdepth''))
               else skip,
               assign ''heifBitdepth'' (prop_of options ''bitdepth'')]
             else throw (invalidParameterError ''bitdepth'' ''8, 10 or 12''
                           (prop_of options ''bitdepth'')))
          else skip])
     else throw (invalidParameterError ''options'' ''Object'' options),
     updateFormatOut ''heif'' options]"

text \<open>\<^verbatim>\<open>avif(options)\<close>, lines 1107-1109: \<^verbatim>\<open>this.heif({ ...options, compression: 'av1' })\<close>.\<close>

definition avif :: "env \<Rightarrow> jsval \<Rightarrow> action" where
  "avif env options =
     heif env (JObj (AList.update ''compression'' (JStr ''av1'') (own_entries options)))"

text \<open>\<^verbatim>\<open>jxl(options)\<close>, lines 1207-1249. The distance of lines 1212-1214 is
  \<^verbatim>\<open>0.1 + (100 - options.quality) * 0.09\<close> or
  \<^verbatim>\<open>53 / 3000 * options.quality * options.quality - 23 / 20 * options.quality + 25\<close>, every
  operation rounded; \<^verbatim>\<open>*\<close> and \<^verbatim>\<open>/\<close> associate to the left and bind tighter than \<^verbatim>\<open>+\<close> and
  \<^verbatim>\<open>-\<close>.\<close>

definition jxl_distance_of_quality :: "rat \<Rightarrow> rat" where
  "jxl_distance_of_quality q =
     (if 30 \<le> q
      then js_add (binary64 (1 / 10)) (js_mul (js_sub 100 q) (binary64 (9 / 100)))
      else js_add (js_sub (js_mul (js_mul (js_div 53 3000) q) q) (js_mul (js_div 23 20) q)) 25)"

fun rat_of :: "jsval \<Rightarrow> rat" where
  "rat_of (JNum r) = r"
| "rat_of _ = 0"

definition jxl :: "jsval \<Rightarrow> action" where
  "jxl options = block [
     if is_object options then
       (if options = JNull then throw nullTypeError else block [
          if is_defined (prop_of options ''quality'') then
            (if is_integer (prop_of options ''quality'') \<and> is_inRange (prop_of options ''quality'') 1 100
             then assign ''jxlDistance''
                    (JNum (jxl_distance_of_quality (rat_of (prop_of options ''quality''))))
             else throw (invalidParameterError ''quality'' ''integer between 1 and 100''
                           (prop_of options ''quality'')))
          else if is_defined (prop_of options ''distance'') then
            (if is_number (prop_of options ''distance'') \<and> is_inRange (prop_of options ''distance'') 0 15
             then assign ''jxlDistance'' (prop_of options ''distance'')
             else throw (invalidParameterError ''distance'' ''number between 0.0 and 15.0''
                           (prop_of options ''distance'')))
          else skip,
          if is_defined (prop_of options ''decodingTier'') then
            (if is_integer (prop_of options ''decodingTier'') \<and>
                is_inRange (prop_of options ''decodingTier'') 0 4
             then assign ''jxlDecodingTier'' (prop_of options ''decodingTier'')
             else throw (invalidParameterError ''decodingTier'' ''integer between 0 and 4''
                           (prop_of options ''decodingTier'')))
          else skip,
          if is_defined (prop_of options ''lossless'') then
            (if is_bool (prop_of options ''lossless'')
             then assign ''jxlLossless'' (prop_of options ''lossless'')
             else throw (invalidParameterError ''lossless'' ''boolean'' (prop_of options ''lossless'')))
          else skip,
          if is_defined (prop_of options ''effort'') then
            (if is_integer (prop_of options ''effort'') \<and> is_inRange (prop_of options ''effort'') 1 9
             then assign ''jxlEffort'' (prop_of options ''effort'')
             else throw (invalidParameterError ''effort'' ''integer between 1 and 9''
                           (prop_of options ''effort'')))
          else skip])
     else skip,
     trySetAnimationOptions options,
     updateFormatOut ''jxl'' options]"

text \<open>\<^verbatim>\<open>raw(options)\<close>, lines 1276-1289; it calls \<^verbatim>\<open>_updateFormatOut('raw')\<close> without the
  options.\<close>

definition raw :: "jsval \<Rightarrow> action" where
  "raw options = block [
     if is_object options then
       (if options = JNull then throw nullTypeError else
          if is_defined (prop_of options ''depth'') then
            (if is_string (prop_of options ''depth'') \<and>
                is_inArray (prop_of options ''depth'')
                  [JStr ''char'', JStr ''uchar'', JStr ''short'', JStr ''ushort'', JStr ''int'',
                   JStr ''uint'', JStr ''float'', JStr ''complex'', JStr ''double'', JStr ''dpcomplex'']
             then assign ''rawDepth'' (prop_of options ''depth'')
             else throw (invalidParameterError ''depth''
                   ''one of: char, uchar, short, ushort, int, uint, float, complex, double, dpcomplex''
                   (prop_of options ''depth'')))
          else skip)
     else skip,
     updateFormatOut ''raw'' JUndefined]"

text \<open>Modelled from the spec: \<^verbatim>\<open>_getBackgroundColourOption\<close> and
  \<^verbatim>\<open>_setBackgroundColourOption\<close> belong to \<^verbatim>\<open>lib/colour.js\<close>, which is not among the
  sources. A background colour is an object or a string handed to the colour parser; a
  defined background is stored under the given key, an absent one changes nothing.\<close>

definition getBackgroundColourOption :: "env \<Rightarrow> jsval \<Rightarrow> error + jsval" where
  "getBackgroundColourOption env v =
     (if is_object v \<or> is_string v then colour env v
      else Inl (invalidParameterError ''background'' ''object or string'' v))"

definition setBackgroundColourOption :: "env \<Rightarrow> string \<Rightarrow> jsval \<Rightarrow> action" where
  "setBackgroundColourOption env key v =
     (if is_defined v then
        (case getBackgroundColourOption env v of
           Inl e \<Rightarrow> throw e
         | Inr c \<Rightarrow> assign key c)
      else skip)"

text \<open>\<^verbatim>\<open>a > b\<close> between an option that passed \<^verbatim>\<open>is.integer\<close> and the number held in
  \<^verbatim>\<open>this.options.tileSize\<close>; a comparison with undefined or NaN is false.\<close>

fun js_gt :: "jsval \<Rightarrow> jsval \<Rightarrow> bool" where
  "js_gt (JNum a) (JNum b) = (b < a)"
| "js_gt (JNum a) (JInfinity b) = (\<not> b)"
| "js_gt _ _ = False"

text \<open>\<^verbatim>\<open>tile(options)\<close>, lines 1337-1431; it calls \<^verbatim>\<open>_updateFormatOut('dz')\<close> without the
  options. \<^verbatim>\<open>!(angle % 90)\<close> is asked of an integer.\<close>

definition tile :: "env \<Rightarrow> jsval \<Rightarrow> action" where
  "tile env options = block [
     if is_object options then
       (if options = JNull then throw nullTypeError else block [
          if is_defined (prop_of options ''size'') then
            (if is_integer (prop_of options ''size'') \<and> is_inRange (prop_of options ''size'') 1 8192
             then assign ''tileSize'' (prop_of options ''size'')
             else throw (invalidParameterError ''size'' ''integer between 1 and 8192''
                           (prop_of options ''size'')))
          else skip,
          if is_defined (prop_of options ''overlap'') then
            (if is_integer (prop_of options ''overlap'') \<and> is_inRange (prop_of options ''overlap'') 0 8192
             then reading (\<lambda>this. block [
               if js_gt (prop_of options ''overlap'') (opt this ''tileSize'')
               then throw (InvalidParameter ''overlap''
                             [Lit ''<= size ('', Val (opt this ''tileSize''), Lit '')'']
                             (prop_of options ''overlap''))
               else skip,
               assign ''tileOverlap'' (prop_of options ''overlap'')])
             else throw (invalidParameterError ''overlap'' ''integer between 0 and 8192''
                           (prop_of options ''overlap'')))
          else skip,
          if is_defined (prop_of options ''container'') then
            (if is_string (prop_of options ''container'') \<and>
                is_inArray (prop_of options ''container'') [JStr ''fs'', JStr ''zip'']
             then assign ''tileContainer'' (prop_of options ''container'')
             else throw (invalidParameterError ''container'' ''one of: fs, zip''
                           (prop_of options ''container'')))
          else skip,
          if is_defined (prop_of options ''layout'') then
            (if is_string (prop_of options ''layout'') \<and>
                is_inArray (prop_of options ''layout'')
                  [JStr ''dz'', JStr ''google'', JStr ''iiif'', JStr ''iiif3'', JStr ''zoomify'']
             then assign ''tileLayout'' (prop_of options ''layout'')
             else throw (invalidParameterError ''layout'' ''one of: dz, google, iiif, iiif3, zoomify''
                           (prop_of options ''layout'')))
          else skip,
          if is_defined (prop_of options ''angle'') then
            (if is_integer (prop_of options ''angle'') \<and> int_of (prop_of options ''angle'') mod 90 = 0
             then assign ''tileAngle'' (prop_of options ''angle'')
             else throw (invalidParameterError ''angle'' ''positive/negative multiple of 90''
                           (prop_of options ''angle'')))
          else skip,
          setBackgroundColourOption env ''tileBackground'' (prop_of options ''background''),
          if is_defined (prop_of options ''depth'') then
            (if is_string (prop_of options ''depth'') \<and>
                is_inArray (prop_of options ''depth'') [JStr ''onepixel'', JStr ''onetile'', JStr ''one'']
             then assign ''tileDepth'' (prop_of options ''depth'')
             else throw (invalidParameterError ''depth'' ''one of: onepixel, onetile, one''
                           (prop_of options ''depth'')))
          else skip,
          if is_defined (prop_of options ''skipBlanks'') then
            (if is_integer (prop_of options ''skipBlanks'') \<and>
                is_inRange (prop_of options ''skipBlanks'') (-1) 65535
             then assign ''tileSkipBlanks'' (prop_of options ''skipBlanks'')
             else throw (invalidParameterError ''skipBlanks'' ''integer between -1 and 255/65535''
                           (prop_of options ''skipBlanks'')))
          else if is_defined (prop_of options ''layout'') \<and> prop_of options ''layout'' = JStr ''google''
          then assign ''tileSkipBlanks'' (JNum 5)
          else skip,
          (let centre = (if is_bool (prop_of options ''center'') then prop_of options ''center''
                         else prop_of options ''centre'')
           in if is_defined centre then setBooleanOption ''tileCentre'' centre else skip),
          if is_defined (prop_of options ''id'') then
            (if is_string (prop_of options ''id'')
             then assign ''tileId'' (prop_of options ''id'')
             else throw (invalidParameterError ''id'' ''string'' (prop_of options ''id'')))
          else skip,
          if is_defined (prop_of options ''basename'') then
            (if is_string (prop_of options ''basename'')
             then assign ''tileBasename'' (prop_of options ''basename'')
             else throw (invalidParameterError ''basename'' ''string'' (prop_of options ''basename'')))
          else skip])
     else skip,
     reading (\<lambda>this.
       if is_inArray (opt this ''formatOut'') [JStr ''jpeg'', JStr ''png'', JStr ''webp'']
       then assign ''tileFormat'' (opt this ''formatOut'')
       else if opt this ''formatOut'' \<noteq> JStr ''input''
       then throw (invalidParameterError ''format'' ''one of: jpeg, png, webp'' (opt this ''formatOut''))
       else skip),
     updateFormatOut ''dz'' JUndefined]"

section \<open>Metadata retention (lib/output.js)\<close>

text \<open>\<^verbatim>\<open>this.options.keepMetadata\<close> holds a number; \<^verbatim>\<open>|=\<close> and \<^verbatim>\<open>&=\<close> read it as a 32-bit
  integer (the fractional part dropped, undefined and NaN as 0) and store the signed
  result.\<close>

fun to_int32 :: "jsval \<Rightarrow> 32 word" where
  "to_int32 (JNum r) = word_of_int (if 0 \<le> r then \<lfloor>r\<rfloor> else \<lceil>r\<rceil>)"
| "to_int32 (JBool b) = (if b then 1 else 0)"
| "to_int32 _ = 0"

definition of_int32 :: "32 word \<Rightarrow> jsval" where
  "of_int32 w = JNum (of_int (sint w))"

text \<open>\<^verbatim>\<open>keepExif()\<close>, lines 181-184; \<^verbatim>\<open>keepIccProfile()\<close>, lines 270-273; \<^verbatim>\<open>keepXmp()\<close>,
  lines 327-330; \<^verbatim>\<open>keepMetadata()\<close>, lines 383-386.\<close>

definition keepExif :: action where
  "keepExif = reading (\<lambda>this.
     assign ''keepMetadata'' (of_int32 (to_int32 (opt this ''keepMetadata'') OR 1)))"

definition keepIccProfile :: action where
  "keepIccProfile = reading (\<lambda>this.
     assign ''keepMetadata'' (of_int32 (to_int32 (opt this ''keepMetadata'') OR 8)))"

definition keepXmp :: action where
  "keepXmp = reading (\<lambda>this.
     assign ''keepMetadata'' (of_int32 (to_int32 (opt this ''keepMetadata'') OR 2)))"

definition keepMetadata :: action where
  "keepMetadata = assign ''keepMetadata'' (JNum 31)"

text \<open>The assignment \<^verbatim>\<open>this.options[obj][key] = v\<close>; \<^verbatim>\<open>this.options.withExif\<close> is a plain
  object, and an assignment into anything else is given as a TypeError.\<close>

definition assign_member :: "string \<Rightarrow> string \<Rightarrow> jsval \<Rightarrow> action" where
  "assign_member obj key v = reading (\<lambda>this.
     case opt this obj of
       JObj kvs \<Rightarrow> assign obj (JObj (AList.update key v kvs))
     | _ \<Rightarrow> throw (TypeError ''Cannot set properties''))"

text \<open>\<^verbatim>\<open>withExif(exif)\<close>, lines 210-230. A \<^verbatim>\<open>for ... of Object.entries(x)\<close> loop is the block of
  its iterations; \<^verbatim>\<open>Object.entries(null)\<close> throws a TypeError.\<close>

definition withExif :: "jsval \<Rightarrow> action" where
  "withExif exif = block [
     if is_object exif then
       (if exif = JNull then throw (TypeError ''Cannot convert undefined or null to object'')
        else block (map (\<lambda>(ifd, entries).
          if is_object entries then
            (if entries = JNull
             then throw (TypeError ''Cannot convert undefined or null to object'')
             else block (map (\<lambda>(k, v).
               if is_string v
               then assign_member ''withExif'' (''exif-'' @ toLowerCase ifd @ ''-'' @ k) v
               else throw (invalidParameterError (ifd @ ''.'' @ k) ''string'' v))
               (own_entries entries)))
          else throw (invalidParameterError ifd ''object'' entries))
          (own_entries exif)))
     else throw (invalidParameterError ''exif'' ''object'' exif),
     assign ''withExifMerge'' (JBool False),
     keepExif]"

text \<open>\<^verbatim>\<open>withExifMerge(exif)\<close>, lines 250-254.\<close>

definition withExifMerge :: "jsval \<Rightarrow> action" where
  "withExifMerge exif = block [withExif exif, assign ''withExifMerge'' (JBool True)]"

text \<open>\<^verbatim>\<open>withIccProfile(icc, options)\<close>, lines 294-313.\<close>

definition withIccProfile :: "jsval \<Rightarrow> jsval \<Rightarrow> action" where
  "withIccProfile icc options = block [
     if is_string icc then assign ''withIccProfile'' icc
     else throw (invalidParameterError ''icc'' ''string'' icc),
     keepIccProfile,
     if is_object options then
       (if options = JNull then throw nullTypeError
        else if is_defined (prop_of options ''attach'') then
          (if is_bool (prop_of options ''attach'') then
             (if \<not> truthy (prop_of options ''attach'') then
                reading (\<lambda>this. assign ''keepMetadata''
                  (of_int32 (to_int32 (opt this ''keepMetadata'') AND NOT 8)))
              else skip)
           else throw (invalidParameterError ''attach'' ''boolean'' (prop_of options ''attach'')))
        else skip)
     else skip]"

text \<open>\<^verbatim>\<open>withXmp(xmp)\<close>, lines 358-366.\<close>

fun str_length :: "jsval \<Rightarrow> nat" where
  "str_length (JStr s) = length s"
| "str_length _ = 0"

definition withXmp :: "jsval \<Rightarrow> action" where
  "withXmp xmp =
     (if is_string xmp \<and> 0 < str_length xmp then block [
        assign ''withXmp'' xmp,
        reading (\<lambda>this.
          assign ''keepMetadata'' (of_int32 (to_int32 (opt this ''keepMetadata'') OR 2)))]
      else throw (invalidParameterError ''xmp'' ''non-empty string'' xmp))"

text \<open>Bit \<open>n\<close> of the retention mask.\<close>

definition keep_bit :: "joboptions \<Rightarrow> nat \<Rightarrow> bool" where
  "keep_bit this n = bit (to_int32 (opt this ''keepMetadata'')) n"

section \<open>Execution dispatch (lib/output.js)\<close>

text \<open>\<^verbatim>\<open>_isStreamInput()\<close>, lib/input.js lines 563-565. \<^verbatim>\<open>this.options.input\<close> is the input
  descriptor, which every instance holds; on Job Options without it, where JavaScript
  raises a TypeError, the read gives undefined here.\<close>

definition isStreamInput :: "joboptions \<Rightarrow> bool" where
  "isStreamInput this = isArray (prop_of (opt this ''input'') ''buffer'')"

text \<open>\<^verbatim>\<open>_pipeline(callback, stack)\<close>, lines 1518-1615, is the only caller of the engine's
  \<^verbatim>\<open>sharp.pipeline\<close>. What is kept of it is when it calls the engine (at once, or when the
  input stream has finished) and through which surface the result is delivered.\<close>

datatype delivery = ByCallback | ByStream | ByPromise

datatype dispatch = EngineCalled delivery | EngineOnFinish delivery

definition pipeline :: "jsval \<Rightarrow> joboptions \<Rightarrow> dispatch" where
  "pipeline callback this =
     (if is_fn callback then
        (if isStreamInput this then EngineOnFinish ByCallback else EngineCalled ByCallback)
      else if truthy (opt this ''streamOut'') then
        (if isStreamInput this then EngineOnFinish ByStream else EngineCalled ByStream)
      else
        (if isStreamInput this then EngineOnFinish ByPromise else EngineCalled ByPromise))"

text \<open>\<^verbatim>\<open>jp2Regex\<close>, line 32: \<^verbatim>\<open>/\.(jp[2x]|j2[kc])$/i\<close>, tested on an extension.\<close>

definition jp2Regex_test :: "string \<Rightarrow> bool" where
  "jp2Regex_test s =
     (4 \<le> length s \<and>
      toLowerCase (drop (length s - 4) s) \<in> set [''.jp2'', ''.jpx'', ''.j2k'', ''.j2c''])"

text \<open>\<^verbatim>\<open>toFile(fileOut, callback)\<close>, lines 73-94. The call ends in one of three ways: the
  callback is called with the error, a rejected promise is returned, or \<^verbatim>\<open>_pipeline\<close> is
  entered.\<close>

datatype toFile_result = CallbackCalled error | PromiseRejected error | Pipeline dispatch

fun str_of :: "jsval \<Rightarrow> string" where
  "str_of (JStr s) = s"
| "str_of _ = []"

definition toFile :: "env \<Rightarrow> jsval \<Rightarrow> jsval \<Rightarrow> joboptions \<Rightarrow> toFile_result \<times> joboptions" where
  "toFile env fileOut callback this =
     (let err =
        (if \<not> is_string fileOut then Some (Error [Lit ''Missing output file path''])
         else if is_string (prop_of (opt this ''input'') ''file'') \<and>
                 path_resolve env (str_of (prop_of (opt this ''input'') ''file'')) =
                   path_resolve env (str_of fileOut)
           then Some (Error [Lit ''Cannot use same file for input and output''])
         else if jp2Regex_test (path_extname env (str_of fileOut)) \<and> \<not> jp2k_output_file env
           then Some errJp2Save
         else None)
      in case err of
           Some e \<Rightarrow>
             (if is_fn callback then (CallbackCalled e, this) else (PromiseRejected e, this))
         | None \<Rightarrow>
             (Pipeline (pipeline callback (this(''fileOut'' \<mapsto> fileOut))),
              this(''fileOut'' \<mapsto> fileOut)))"

section \<open>Input descriptor builder (lib/input.js)\<close>

text \<open>The input descriptor is the local object \<^verbatim>\<open>inputDescriptor\<close>; its statements work on
  the list of its properties.\<close>

type_synonym descriptor = "(string \<times> jsval) list"

definition set_field :: "string \<Rightarrow> jsval \<Rightarrow> descriptor stmt" where
  "set_field k v d = (None, AList.update k v d)"

definition delete_field :: "string \<Rightarrow> descriptor stmt" where
  "delete_field k d = (None, AList.delete k d)"

definition set_colour :: "env \<Rightarrow> string \<Rightarrow> jsval \<Rightarrow> descriptor stmt" where
  "set_colour env k v =
     (case getBackgroundColourOption env v of Inl e \<Rightarrow> throw e | Inr c \<Rightarrow> set_field k c)"

text \<open>\<^verbatim>\<open>align\<close>, lines 14-23.\<close>

definition align :: "string \<Rightarrow> jsval" where
  "align k =
     (case map_of [(''left'', ''low''), (''top'', ''low''), (''low'', ''low''),
                   (''center'', ''centre''), (''centre'', ''centre''), (''right'', ''high''),
                   (''bottom'', ''high''), (''high'', ''high'')] k of
        Some v \<Rightarrow> JStr v
      | None \<Rightarrow> JUndefined)"

text \<open>\<^verbatim>\<open>inputStreamParameters\<close>, lines 25-34, and \<^verbatim>\<open>_inputOptionsFromObject(obj)\<close>,
  lines 40-47.\<close>

definition inputStreamParameters :: "string list" where
  "inputStreamParameters =
     [''failOn'', ''limitInputPixels'', ''unlimited'',
      ''animated'', ''autoOrient'', ''density'', ''ignoreIcc'', ''page'', ''pages'', ''sequentialRead'',
      ''jp2'', ''openSlide'', ''pdf'', ''raw'', ''svg'', ''tiff'',
      ''failOnError'', ''openSlideLevel'', ''pdfBackground'', ''tiffSubifd'']"

definition inputOptionsFromObject :: "jsval \<Rightarrow> jsval" where
  "inputOptionsFromObject obj =
     (let params = map (\<lambda>p. (p, prop_of obj p))
                     (filter (\<lambda>p. is_defined (prop_of obj p)) inputStreamParameters)
      in if length params \<noteq> 0 then JObj params else JUndefined)"

text \<open>The conversion to a number that \<^verbatim>\<open>>=\<close> and \<^verbatim>\<open><=\<close> apply to an operand.\<close>

fun to_number :: "env \<Rightarrow> jsval \<Rightarrow> jsval" where
  "to_number env (JNum r) = JNum r"
| "to_number env JNaN = JNaN"
| "to_number env (JInfinity b) = JInfinity b"
| "to_number env JUndefined = JNaN"
| "to_number env JNull = JNum 0"
| "to_number env (JBool b) = JNum (if b then 1 else 0)"
| "to_number env v = toNumber env v"

text \<open>Typed arrays: \<^verbatim>\<open>BYTES_PER_ELEMENT\<close>, \<^verbatim>\<open>byteLength\<close>, and \<^verbatim>\<open>Buffer.from(arrayBuffer,
  byteOffset, length)\<close>, which throws a RangeError outside the bounds of the region.\<close>

fun bytes_per_element :: "array_kind \<Rightarrow> nat" where
  "bytes_per_element Uint8Array = 1"
| "bytes_per_element Uint8ClampedArray = 1"
| "bytes_per_element Int8Array = 1"
| "bytes_per_element Uint16Array = 2"
| "bytes_per_element Int16Array = 2"
| "bytes_per_element Uint32Array = 4"
| "bytes_per_element Int32Array = 4"
| "bytes_per_element Float32Array = 4"
| "bytes_per_element Float64Array = 8"

definition buffer_from :: "8 word list \<Rightarrow> nat \<Rightarrow> nat \<Rightarrow> error + jsval" where
  "buffer_from bytes byteOffset len =
     (if byteOffset + len \<le> length bytes then Inr (JBuffer (take len (drop byteOffset bytes)))
      else Inl (RangeError ''offset or length is outside of buffer bounds''))"

text \<open>The \<^verbatim>\<open>switch (input.constructor)\<close> of lines 188-217.\<close>

fun rawDepth_of :: "jsval \<Rightarrow> string" where
  "rawDepth_of (JTypedArray Uint8Array bs off xs) = ''uchar''"
| "rawDepth_of (JTypedArray Uint8ClampedArray bs off xs) = ''uchar''"
| "rawDepth_of (JTypedArray Int8Array bs off xs) = ''char''"
| "rawDepth_of (JTypedArray Uint16Array bs off xs) = ''ushort''"
| "rawDepth_of (JTypedArray Int16Array bs off xs) = ''short''"
| "rawDepth_of (JTypedArray Uint32Array bs off xs) = ''uint''"
| "rawDepth_of (JTypedArray Int32Array bs off xs) = ''int''"
| "rawDepth_of (JTypedArray Float32Array bs off xs) = ''float''"
| "rawDepth_of (JTypedArray Float64Array bs off xs) = ''double''"
| "rawDepth_of _ = ''uchar''"

text \<open>Lines 54-61: the descriptor a build starts from; \<^verbatim>\<open>Math.pow(0x3FFF, 2)\<close> is
  268402689.\<close>

definition initialDescriptor :: descriptor where
  "initialDescriptor =
     [(''autoOrient'', JBool False), (''failOn'', JStr ''warning''),
      (''limitInputPixels'', JNum 268402689), (''ignoreIcc'', JBool False),
      (''unlimited'', JBool False), (''sequentialRead'', JBool True)]"

text \<open>The properties \<^verbatim>\<open>length\<close>, \<^verbatim>\<open>byteLength\<close>, \<^verbatim>\<open>buffer\<close> and \<^verbatim>\<open>byteOffset\<close> of binary
  data.\<close>

fun js_length :: "jsval \<Rightarrow> nat" where
  "js_length (JBuffer bs) = length bs"
| "js_length (JTypedArray kind bs off xs) = length xs"
| "js_length (JArr xs) = length xs"
| "js_length (JStr s) = length s"
| "js_length _ = 0"

fun byteLength :: "jsval \<Rightarrow> nat" where
  "byteLength (JArrayBuffer bs) = length bs"
| "byteLength (JBuffer bs) = length bs"
| "byteLength (JTypedArray kind bs off xs) = length xs * bytes_per_element kind"
| "byteLength _ = 0"

fun backing :: "jsval \<Rightarrow> 8 word list" where
  "backing (JArrayBuffer bs) = bs"
| "backing (JTypedArray kind bs off xs) = bs"
| "backing _ = []"

fun byteOffset :: "jsval \<Rightarrow> nat" where
  "byteOffset (JTypedArray kind bs off xs) = off"
| "byteOffset _ = 0"

text \<open>Lines 62-90 and 103-107 of \<^verbatim>\<open>_createInputDescriptor\<close>: the source kinds other than an
  array of inputs, in the order the code tests them. The result is the descriptor and the
  options object that the validation below reads (a plain-object input is its own
  options). Reading \<^verbatim>\<open>containerOptions.allowStream\<close> of null is a TypeError.\<close>

definition sourceKind :: "jsval \<Rightarrow> jsval \<Rightarrow> jsval \<Rightarrow> error + (descriptor \<times> jsval)" where
  "sourceKind input inputOptions containerOptions =
     (if is_string input then
        Inr (AList.update ''file'' input initialDescriptor, inputOptions)
      else if is_buffer input then
        (if js_length input = 0 then Inl (Error [Lit ''Input Buffer is empty''])
         else Inr (AList.update ''buffer'' input initialDescriptor, inputOptions))
      else if is_arrayBuffer input then
        (if byteLength input = 0 then Inl (Error [Lit ''Input bit Array is empty''])
         else (case buffer_from (backing input) 0 (byteLength input) of
                 Inl e \<Rightarrow> Inl e
               | Inr b \<Rightarrow> Inr (AList.update ''buffer'' b initialDescriptor, inputOptions)))
      else if is_typedArray input then
        (if js_length input = 0 then Inl (Error [Lit ''Input Bit Array is empty''])
         else (case buffer_from (backing input) (byteOffset input) (byteLength input) of
                 Inl e \<Rightarrow> Inl e
               | Inr b \<Rightarrow> Inr (AList.update ''buffer'' b initialDescriptor, inputOptions)))
      else if is_plainObject input \<and> \<not> is_defined inputOptions then
        (if truthy (inputOptionsFromObject input)
         then Inr (AList.update ''buffer'' (JArr []) initialDescriptor, input)
         else Inr (initialDescriptor, input))
      else if \<not> is_defined input \<and> \<not> is_defined inputOptions \<and> is_object containerOptions \<and>
              containerOptions = JNull then
        Inl nullTypeError
      else if \<not> is_defined input \<and> \<not> is_defined inputOptions \<and> is_object containerOptions \<and>
              truthy (prop_of containerOptions ''allowStream'') then
        Inr (AList.update ''buffer'' (JArr []) initialDescriptor, inputOptions)
      else
        Inl (Error ([Lit (''Unsupported input '' @ [CHR 0x27]), Val input,
                     Lit ([CHR 0x27] @ '' of type ''), TypeOf input] @
                    (if is_defined inputOptions
                     then [Lit '' when also providing options of type '', TypeOf inputOptions]
                     else []))))"

text \<open>Lines 108-517 of \<^verbatim>\<open>_createInputDescriptor\<close>: the validation of the input options, a
  sequence of statements on the descriptor. It reads \<^verbatim>\<open>this.options.join\<close> and the
  constructor of the input; reading a property of a null sub-object is a TypeError.\<close>

definition inputOptions_raw :: "jsval \<Rightarrow> jsval \<Rightarrow> descriptor stmt" where
  "inputOptions_raw input rawOptions = block [
     if is_object rawOptions \<and>
        is_integer (prop_of rawOptions ''width'') \<and> positive (prop_of rawOptions ''width'') \<and>
        is_integer (prop_of rawOptions ''height'') \<and> positive (prop_of rawOptions ''height'') \<and>
        is_integer (prop_of rawOptions ''channels'') \<and> is_inRange (prop_of rawOptions ''channels'') 1 4
     then block [
       set_field ''rawWidth'' (prop_of rawOptions ''width''),
       set_field ''rawHeight'' (prop_of rawOptions ''height''),
       set_field ''rawChannels'' (prop_of rawOptions ''channels''),
       set_field ''rawDepth'' (JStr (rawDepth_of input))]
     else throw (Error [Lit ''Expected width, height and channels for raw pixel input'']),
     set_field ''rawPremultiplied'' (JBool False),
     if is_defined (prop_of rawOptions ''premultiplied'') then
       (if is_bool (prop_of rawOptions ''premultiplied'')
        then set_field ''rawPremultiplied'' (prop_of rawOptions ''premultiplied'')
        else throw (invalidParameterError ''raw.premultiplied'' ''boolean''
                      (prop_of rawOptions ''premultiplied'')))
     else skip,
     set_field ''rawPageHeight'' (JNum 0),
     if is_defined (prop_of rawOptions ''pageHeight'') then
       (if is_integer (prop_of rawOptions ''pageHeight'') \<and> positive (prop_of rawOptions ''pageHeight'') \<and>
           rat_of (prop_of rawOptions ''pageHeight'') \<le> rat_of (prop_of rawOptions ''height'')
        then block [
          if int_of (prop_of rawOptions ''height'') mod int_of (prop_of rawOptions ''pageHeight'') \<noteq> 0
          then throw (Error [Lit ''Expected raw.height '', Val (prop_of rawOptions ''height''),
                             Lit '' to be a multiple of raw.pageHeight '',
                             Val (prop_of rawOptions ''pageHeight'')])
          else skip,
          set_field ''rawPageHeight'' (prop_of rawOptions ''pageHeight'')]
        else throw (invalidParameterError ''raw.pageHeight'' ''positive integer''
                      (prop_of rawOptions ''pageHeight'')))
     else skip]"

definition inputOptions_create :: "env \<Rightarrow> jsval \<Rightarrow> descriptor stmt" where
  "inputOptions_create env create =
     (if is_object create \<and>
         is_integer (prop_of create ''width'') \<and> positive (prop_of create ''width'') \<and>
         is_integer (prop_of create ''height'') \<and> positive (prop_of create ''height'') \<and>
         is_integer (prop_of create ''channels'')
      then block [
        set_field ''createWidth'' (prop_of create ''width''),
        set_field ''createHeight'' (prop_of create ''height''),
        set_field ''createChannels'' (prop_of create ''channels''),
        set_field ''createPageHeight'' (JNum 0),
        if is_defined (prop_of create ''pageHeight'') then
          (if is_integer (prop_of create ''pageHeight'') \<and> positive (prop_of create ''pageHeight'') \<and>
              rat_of (prop_of create ''pageHeight'') \<le> rat_of (prop_of create ''height'')
           then block [
             if int_of (prop_of create ''height'') mod int_of (prop_of create ''pageHeight'') \<noteq> 0
             then throw (Error [Lit ''Expected create.height '', Val (prop_of create ''height''),
                                Lit '' to be a multiple of create.pageHeight '',
                                Val (prop_of create ''pageHeight'')])
             else skip,
             set_field ''createPageHeight'' (prop_of create ''pageHeight'')]
           else throw (invalidParameterError ''create.pageHeight'' ''positive integer''
                         (prop_of create ''pageHeight'')))
        else skip,
        if is_defined (prop_of create ''noise'') then block [
          if \<not> is_object (prop_of create ''noise'')
          then throw (Error [Lit ''Expected noise to be an object'']) else skip,
          if prop_of (prop_of create ''noise'') ''type'' \<noteq> JStr ''gaussian''
          then throw (Error [Lit ''Only gaussian noise is supported at the moment'']) else skip,
          set_field ''createNoiseType'' (prop_of (prop_of create ''noise'') ''type''),
          if \<not> is_inRange (prop_of create ''channels'') 1 4
          then throw (invalidParameterError ''create.channels'' ''number between 1 and 4''
                        (prop_of create ''channels''))
          else skip,
          set_field ''createNoiseMean'' (JNum 128),
          if is_defined (prop_of (prop_of create ''noise'') ''mean'') then
            (if is_number (prop_of (prop_of create ''noise'') ''mean'') \<and>
                is_inRange (prop_of (prop_of create ''noise'') ''mean'') 0 10000
             then set_field ''createNoiseMean'' (prop_of (prop_of create ''noise'') ''mean'')
             else throw (invalidParameterError ''create.noise.mean'' ''number between 0 and 10000''
                           (prop_of (prop_of create ''noise'') ''mean'')))
          else skip,
          set_field ''createNoiseSigma'' (JNum 30),
          if is_defined (prop_of (prop_of create ''noise'') ''sigma'') then
            (if is_number (prop_of (prop_of create ''noise'') ''sigma'') \<and>
                is_inRange (prop_of (prop_of create ''noise'') ''sigma'') 0 10000
             then set_field ''createNoiseSigma'' (prop_of (prop_of create ''noise'') ''sigma'')
             else throw (invalidParameterError ''create.noise.sigma'' ''number between 0 and 10000''
                           (prop_of (prop_of create ''noise'') ''sigma'')))
          else skip]
        else if is_defined (prop_of create ''background'') then block [
          if \<not> is_inRange (prop_of create ''channels'') 3 4
          then throw (invalidParameterError ''create.channels'' ''number between 3 and 4''
                        (prop_of create ''channels''))
          else skip,
          set_colour env ''createBackground'' (prop_of create ''background'')]
        else throw (Error [Lit ''Expected valid noise or background to create a new input image'']),
        delete_field ''buffer'']
      else throw (Error [Lit ''Expected valid width, height and channels to create a new input image'']))"

definition inputOptions_text :: "jsval \<Rightarrow> descriptor stmt" where
  "inputOptions_text textOptions =
     (if is_object textOptions \<and> is_string (prop_of textOptions ''text'') then block [
        set_field ''textValue'' (prop_of textOptions ''text''),
        if is_defined (prop_of textOptions ''height'') \<and> is_defined (prop_of textOptions ''dpi'')
        then throw (Error [Lit ''Expected only one of dpi or height'']) else skip,
        if is_defined (prop_of textOptions ''font'') then
          (if is_string (prop_of textOptions ''font'')
           then set_field ''textFont'' (prop_of textOptions ''font'')
           else throw (invalidParameterError ''text.font'' ''string'' (prop_of textOptions ''font'')))
        else skip,
        if is_defined (prop_of textOptions ''fontfile'') then
          (if is_string (prop_of textOptions ''fontfile'')
           then set_field ''textFontfile'' (prop_of textOptions ''fontfile'')
           else throw (invalidParameterError ''text.fontfile'' ''string''
                         (prop_of textOptions ''fontfile'')))
        else skip,
        if is_defined (prop_of textOptions ''width'') then
          (if is_integer (prop_of textOptions ''width'') \<and> positive (prop_of textOptions ''width'')
           then set_field ''textWidth'' (prop_of textOptions ''width'')
           else throw (invalidParameterError ''text.width'' ''positive integer''
                         (prop_of textOptions ''width'')))
        else skip,
        if is_defined (prop_of textOptions ''height'') then
          (if is_integer (prop_of textOptions ''height'') \<and> positive (prop_of textOptions ''height'')
           then set_field ''textHeight'' (prop_of textOptions ''height'')
           else throw (invalidParameterError ''text.height'' ''positive integer''
                         (prop_of textOptions ''height'')))
        else skip,
        if is_defined (prop_of textOptions ''align'') then
          (if is_string (prop_of textOptions ''align'') \<and>
              is_string (align (str_of (prop_of textOptions ''align'')))
           then set_field ''textAlign'' (align (str_of (prop_of textOptions ''align'')))
           else throw (invalidParameterError ''text.align'' ''valid alignment''
                         (prop_of textOptions ''align'')))
        else skip,
        if is_defined (prop_of textOptions ''justify'') then
          (if is_bool (prop_of textOptions ''justify'')
           then set_field ''textJustify'' (prop_of textOptions ''justify'')
           else throw (invalidParameterError ''text.justify'' ''boolean''
                         (prop_of textOptions ''justify'')))
        else skip,
        if is_defined (prop_of textOptions ''dpi'') then
          (if is_integer (prop_of textOptions ''dpi'') \<and> is_inRange (prop_of textOptions ''dpi'') 1 1000000
           then set_field ''textDpi'' (prop_of textOptions ''dpi'')
           else throw (invalidParameterError ''text.dpi'' ''integer between 1 and 1000000''
                         (prop_of textOptions ''dpi'')))
        else skip,
        if is_defined (prop_of textOptions ''rgba'') then
          (if is_bool (prop_of textOptions ''rgba'')
           then set_field ''textRgba'' (prop_of textOptions ''rgba'')
           else throw (invalidParameterError ''text.rgba'' ''bool'' (prop_of textOptions ''rgba'')))
        else skip,
        if is_defined (prop_of textOptions ''spacing'') then
          (if is_integer (prop_of textOptions ''spacing'') \<and>
              is_inRange (prop_of textOptions ''spacing'') (-1000000) 1000000
           then set_field ''textSpacing'' (prop_of textOptions ''spacing'')
           else throw (invalidParameterError ''text.spacing''
                         ''integer between -1000000 and 1000000''
                         (prop_of textOptions ''spacing'')))
        else skip,
        if is_defined (prop_of textOptions ''wrap'') then
          (if is_string (prop_of textOptions ''wrap'') \<and>
              is_inArray (prop_of textOptions ''wrap'')
                [JStr ''word'', JStr ''char'', JStr ''word-char'', JStr ''none'']
           then set_field ''textWrap'' (prop_of textOptions ''wrap'')
           else throw (invalidParameterError ''text.wrap'' ''one of: word, char, word-char, none''
                         (prop_of textOptions ''wrap'')))
        else skip,
        delete_field ''buffer'']
      else throw (Error [Lit ''Expected a valid string to create an image with text.'']))"

definition inputOptions_join :: "env \<Rightarrow> joboptions \<Rightarrow> jsval \<Rightarrow> descriptor stmt" where
  "inputOptions_join env this joinOptions =
     (if is_defined (opt this ''join'') then block [
        if is_defined (prop_of joinOptions ''animated'') then
          (if is_bool (prop_of joinOptions ''animated'')
           then set_field ''joinAnimated'' (prop_of joinOptions ''animated'')
           else throw (invalidParameterError ''join.animated'' ''boolean''
                         (prop_of joinOptions ''animated'')))
        else skip,
        if is_defined (prop_of joinOptions ''across'') then
          (if is_integer (prop_of joinOptions ''across'') \<and>
              is_inRange (prop_of joinOptions ''across'') 1 1000000
           then set_field ''joinAcross'' (prop_of joinOptions ''across'')
           else throw (invalidParameterError ''join.across'' ''integer between 1 and 100000''
                         (prop_of joinOptions ''across'')))
        else skip,
        if is_defined (prop_of joinOptions ''shim'') then
          (if is_integer (prop_of joinOptions ''shim'') \<and>
              is_inRange (prop_of joinOptions ''shim'') 0 1000000
           then set_field ''joinShim'' (prop_of joinOptions ''shim'')
           else throw (invalidParameterError ''join.shim'' ''integer between 0 and 100000''
                         (prop_of joinOptions ''shim'')))
        else skip,
        if is_defined (prop_of joinOptions ''background'')
        then set_colour env ''joinBackground'' (prop_of joinOptions ''background'')
        else skip,
        if is_defined (prop_of joinOptions ''halign'') then
          (if is_string (prop_of joinOptions ''halign'') \<and>
              is_string (align (str_of (prop_of joinOptions ''halign'')))
           then set_field ''joinHalign'' (align (str_of (prop_of joinOptions ''halign'')))
           else throw (invalidParameterError ''join.halign'' ''valid alignment''
                         (prop_of joinOptions ''halign'')))
        else skip,
        if is_defined (prop_of joinOptions ''valign'') then
          (if is_string (prop_of joinOptions ''valign'') \<and>
              is_string (align (str_of (prop_of joinOptions ''valign'')))
           then set_field ''joinValign'' (align (str_of (prop_of joinOptions ''valign'')))
           else throw (invalidParameterError ''join.valign'' ''valid alignment''
                         (prop_of joinOptions ''valign'')))
        else skip]
      else throw (Error [Lit ''Expected input to be an array of images to join'']))"

definition applyInputOptions :: "env \<Rightarrow> joboptions \<Rightarrow> jsval \<Rightarrow> jsval \<Rightarrow> descriptor stmt" where
  "applyInputOptions env this input inputOptions =
     (if is_object inputOptions then
       (if inputOptions = JNull then throw nullTypeError else block [
          if is_defined (prop_of inputOptions ''failOnError'') then
            (if is_bool (prop_of inputOptions ''failOnError'')
             then set_field ''failOn''
                    (if truthy (prop_of inputOptions ''failOnError'') then JStr ''warning''
                     else JStr ''none'')
             else throw (invalidParameterError ''failOnError'' ''boolean''
                           (prop_of inputOptions ''failOnError'')))
          else skip,
          if is_defined (prop_of inputOptions ''failOn'') then
            (if is_string (prop_of inputOptions ''failOn'') \<and>
                is_inArray (prop_of inputOptions ''failOn'')
                  [JStr ''none'', JStr ''truncated'', JStr ''error'', JStr ''warning'']
             then set_field ''failOn'' (prop_of inputOptions ''failOn'')
             else throw (invalidParameterError ''failOn'' ''one of: none, truncated, error, warning''
                           (prop_of inputOptions ''failOn'')))
          else skip,
          if is_defined (prop_of inputOptions ''autoOrient'') then
            (if is_bool (prop_of inputOptions ''autoOrient'')
             then set_field ''autoOrient'' (prop_of inputOptions ''autoOrient'')
             else throw (invalidParameterError ''autoOrient'' ''boolean''
                           (prop_of inputOptions ''autoOrient'')))
          else skip,
          if is_defined (prop_of inputOptions ''density'') then
            (if is_inRange (to_number env (prop_of inputOptions ''density'')) 1 100000
             then set_field ''density'' (prop_of inputOptions ''density'')
             else throw (invalidParameterError ''density'' ''number between 1 and 100000''
                           (prop_of inputOptions ''density'')))
          else skip,
          if is_defined (prop_of inputOptions ''ignoreIcc'') then
            (if is_bool (prop_of inputOptions ''ignoreIcc'')
             then set_field ''ignoreIcc'' (prop_of inputOptions ''ignoreIcc'')
             else throw (invalidParameterError ''ignoreIcc'' ''boolean''
                           (prop_of inputOptions ''ignoreIcc'')))
          else skip,
          if is_defined (prop_of inputOptions ''limitInputPixels'') then
            (if is_bool (prop_of inputOptions ''limitInputPixels'')
             then set_field ''limitInputPixels''
                    (if truthy (prop_of inputOptions ''limitInputPixels'') then JNum 268402689
                     else JNum 0)
             else if is_integer (prop_of inputOptions ''limitInputPixels'') \<and>
                     is_inRange (prop_of inputOptions ''limitInputPixels'') 0 9007199254740991
             then set_field ''limitInputPixels'' (prop_of inputOptions ''limitInputPixels'')
             else throw (invalidParameterError ''limitInputPixels'' ''positive integer''
                           (prop_of inputOptions ''limitInputPixels'')))
          else skip,
          if is_defined (prop_of inputOptions ''unlimited'') then
            (if is_bool (prop_of inputOptions ''unlimited'')
             then set_field ''unlimited'' (prop_of inputOptions ''unlimited'')
             else throw (invalidParameterError ''unlimited'' ''boolean''
                           (prop_of inputOptions ''unlimited'')))
          else skip,
          if is_defined (prop_of inputOptions ''sequentialRead'') then
            (if is_bool (prop_of inputOptions ''sequentialRead'')
             then set_field ''sequentialRead'' (prop_of inputOptions ''sequentialRead'')
             else throw (invalidParameterError ''sequentialRead'' ''boolean''
                           (prop_of inputOptions ''sequentialRead'')))
          else skip,
          if is_defined (prop_of inputOptions ''raw'')
          then inputOptions_raw input (prop_of inputOptions ''raw'')
          else skip,
          if is_defined (prop_of inputOptions ''animated'') then
            (if is_bool (prop_of inputOptions ''animated'')
             then set_field ''pages''
                    (if truthy (prop_of inputOptions ''animated'') then JNum (-1) else JNum 1)
             else throw (invalidParameterError ''animated'' ''boolean''
                           (prop_of inputOptions ''animated'')))
          else skip,
          if is_defined (prop_of inputOptions ''pages'') then
            (if is_integer (prop_of inputOptions ''pages'') \<and>
                is_inRange (prop_of inputOptions ''pages'') (-1) 100000
             then set_field ''pages'' (prop_of inputOptions ''pages'')
             else throw (invalidParameterError ''pages'' ''integer between -1 and 100000''
                           (prop_of inputOptions ''pages'')))
          else skip,
          if is_defined (prop_of inputOptions ''page'') then
            (if is_integer (prop_of inputOptions ''page'') \<and>
                is_inRange (prop_of inputOptions ''page'') 0 100000
             then set_field ''page'' (prop_of inputOptions ''page'')
             else throw (invalidParameterError ''page'' ''integer between 0 and 100000''
                           (prop_of inputOptions ''page'')))
          else skip,
          if is_object (prop_of inputOptions ''openSlide'') \<and> prop_of inputOptions ''openSlide'' = JNull
          then throw nullTypeError
          else if is_object (prop_of inputOptions ''openSlide'') \<and>
                  is_defined (prop_of (prop_of inputOptions ''openSlide'') ''level'') then
            (if is_integer (prop_of (prop_of inputOptions ''openSlide'') ''level'') \<and>
                is_inRange (prop_of (prop_of inputOptions ''openSlide'') ''level'') 0 256
             then set_field ''openSlideLevel'' (prop_of (prop_of inputOptions ''openSlide'') ''level'')
             else throw (invalidParameterError ''openSlide.level'' ''integer between 0 and 256''
                           (prop_of (prop_of inputOptions ''openSlide'') ''level'')))
          else if is_defined (prop_of inputOptions ''level'') then
            (if is_integer (prop_of inputOptions ''level'') \<and>
                is_inRange (prop_of inputOptions ''level'') 0 256
             then set_field ''openSlideLevel'' (prop_of inputOptions ''level'')
             else throw (invalidParameterError ''level'' ''integer between 0 and 256''
                           (prop_of inputOptions ''level'')))
          else skip,
          if is_object (prop_of inputOptions ''tiff'') \<and> prop_of inputOptions ''tiff'' = JNull
          then throw nullTypeError
          else if is_object (prop_of inputOptions ''tiff'') \<and>
                  is_defined (prop_of (prop_of inputOptions ''tiff'') ''subifd'') then
            (if is_integer (prop_of (prop_of inputOptions ''tiff'') ''subifd'') \<and>
                is_inRange (prop_of (prop_of inputOptions ''tiff'') ''subifd'') (-1) 100000
             then set_field ''tiffSubifd'' (prop_of (prop_of inputOptions ''tiff'') ''subifd'')
             else throw (invalidParameterError ''tiff.subifd'' ''integer between -1 and 100000''
                           (prop_of (prop_of inputOptions ''tiff'') ''subifd'')))
          else if is_defined (prop_of inputOptions ''subifd'') then
            (if is_integer (prop_of inputOptions ''subifd'') \<and>
                is_inRange (prop_of inputOptions ''subifd'') (-1) 100000
             then set_field ''tiffSubifd'' (prop_of inputOptions ''subifd'')
             else throw (invalidParameterError ''subifd'' ''integer between -1 and 100000''
                           (prop_of inputOptions ''subifd'')))
          else skip,
          if is_object (prop_of inputOptions ''svg'') then
            (if prop_of inputOptions ''svg'' = JNull then throw nullTypeError else block [
               if is_defined (prop_of (prop_of inputOptions ''svg'') ''stylesheet'') then
                 (if is_string (prop_of (prop_of inputOptions ''svg'') ''stylesheet'')
                  then set_field ''svgStylesheet'' (prop_of (prop_of inputOptions ''svg'') ''stylesheet'')
                  else throw (invalidParameterError ''svg.stylesheet'' ''string''
                                (prop_of (prop_of inputOptions ''svg'') ''stylesheet'')))
               else skip,
               if is_defined (prop_of (prop_of inputOptions ''svg'') ''highBitdepth'') then
                 (if is_bool (prop_of (prop_of inputOptions ''svg'') ''highBitdepth'')
                  then set_field ''svgHighBitdepth''
                         (prop_of (prop_of inputOptions ''svg'') ''highBitdepth'')
                  else throw (invalidParameterError ''svg.highBitdepth'' ''boolean''
                                (prop_of (prop_of inputOptions ''svg'') ''highBitdepth'')))
               else skip])
          else skip,
          if is_object (prop_of inputOptions ''pdf'') \<and> prop_of inputOptions ''pdf'' = JNull
          then throw nullTypeError
          else if is_object (prop_of inputOptions ''pdf'') \<and>
                  is_defined (prop_of (prop_of inputOptions ''pdf'') ''background'')
          then set_colour env ''pdfBackground'' (prop_of (prop_of inputOptions ''pdf'') ''background'')
          else if is_defined (prop_of inputOptions ''pdfBackground'')
          then set_colour env ''pdfBackground'' (prop_of inputOptions ''pdfBackground'')
          else skip,
          if is_object (prop_of inputOptions ''jp2'') \<and> prop_of inputOptions ''jp2'' = JNull
          then throw nullTypeError
          else if is_object (prop_of inputOptions ''jp2'') \<and>
                  is_defined (prop_of (prop_of inputOptions ''jp2'') ''oneshot'') then
            (if is_bool (prop_of (prop_of inputOptions ''jp2'') ''oneshot'')
             then set_field ''jp2Oneshot'' (prop_of (prop_of inputOptions ''jp2'') ''oneshot'')
             else throw (invalidParameterError ''jp2.oneshot'' ''boolean''
                           (prop_of (prop_of inputOptions ''jp2'') ''oneshot'')))
          else skip,
          if is_defined (prop_of inputOptions ''create'')
          then inputOptions_create env (prop_of inputOptions ''create'')
          else skip,
          if is_defined (prop_of inputOptions ''text'')
          then inputOptions_text (prop_of inputOptions ''text'')
          else skip,
          if is_defined (prop_of inputOptions ''join'')
          then inputOptions_join env this (prop_of inputOptions ''join'')
          else skip])
      else if is_defined inputOptions
      then throw (Error [Lit ''Invalid input options '', Val inputOptions])
      else skip)"

text \<open>\<^verbatim>\<open>_createInputDescriptor(input, inputOptions, containerOptions)\<close>, lines 53-519. An
  array of inputs (lines 91-102) is the only recursive case:
  \<^verbatim>\<open>input.map(i => this._createInputDescriptor(i))\<close> builds the elements from left to right
  on the same instance, and an error in one of them leaves \<^verbatim>\<open>joining\<close> set and \<^verbatim>\<open>join\<close>
  unassigned. The result is the error thrown or the descriptor returned, and the Job
  Options left behind.\<close>

fun createInputDescriptor ::
      "env \<Rightarrow> jsval \<Rightarrow> jsval \<Rightarrow> jsval \<Rightarrow> joboptions \<Rightarrow> (error + jsval) \<times> joboptions"
  and mapCreateInputDescriptor ::
      "env \<Rightarrow> jsval list \<Rightarrow> joboptions \<Rightarrow> (error + jsval list) \<times> joboptions"
where
  "createInputDescriptor env (JArr xs) inputOptions containerOptions this =
     (if 1 < length xs then
        (if \<not> truthy (opt this ''joining'') then
           (case mapCreateInputDescriptor env xs (this(''joining'' \<mapsto> JBool True)) of
              (Inl e, this') \<Rightarrow> (Inl e, this')
            | (Inr ds, this') \<Rightarrow>
                (case applyInputOptions env (this'(''join'' \<mapsto> JArr ds)) (JArr xs) inputOptions
                        initialDescriptor of
                   (Some e, d) \<Rightarrow> (Inl e, this'(''join'' \<mapsto> JArr ds))
                 | (None, d) \<Rightarrow> (Inr (JObj d), this'(''join'' \<mapsto> JArr ds))))
         else (Inl (Error [Lit ''Recursive join is unsupported'']), this))
      else (Inl (Error [Lit ''Expected at least two images to join'']), this))"
| "createInputDescriptor env input inputOptions containerOptions this =
     (case sourceKind input inputOptions containerOptions of
        Inl e \<Rightarrow> (Inl e, this)
      | Inr (d0, inputOptions') \<Rightarrow>
          (case applyInputOptions env this input inputOptions' d0 of
             (Some e, d) \<Rightarrow> (Inl e, this)
           | (None, d) \<Rightarrow> (Inr (JObj d), this)))"
| "mapCreateInputDescriptor env [] this = (Inr [], this)"
| "mapCreateInputDescriptor env (x # xs) this =
     (case createInputDescriptor env x JUndefined JUndefined this of
        (Inl e, this') \<Rightarrow> (Inl e, this')
      | (Inr d, this') \<Rightarrow>
          (case mapCreateInputDescriptor env xs this' of
             (Inl e, this'') \<Rightarrow> (Inl e, this'')
           | (Inr ds, this'') \<Rightarrow> (Inr (d # ds), this'')))"

section \<open>Notions used in the proofs\<close>

text \<open>A statement preserves a key of the Job Options when it leaves the value under that
  key as it was, whether it completes or throws.\<close>

definition preserves :: "string \<Rightarrow> action \<Rightarrow> bool" where
  "preserves k a = (\<forall>s. snd (a s) k = s k)"

text \<open>An engine build and platform for the closed examples: every colour parses to opaque
  black, paths are taken as they are, the extension is the text from the last dot on, JPEG
  2000 output is compiled in and the binary is not a prebuilt one.\<close>

fun extname_from :: "string \<Rightarrow> string \<Rightarrow> string" where
  "extname_from acc [] = acc"
| "extname_from acc (c # cs) = (if c = CHR ''.'' then extname_from (c # cs) cs else extname_from acc cs)"

definition example_env :: env where
  "example_env = \<lparr>
     colour = (\<lambda>v. Inr (JArr [JNum 0, JNum 0, JNum 0, JNum 255])),
     toNumber = (\<lambda>v. JNaN),
     path_resolve = (\<lambda>p. p),
     path_extname = extname_from [],
     jp2k_output_file = True,
     jp2k_output_buffer = True,
     versions_heif = False \<rparr>"

section \<open>Properties\<close>

subsection \<open>Blocks and preserved keys\<close>

lemma preservesD: "preserves k a \<Longrightarrow> snd (a s) k = s k"
  by (simp add: preserves_def)

lemma preserves_skip: "preserves k skip" by (simp add: preserves_def skip_def)
lemma preserves_throw: "preserves k (throw e)" by (simp add: preserves_def throw_def)
lemma preserves_assign: "k \<noteq> k' \<Longrightarrow> preserves k (assign k' v)" by (simp add: preserves_def assign_def)
lemma preserves_if: "(c \<Longrightarrow> preserves k a) \<Longrightarrow> (\<not> c \<Longrightarrow> preserves k b) \<Longrightarrow> preserves k (if c then a else b)" by simp
lemma preserves_reading: "(\<And>t. preserves k (f t)) \<Longrightarrow> preserves k (reading f)" by (simp add: preserves_def reading_def)

lemma block_Cons_cases:
  "block (a # as) s = (if fst (a s) = None then block as (snd (a s)) else a s)"
  by (cases "a s") (auto split: option.splits)

lemma preserves_block: "list_all (preserves k) as \<Longrightarrow> preserves k (block as)"
proof (induction as)
  case Nil then show ?case by (simp add: preserves_def)
next
  case (Cons a as)
  then have a: "preserves k a" and r: "preserves k (block as)" by simp_all
  show ?case unfolding preserves_def
  proof
    fix s
    show "snd (block (a # as) s) k = s k"
      using preservesD[OF a, of s] preservesD[OF r, of "snd (a s)"]
      by (simp add: block_Cons_cases del: block.simps(2))
  qed
qed

lemma preserves_setBooleanOption: "k \<noteq> k' \<Longrightarrow> preserves k (setBooleanOption k' v)"
  by (simp add: setBooleanOption_def preserves_assign preserves_throw)

lemmas preserves_intros = preserves_skip preserves_throw preserves_assign preserves_if
  preserves_reading preserves_block preserves_setBooleanOption

lemma preserves_trySetAnimationOptions:
  "k \<noteq> ''loop'' \<Longrightarrow> k \<noteq> ''delay'' \<Longrightarrow> preserves k (trySetAnimationOptions source)"
  unfolding trySetAnimationOptions_def
  by (intro preserves_intros) (simp_all add: preserves_intros)

lemma preserves_updateFormatOut:
  "k \<noteq> ''formatOut'' \<Longrightarrow> preserves k (updateFormatOut name options)"
  by (simp add: updateFormatOut_def preserves_intros)

lemma block_fst_None_nth:
  "fst (block as s) = None \<Longrightarrow> i < length as \<Longrightarrow> 
    fst ((as ! i) (snd (block (take i as) s))) = None \<and> fst (block (take i as) s) = None
    \<and> block as s = block (drop (Suc i) as) (snd ((as ! i) (snd (block (take i as) s))))"
proof (induction as arbitrary: s i)
  case Nil then show ?case by simp
next
  case (Cons a as)
  from Cons.prems(1) have a: "fst (a s) = None" and r: "fst (block as (snd (a s))) = None"
    by (auto simp add: block_Cons_cases simp del: block.simps(2) split: if_splits)
  show ?case
  proof (cases i)
    case 0 then show ?thesis using a by (simp add: block_Cons_cases del: block.simps(2))
  next
    case (Suc j)
    with Cons.prems have "j < length as" by simp
    from Cons.IH[OF r this] show ?thesis using a Suc by (simp add: block_Cons_cases del: block.simps(2))
  qed
qed

lemma block_sets_nth:
  assumes "fst (block as s) = None" and "i < length as"
    and "\<And>t. fst ((as ! i) t) = None \<Longrightarrow> snd ((as ! i) t) k = v"
    and "list_all (preserves k) (drop (Suc i) as)"
  shows "snd (block as s) k = v"
proof -
  let ?t = "snd (block (take i as) s)"
  from block_fst_None_nth[OF assms(1,2)]
  have 1: "fst ((as ! i) ?t) = None" and 2: "block as s = block (drop (Suc i) as) (snd ((as ! i) ?t))"
    by simp_all
  have "snd (block as s) k = snd ((as ! i) ?t) k"
    unfolding 2 using preserves_block[OF assms(4)] by (simp add: preserves_def)
  with assms(3)[OF 1] show ?thesis by simp
qed

lemma block_head_sets:
  assumes "\<And>t. snd (a t) k = v" and "list_all (preserves k) as"
  shows "snd (block (a # as) s) k = v"
  using assms(1)[of s] preservesD[OF preserves_block[OF assms(2)], of "snd (a s)"]
  by (simp add: block_Cons_cases del: block.simps(2))

lemma block_throws_head: "a s = (Some e, s') \<Longrightarrow> block (a # as) s = (Some e, s')"
  by simp

lemmas run_defs = Let_def is_defined_def is_inArray_def js_or_def invalidParameterError_def
  assign_def skip_def throw_def reading_def opt_def setBooleanOption_def updateFormatOut_def
  trySetAnimationOptions_def

subsection \<open>The colour count conversion\<close>

lemma floorlog2_eqI:
  assumes "2 ^ (k - 1) \<le> m" and "m < 2 ^ k" and "0 < k"
  shows "floorlog 2 m = k"
proof (rule antisym)
  show "floorlog 2 m \<le> k" using assms(2) by (intro floorlog_leI) simp_all
  show "k \<le> floorlog 2 m" using assms(1) by (intro floorlog_geI) simp_all
qed

lemma ceil_log2_range:
  assumes "2 ^ (k - 1) < n" and "n \<le> 2 ^ k" and "0 < k"
  shows "math_ceil_log2 n = k"
proof -
  have "(1::int) \<le> 2 ^ (k - 1)" by simp
  with assms(1) have "1 < n" by linarith
  have "floorlog 2 (nat (n - 1)) = k"
  proof (rule floorlog2_eqI)
    have "(2::int) ^ (k - 1) \<le> n - 1" using assms(1) by simp
    then have "nat (2 ^ (k - 1)) \<le> nat (n - 1)" by (rule nat_mono)
    then show "2 ^ (k - 1) \<le> nat (n - 1)" by (simp add: nat_power_eq)
    have "n - 1 < 2 ^ k" using assms(2) by simp
    then have "nat (n - 1) < nat (2 ^ k)" using \<open>1 < n\<close> by (simp add: nat_less_iff)
    then show "nat (n - 1) < 2 ^ k" by (simp add: nat_power_eq)
  qed (rule assms(3))
  then show ?thesis using \<open>1 < n\<close> by (simp add: math_ceil_log2_def)
qed

lemma math_ceil_log2_cases:
  assumes "2 \<le> n" and "n \<le> 256"
  shows "math_ceil_log2 n =
     (if n \<le> 2 then 1 else if n \<le> 4 then 2 else if n \<le> 8 then 3 else if n \<le> 16 then 4
      else if n \<le> 32 then 5 else if n \<le> 64 then 6 else if n \<le> 128 then 7 else 8)"
proof -
  consider "n \<le> 2" | "2 < n \<and> n \<le> 4" | "4 < n \<and> n \<le> 8" | "8 < n \<and> n \<le> 16"
    | "16 < n \<and> n \<le> 32" | "32 < n \<and> n \<le> 64" | "64 < n \<and> n \<le> 128" | "128 < n"
    by linarith
  then show ?thesis
  proof cases
    case 1 then show ?thesis using assms ceil_log2_range[of 1 n] by simp
  next
    case 2 then show ?thesis using ceil_log2_range[of 2 n] by simp
  next
    case 3 then show ?thesis using ceil_log2_range[of 3 n] by simp
  next
    case 4 then show ?thesis using ceil_log2_range[of 4 n] by simp
  next
    case 5 then show ?thesis using ceil_log2_range[of 5 n] by simp
  next
    case 6 then show ?thesis using ceil_log2_range[of 6 n] by simp
  next
    case 7 then show ?thesis using ceil_log2_range[of 7 n] by simp
  next
    case 8 then show ?thesis using assms ceil_log2_range[of 8 n] by simp
  qed
qed

lemma bitdepth_of_ceil:
  "js_shl 1 (31 - int (math_clz32 1)) = 1"
  "js_shl 1 (31 - int (math_clz32 (Suc 0))) = 1"
  "js_shl 1 (31 - int (math_clz32 2)) = 2"
  "js_shl 1 (31 - int (math_clz32 3)) = 2"
  "js_shl 1 (31 - int (math_clz32 4)) = 4"
  "js_shl 1 (31 - int (math_clz32 5)) = 4"
  "js_shl 1 (31 - int (math_clz32 6)) = 4"
  "js_shl 1 (31 - int (math_clz32 7)) = 4"
  "js_shl 1 (31 - int (math_clz32 8)) = 8"
  by (simp_all add: js_shl_def math_clz32_def compute_floorlog)

lemma bitdepthFromColourCount_cases:
  assumes "2 \<le> n" and "n \<le> 256"
  shows "bitdepthFromColourCount n =
     (if n \<le> 2 then 1 else if n \<le> 8 then 2 else if n \<le> 128 then 4 else 8)"
  using assms
  by (simp add: bitdepthFromColourCount_def math_ceil_log2_cases bitdepth_of_ceil)


lemma floor_log2_values:
  "floorlog 2 (Suc 0) - Suc 0 = 0" "floorlog 2 2 - Suc 0 = 1" "floorlog 2 3 - Suc 0 = 1" "floorlog 2 4 - Suc 0 = 2" 
  "floorlog 2 5 - Suc 0 = 2" "floorlog 2 6 - Suc 0 = 2" "floorlog 2 7 - Suc 0 = 2" "floorlog 2 8 - Suc 0 = 3"
  by (simp_all add: compute_floorlog)

lemma bitdepthFromColourCount_floor_ceil:
  assumes "2 \<le> n" and "n \<le> 256"
  shows "bitdepthFromColourCount n = 2 ^ (floorlog 2 (math_ceil_log2 n) - 1)"
  using assms
  by (simp add: bitdepthFromColourCount_cases math_ceil_log2_cases floor_log2_values)

lemma is_integer_num: "is_integer (num n)" by (simp add: num_def)
lemma is_inRange_num: "is_inRange (num n) lo hi = (lo \<le> of_int n \<and> of_int n \<le> hi)" by (simp add: num_def)
lemma int_of_num: "int_of (num n) = n" by (simp add: num_def)
lemma truthy_num: "truthy (num n) = (n \<noteq> 0)" by (simp add: num_def)
lemma num_neq: "num n \<noteq> JUndefined" "num n \<noteq> JNull" by (simp_all add: num_def)


lemma png_colours_stores:
  assumes "2 \<le> n" and "n \<le> 256"
  shows "png (JObj [(''colours'', num n)]) s =
     (None, s(''pngBitdepth'' \<mapsto> num (bitdepthFromColourCount n),
              ''pngPalette'' \<mapsto> JBool True, ''formatOut'' \<mapsto> JStr ''png''))"
  using assms
  by (simp add: png_def Let_def is_defined_def js_or_def is_integer_num is_inRange_num int_of_num truthy_num num_neq
        assign_def skip_def throw_def reading_def opt_def setBooleanOption_def updateFormatOut_def)


lemma gif_colours_stores:
  assumes "2 \<le> n" and "n \<le> 256"
  shows "gif (JObj [(''colours'', num n)]) s =
     (None, s(''gifBitdepth'' \<mapsto> num (bitdepthFromColourCount n), ''formatOut'' \<mapsto> JStr ''gif''))"
  using assms
  by (simp add: gif_def trySetAnimationOptions_def Let_def is_defined_def js_or_def is_integer_num is_inRange_num int_of_num truthy_num num_neq
        assign_def skip_def throw_def reading_def opt_def setBooleanOption_def updateFormatOut_def)

text \<open>
  C1 (as amended): for every integer \<open>n\<close> from 2 to 256,
  \<^verbatim>\<open>bitdepthFromColourCount(n)\<close> is \<open>2 ^ floor(log2(ceil(log2(n))))\<close>, the largest power of
  two that does not exceed \<^verbatim>\<open>ceil(log2(n))\<close>: 1 for \<open>n = 2\<close>, 2 for \<open>n\<close> from 3 to 8, 4 for
  \<open>n\<close> from 9 to 128 and 8 for \<open>n\<close> from 129 to 256; \<^verbatim>\<open>png({colours: n})\<close> and
  \<^verbatim>\<open>gif({colours: n})\<close> store exactly this value into \<^verbatim>\<open>pngBitdepth\<close> and
  \<^verbatim>\<open>gifBitdepth\<close>.
\<close>

theorem bitdepthFromColourCount_law:
  assumes "2 \<le> n" and "n \<le> 256"
  shows "bitdepthFromColourCount n = 2 ^ (floorlog 2 (math_ceil_log2 n) - 1)
       \<and> bitdepthFromColourCount n =
           (if n \<le> 2 then 1 else if n \<le> 8 then 2 else if n \<le> 128 then 4 else 8)
       \<and> png (JObj [(''colours'', num n)]) s =
           (None, s(''pngBitdepth'' \<mapsto> num (bitdepthFromColourCount n),
                    ''pngPalette'' \<mapsto> JBool True, ''formatOut'' \<mapsto> JStr ''png''))
       \<and> gif (JObj [(''colours'', num n)]) s =
           (None, s(''gifBitdepth'' \<mapsto> num (bitdepthFromColourCount n),
                    ''formatOut'' \<mapsto> JStr ''gif''))"
  using bitdepthFromColourCount_floor_ceil[OF assms] bitdepthFromColourCount_cases[OF assms]
    png_colours_stores[OF assms] gif_colours_stores[OF assms]
  by blast

text \<open>The law at \<open>n = 17\<close>.\<close>

theorem bitdepthFromColourCount_law_witness:
  "(2::int) \<le> 17 \<and> (17::int) \<le> 256
   \<and> bitdepthFromColourCount 17 = 4
   \<and> png (JObj [(''colours'', num 17)]) Map.empty =
        (None, [''pngBitdepth'' \<mapsto> num 4, ''pngPalette'' \<mapsto> JBool True,
                ''formatOut'' \<mapsto> JStr ''png''])
   \<and> gif (JObj [(''colours'', num 17)]) Map.empty =
        (None, [''gifBitdepth'' \<mapsto> num 4, ''formatOut'' \<mapsto> JStr ''gif''])"
proof -
  have lo: "(2::int) \<le> 17" and hi: "(17::int) \<le> 256" by simp_all
  note law = bitdepthFromColourCount_law[OF lo hi, of Map.empty]
  have v: "bitdepthFromColourCount 17 = 4"
    using law[THEN conjunct2, THEN conjunct1] by simp
  show ?thesis
    using law[THEN conjunct2, THEN conjunct2] lo hi v by simp
qed

text \<open>
  C1 as stated fails: \<^verbatim>\<open>bitdepthFromColourCount(2)\<close> is 1, not \<open>2 ^ ceil(log2(2)) = 2\<close>; the
  values at 256, 3 and 17 are 8, 2 and 4, not 256, 4 and 32.
\<close>

theorem bitdepthFromColourCount_counterexample:
  "bitdepthFromColourCount 2 \<noteq> 2 ^ math_ceil_log2 2
   \<and> bitdepthFromColourCount 2 = 1 \<and> bitdepthFromColourCount 256 = 8
   \<and> bitdepthFromColourCount 3 = 2 \<and> bitdepthFromColourCount 17 = 4"
  by (simp add: bitdepthFromColourCount_cases math_ceil_log2_cases)

subsection \<open>Implicit palette mode\<close>

lemma prop_of_not_object: "\<not> (is_object options \<and> options \<noteq> JNull) \<Longrightarrow> prop_of options k = JUndefined"
  by (cases options) auto

lemma png_palette_implicit:
  assumes ok: "fst (png options s) = None"
    and pal: "\<not> is_defined (prop_of options ''palette'')"
    and trig: "list_ex is_defined [prop_of options ''quality'', prop_of options ''effort'',
                     prop_of options ''colours'', prop_of options ''colors'',
                     prop_of options ''dither'']"
  shows "snd (png options s) ''pngPalette'' = Some (JBool True)"
proof -
  have obj: "is_object options \<and> options \<noteq> JNull"
    using trig prop_of_not_object[of options] by (auto simp: is_defined_def)
  show ?thesis
    using ok obj unfolding png_def
    apply (simp only: if_True if_False simp_thms)
    apply (erule block_sets_nth[where i=0])
      apply simp
     apply (simp only: nth_Cons_0)
     apply (erule block_sets_nth[where i=4])
       apply simp
    using pal trig apply (simp add: setBooleanOption_def assign_def)
     apply (simp add: preserves_intros)
    apply (simp add: preserves_updateFormatOut)
    done
qed

lemma png_palette_explicit:
  assumes ok: "fst (png options s) = None"
    and pal: "prop_of options ''palette'' = JBool b"
  shows "snd (png options s) ''pngPalette'' = Some (JBool b)"
proof -
  have obj: "is_object options \<and> options \<noteq> JNull"
    using pal prop_of_not_object[of options "''palette''"] by auto
  show ?thesis
    using ok obj unfolding png_def
    apply (simp only: if_True if_False simp_thms)
    apply (erule block_sets_nth[where i=0])
      apply simp
     apply (simp only: nth_Cons_0)
     apply (erule block_sets_nth[where i=4])
       apply simp
    using pal apply (simp add: setBooleanOption_def assign_def is_defined_def)
     apply (simp add: preserves_intros)
    apply (simp add: preserves_updateFormatOut)
    done
qed

text \<open>
  C2: for every call \<^verbatim>\<open>png(options)\<close> that returns, if \<^verbatim>\<open>options.palette\<close> is not defined and
  at least one of \<^verbatim>\<open>options.quality\<close>, \<^verbatim>\<open>options.effort\<close>, \<^verbatim>\<open>options.colours\<close>,
  \<^verbatim>\<open>options.colors\<close>, \<^verbatim>\<open>options.dither\<close> is defined, the call leaves \<^verbatim>\<open>pngPalette\<close> true; if
  \<^verbatim>\<open>options.palette\<close> is a boolean, that boolean is what the call leaves in \<^verbatim>\<open>pngPalette\<close>,
  whatever else is defined.
\<close>

theorem png_palette_mode:
  assumes "fst (png options s) = None"
  shows "(\<not> is_defined (prop_of options ''palette'') \<and>
          (is_defined (prop_of options ''quality'') \<or> is_defined (prop_of options ''effort'') \<or>
           is_defined (prop_of options ''colours'') \<or> is_defined (prop_of options ''colors'') \<or>
           is_defined (prop_of options ''dither''))
          \<longrightarrow> snd (png options s) ''pngPalette'' = Some (JBool True))
       \<and> (prop_of options ''palette'' = JBool b
          \<longrightarrow> snd (png options s) ''pngPalette'' = Some (JBool b))"
  using png_palette_implicit[OF assms] png_palette_explicit[OF assms] by simp

text \<open>The scenario of the spec, \<^verbatim>\<open>png({colours: 16})\<close> on a job with palette mode off, and
  \<^verbatim>\<open>png({palette: false, quality: 50})\<close> on a job with palette mode on.\<close>

theorem png_palette_mode_witness:
  "fst (png (JObj [(''colours'', num 16)]) (Map.empty(''pngPalette'' \<mapsto> JBool False))) = None
   \<and> snd (png (JObj [(''colours'', num 16)]) (Map.empty(''pngPalette'' \<mapsto> JBool False))) ''pngPalette''
        = Some (JBool True)
   \<and> snd (png (JObj [(''colours'', num 16)]) (Map.empty(''pngPalette'' \<mapsto> JBool False))) ''pngBitdepth''
        = Some (num 4)
   \<and> fst (png (JObj [(''palette'', JBool False), (''quality'', num 50)])
             (Map.empty(''pngPalette'' \<mapsto> JBool True))) = None
   \<and> snd (png (JObj [(''palette'', JBool False), (''quality'', num 50)])
             (Map.empty(''pngPalette'' \<mapsto> JBool True))) ''pngPalette'' = Some (JBool False)"
proof -
  let ?s1 = "Map.empty(''pngPalette'' \<mapsto> JBool False)"
  let ?s2 = "Map.empty(''pngPalette'' \<mapsto> JBool True)"
  have r1: "png (JObj [(''colours'', num 16)]) ?s1 =
      (None, ?s1(''pngBitdepth'' \<mapsto> num (bitdepthFromColourCount 16),
              ''pngPalette'' \<mapsto> JBool True, ''formatOut'' \<mapsto> JStr ''png''))"
    by (rule png_colours_stores) simp_all
  have r2: "fst (png (JObj [(''palette'', JBool False), (''quality'', num 50)]) ?s2) = None"
    by (simp add: png_def Let_def is_defined_def js_or_def num_def
        assign_def skip_def throw_def reading_def opt_def setBooleanOption_def updateFormatOut_def)
  have b: "bitdepthFromColourCount 16 = 4" by (simp add: bitdepthFromColourCount_cases)
  have ok1: "fst (png (JObj [(''colours'', num 16)]) ?s1) = None" by (simp add: r1)
  from png_palette_mode[OF ok1] have p1: "snd (png (JObj [(''colours'', num 16)]) ?s1) ''pngPalette'' = Some (JBool True)"
    by (simp add: is_defined_def num_def)
  from png_palette_mode[OF r2, where b=False] have p2: "snd (png (JObj [(''palette'', JBool False), (''quality'', num 50)]) ?s2) ''pngPalette'' = Some (JBool False)"
    by simp
  have p3: "snd (png (JObj [(''colours'', num 16)]) ?s1) ''pngBitdepth'' = Some (num 4)"
    by (simp add: r1 b)
  show ?thesis using ok1 p1 p3 r2 p2 by blast
qed

subsection \<open>Spelling aliases\<close>

lemma png_colors_alias:
  assumes "truthy v \<or> \<not> is_defined v"
  shows "png (JObj [(''colors'', v)]) s = png (JObj [(''colours'', v)]) s"
  using assms by (auto simp add: png_def run_defs)

lemma gif_colors_alias:
  assumes "truthy v \<or> \<not> is_defined v"
  shows "gif (JObj [(''colors'', v)]) s = gif (JObj [(''colours'', v)]) s"
  using assms by (auto simp add: gif_def run_defs)

lemma jpeg_optimizeCoding_alias:
  "jpeg (JObj [(''optimizeCoding'', JBool b)]) s = jpeg (JObj [(''optimiseCoding'', JBool b)]) s"
  by (simp add: jpeg_def run_defs)

lemma tile_center_alias:
  "tile env (JObj [(''center'', JBool b)]) s = tile env (JObj [(''centre'', JBool b)]) s"
  by (simp add: tile_def setBackgroundColourOption_def run_defs)

text \<open>
  C3 fails on the code for the colour count. With \<^verbatim>\<open>colours: 0\<close> the expression
  \<^verbatim>\<open>options.colours || options.colors\<close> of lines 618 and 800 is undefined, so the range
  check is skipped: \<^verbatim>\<open>png({colours: 0})\<close> returns, having switched palette mode on, and
  \<^verbatim>\<open>gif({colours: 0})\<close> returns, while \<^verbatim>\<open>png({colors: 0})\<close> and \<^verbatim>\<open>gif({colors: 0})\<close> throw the
  InvalidParameter error for \<^verbatim>\<open>colours\<close> and change nothing. The aliases agree on every
  value that is truthy or not defined (\<open>png_colors_alias\<close>, \<open>gif_colors_alias\<close>), and the
  boolean aliases of \<^verbatim>\<open>jpeg\<close> and \<^verbatim>\<open>tile\<close> agree on every boolean
  (\<open>jpeg_optimizeCoding_alias\<close>, \<open>tile_center_alias\<close>).
\<close>

theorem colours_alias_divergence:
  "png (JObj [(''colours'', JNum 0)]) s =
     (None, s(''pngPalette'' \<mapsto> JBool True, ''formatOut'' \<mapsto> JStr ''png''))
   \<and> png (JObj [(''colors'', JNum 0)]) s =
     (Some (InvalidParameter ''colours'' [Lit ''integer between 2 and 256''] (JNum 0)), s)
   \<and> gif (JObj [(''colours'', JNum 0)]) s = (None, s(''formatOut'' \<mapsto> JStr ''gif''))
   \<and> gif (JObj [(''colors'', JNum 0)]) s =
     (Some (InvalidParameter ''colours'' [Lit ''integer between 2 and 256''] (JNum 0)), s)"
  by (simp add: png_def gif_def run_defs)

text \<open>The boolean aliases differ on a value that is not a boolean: the American spelling
  is then ignored, the British one rejected.\<close>

lemma optimiseCoding_alias_divergence:
  "jpeg (JObj [(''optimizeCoding'', JStr ''yes'')]) s = (None, s(''formatOut'' \<mapsto> JStr ''jpeg''))
   \<and> jpeg (JObj [(''optimiseCoding'', JStr ''yes'')]) s =
     (Some (InvalidParameter ''jpegOptimiseCoding'' [Lit ''boolean''] (JStr ''yes'')), s)"
  by (simp add: jpeg_def run_defs)

subsection \<open>Format selection\<close>

lemma block_snoc:
  "block (as @ [a]) s = (if fst (block as s) = None then a (snd (block as s)) else block as s)"
proof (induction as arbitrary: s)
  case Nil then show ?case by (cases "a s") (auto split: option.splits)
next
  case (Cons b bs) then show ?case
    by (auto simp add: block_Cons_cases simp del: block.simps(2))
qed

lemma updateFormatOut_result:
  assumes "fst (updateFormatOut name options t) = None"
  shows "snd (updateFormatOut name options t) ''formatOut'' =
           (if is_object options \<and> prop_of options ''force'' = JBool False then t ''formatOut''
            else Some (JStr name))"
  using assms by (auto simp: updateFormatOut_def throw_def assign_def skip_def split: if_splits)

lemma resolver_formatOut:
  assumes pres: "list_all (preserves ''formatOut'') as"
    and ok: "fst (block (as @ [updateFormatOut name options]) s) = None"
  shows "snd (block (as @ [updateFormatOut name options]) s) ''formatOut'' =
           (if is_object options \<and> prop_of options ''force'' = JBool False then s ''formatOut''
            else Some (JStr name))"
proof -
  let ?t = "snd (block as s)"
  from ok have 1: "fst (block as s) = None" and 2: "fst (updateFormatOut name options ?t) = None"
    by (auto simp: block_snoc split: if_splits)
  have "?t ''formatOut'' = s ''formatOut''"
    using preserves_block[OF pres] by (simp add: preserves_def)
  with updateFormatOut_result[OF 2] 1 show ?thesis by (simp add: block_snoc)
qed

lemma resolver_formatOut2:
  assumes "preserves ''formatOut'' a"
    and "fst (block [a, updateFormatOut name options] s) = None"
  shows "snd (block [a, updateFormatOut name options] s) ''formatOut'' =
           (if is_object options \<and> prop_of options ''force'' = JBool False then s ''formatOut''
            else Some (JStr name))"
  using resolver_formatOut[of "[a]" name options s] assms by simp

lemma resolver_formatOut3:
  assumes "preserves ''formatOut'' a" and "preserves ''formatOut'' b"
    and "fst (block [a, b, updateFormatOut name options] s) = None"
  shows "snd (block [a, b, updateFormatOut name options] s) ''formatOut'' =
           (if is_object options \<and> prop_of options ''force'' = JBool False then s ''formatOut''
            else Some (JStr name))"
  using resolver_formatOut[of "[a, b]" name options s] assms by simp

lemma jpeg_formatOut:
  assumes "fst (jpeg options s) = None"
  shows "snd (jpeg options s) ''formatOut'' =
           (if is_object options \<and> prop_of options ''force'' = JBool False then s ''formatOut''
            else Some (JStr ''jpeg''))"
  using assms unfolding jpeg_def
  by (rule resolver_formatOut2[rotated]) (simp add: Let_def preserves_intros)

lemma png_formatOut:
  assumes "fst (png options s) = None"
  shows "snd (png options s) ''formatOut'' =
           (if is_object options \<and> prop_of options ''force'' = JBool False then s ''formatOut''
            else Some (JStr ''png''))"
  using assms unfolding png_def
  by (rule resolver_formatOut2[rotated]) (simp add: Let_def preserves_intros)

lemma webp_formatOut:
  assumes "fst (webp options s) = None"
  shows "snd (webp options s) ''formatOut'' =
           (if is_object options \<and> prop_of options ''force'' = JBool False then s ''formatOut''
            else Some (JStr ''webp''))"
  using assms unfolding webp_def
  by (rule resolver_formatOut3[rotated 2]) (simp_all add: Let_def preserves_intros preserves_trySetAnimationOptions)

lemma gif_formatOut:
  assumes "fst (gif options s) = None"
  shows "snd (gif options s) ''formatOut'' =
           (if is_object options \<and> prop_of options ''force'' = JBool False then s ''formatOut''
            else Some (JStr ''gif''))"
  using assms unfolding gif_def
  by (rule resolver_formatOut3[rotated 2]) (simp_all add: Let_def preserves_intros preserves_trySetAnimationOptions)

lemma jxl_formatOut:
  assumes "fst (jxl options s) = None"
  shows "snd (jxl options s) ''formatOut'' =
           (if is_object options \<and> prop_of options ''force'' = JBool False then s ''formatOut''
            else Some (JStr ''jxl''))"
  using assms unfolding jxl_def
  by (rule resolver_formatOut3[rotated 2]) (simp_all add: Let_def preserves_intros preserves_trySetAnimationOptions)

lemma jp2_formatOut:
  assumes "fst (jp2 env options s) = None"
  shows "snd (jp2 env options s) ''formatOut'' =
           (if is_object options \<and> prop_of options ''force'' = JBool False then s ''formatOut''
            else Some (JStr ''jp2''))"
  using assms unfolding jp2_def
  by (rule resolver_formatOut3[rotated 2]) (simp_all add: Let_def preserves_intros)

lemma tiff_formatOut:
  assumes "fst (tiff options s) = None"
  shows "snd (tiff options s) ''formatOut'' =
           (if is_object options \<and> prop_of options ''force'' = JBool False then s ''formatOut''
            else Some (JStr ''tiff''))"
  using assms unfolding tiff_def
  by (rule resolver_formatOut2[rotated]) (simp add: Let_def preserves_intros)

lemma heif_formatOut:
  assumes "fst (heif env options s) = None"
  shows "snd (heif env options s) ''formatOut'' =
           (if is_object options \<and> prop_of options ''force'' = JBool False then s ''formatOut''
            else Some (JStr ''heif''))"
  using assms unfolding heif_def
  by (rule resolver_formatOut2[rotated]) (simp add: Let_def preserves_intros)


lemma preserves_setBackgroundColourOption:
  "k \<noteq> k' \<Longrightarrow> preserves k (setBackgroundColourOption env k' v)"
  by (simp add: setBackgroundColourOption_def preserves_intros split: sum.splits)

lemma raw_formatOut:
  assumes "fst (raw options s) = None"
  shows "snd (raw options s) ''formatOut'' = Some (JStr ''raw'')"
proof -
  have "snd (raw options s) ''formatOut'' =
      (if is_object JUndefined \<and> prop_of JUndefined ''force'' = JBool False then s ''formatOut''
       else Some (JStr ''raw''))"
    using assms unfolding raw_def
    by (rule resolver_formatOut2[rotated]) (simp add: Let_def preserves_intros)
  then show ?thesis by simp
qed

lemma tile_formatOut:
  assumes "fst (tile env options s) = None"
  shows "snd (tile env options s) ''formatOut'' = Some (JStr ''dz'')"
proof -
  have "snd (tile env options s) ''formatOut'' =
      (if is_object JUndefined \<and> prop_of JUndefined ''force'' = JBool False then s ''formatOut''
       else Some (JStr ''dz''))"
    using assms unfolding tile_def
    by (rule resolver_formatOut3[rotated 2])
       (simp_all add: Let_def preserves_intros preserves_setBackgroundColourOption)
  then show ?thesis by simp
qed

lemma last_string_of_nat: "last (string_of_nat n) = char_of (48 + n mod 10)"
  by (subst string_of_nat.simps) simp

lemma string_of_nat_neq_force: "string_of_nat n \<noteq> ''force''"
proof
  assume "string_of_nat n = ''force''"
  then have "last (string_of_nat n) = CHR ''e''" by simp
  then have "char_of (48 + n mod 10) = CHR ''e''" by (simp add: last_string_of_nat)
  then have "of_char (char_of (48 + n mod 10)) = (of_char (CHR ''e'') :: nat)" by simp
  moreover have "n mod 10 < 10" by simp
  ultimately show False by (simp add: of_char_of)
qed

lemma map_of_indexed_force: "map_of (indexed xs) ''force'' = None"
proof -
  have "''force'' \<notin> set (map string_of_nat [0..<length xs])"
    using string_of_nat_neq_force by (auto simp: image_iff dest: sym)
  then show ?thesis
    unfolding indexed_def by (simp add: map_of_zip_is_None)
qed

lemma spread_force:
  "prop_of (JObj (AList.update ''compression'' v (own_entries options))) ''force'' =
     prop_of options ''force''"
  by (cases options) (simp_all add: update_conv' map_of_indexed_force)

lemma avif_formatOut:
  assumes "fst (avif env options s) = None"
  shows "snd (avif env options s) ''formatOut'' =
           (if prop_of options ''force'' = JBool False then s ''formatOut''
            else Some (JStr ''heif''))"
proof -
  let ?o = "JObj (AList.update ''compression'' (JStr ''av1'') (own_entries options))"
  have ok: "fst (heif env ?o s) = None" using assms by (simp only: avif_def)
  have "snd (avif env options s) ''formatOut'' =
          (if is_object ?o \<and> prop_of ?o ''force'' = JBool False then s ''formatOut''
           else Some (JStr ''heif''))"
    using heif_formatOut[OF ok] by (simp only: avif_def)
  then show ?thesis unfolding spread_force by simp
qed

lemma jpeg_twice:
  assumes "1 \<le> q1" "q1 \<le> 100" "1 \<le> q2" "q2 \<le> 100"
  shows "jpeg (JObj [(''quality'', num q1)]) s =
           (None, s(''jpegQuality'' \<mapsto> num q1, ''formatOut'' \<mapsto> JStr ''jpeg''))
       \<and> jpeg (JObj [(''quality'', num q2)]) (snd (jpeg (JObj [(''quality'', num q1)]) s)) =
           (None, s(''jpegQuality'' \<mapsto> num q2, ''formatOut'' \<mapsto> JStr ''jpeg''))"
  using assms
  by (simp add: jpeg_def Let_def is_defined_def is_integer_num is_inRange_num num_neq
        assign_def skip_def throw_def updateFormatOut_def fun_upd_twist)


text \<open>
  C4 (as amended): each of \<^verbatim>\<open>jpeg\<close>, \<^verbatim>\<open>png\<close>, \<^verbatim>\<open>webp\<close>, \<^verbatim>\<open>gif\<close>, \<^verbatim>\<open>jp2\<close>, \<^verbatim>\<open>tiff\<close>, \<^verbatim>\<open>heif\<close> and
  \<^verbatim>\<open>jxl\<close>, when it returns, has set \<^verbatim>\<open>formatOut\<close> to its own name, unless its options
  argument is an object with \<^verbatim>\<open>force === false\<close>, in which case \<^verbatim>\<open>formatOut\<close> keeps the value
  it had before the call; \<^verbatim>\<open>avif\<close> does the same with the name \<^verbatim>\<open>heif\<close>; \<^verbatim>\<open>raw\<close> and
  \<^verbatim>\<open>tile\<close> set \<^verbatim>\<open>formatOut\<close> to \<^verbatim>\<open>raw\<close> and \<^verbatim>\<open>dz\<close> whatever \<^verbatim>\<open>force\<close> is. Calling
  \<^verbatim>\<open>jpeg\<close> with a valid quality and then with a second valid quality leaves \<^verbatim>\<open>jpegQuality\<close>
  equal to the second value and \<^verbatim>\<open>formatOut\<close> equal to \<^verbatim>\<open>jpeg\<close>, as after the first call.
\<close>

theorem formatOut_selection:
  "(fst (jpeg options s) = None \<longrightarrow> snd (jpeg options s) ''formatOut'' =
      (if is_object options \<and> prop_of options ''force'' = JBool False then s ''formatOut''
       else Some (JStr ''jpeg'')))
   \<and> (fst (png options s) = None \<longrightarrow> snd (png options s) ''formatOut'' =
      (if is_object options \<and> prop_of options ''force'' = JBool False then s ''formatOut''
       else Some (JStr ''png'')))
   \<and> (fst (webp options s) = None \<longrightarrow> snd (webp options s) ''formatOut'' =
      (if is_object options \<and> prop_of options ''force'' = JBool False then s ''formatOut''
       else Some (JStr ''webp'')))
   \<and> (fst (gif options s) = None \<longrightarrow> snd (gif options s) ''formatOut'' =
      (if is_object options \<and> prop_of options ''force'' = JBool False then s ''formatOut''
       else Some (JStr ''gif'')))
   \<and> (fst (jp2 env options s) = None \<longrightarrow> snd (jp2 env options s) ''formatOut'' =
      (if is_object options \<and> prop_of options ''force'' = JBool False then s ''formatOut''
       else Some (JStr ''jp2'')))
   \<and> (fst (tiff options s) = None \<longrightarrow> snd (tiff options s) ''formatOut'' =
      (if is_object options \<and> prop_of options ''force'' = JBool False then s ''formatOut''
       else Some (JStr ''tiff'')))
   \<and> (fst (heif env options s) = None \<longrightarrow> snd (heif env options s) ''formatOut'' =
      (if is_object options \<and> prop_of options ''force'' = JBool False then s ''formatOut''
       else Some (JStr ''heif'')))
   \<and> (fst (jxl options s) = None \<longrightarrow> snd (jxl options s) ''formatOut'' =
      (if is_object options \<and> prop_of options ''force'' = JBool False then s ''formatOut''
       else Some (JStr ''jxl'')))
   \<and> (fst (avif env options s) = None \<longrightarrow> snd (avif env options s) ''formatOut'' =
      (if prop_of options ''force'' = JBool False then s ''formatOut''
       else Some (JStr ''heif'')))
   \<and> (fst (raw options s) = None \<longrightarrow> snd (raw options s) ''formatOut'' = Some (JStr ''raw''))
   \<and> (fst (tile env options s) = None \<longrightarrow>
        snd (tile env options s) ''formatOut'' = Some (JStr ''dz''))
   \<and> (1 \<le> q1 \<and> q1 \<le> 100 \<and> 1 \<le> q2 \<and> q2 \<le> 100 \<longrightarrow>
        jpeg (JObj [(''quality'', num q1)]) s =
          (None, s(''jpegQuality'' \<mapsto> num q1, ''formatOut'' \<mapsto> JStr ''jpeg''))
        \<and> jpeg (JObj [(''quality'', num q2)]) (snd (jpeg (JObj [(''quality'', num q1)]) s)) =
          (None, s(''jpegQuality'' \<mapsto> num q2, ''formatOut'' \<mapsto> JStr ''jpeg'')))"
  using jpeg_formatOut[of options s] png_formatOut[of options s] webp_formatOut[of options s]
    gif_formatOut[of options s] jp2_formatOut[of env options s] tiff_formatOut[of options s]
    heif_formatOut[of env options s] jxl_formatOut[of options s] avif_formatOut[of env options s]
    raw_formatOut[of options s] tile_formatOut[of env options s] jpeg_twice[of q1 q2 s]
  by blast

text \<open>The theorem at \<^verbatim>\<open>{force: false, compression: 'hevc'}\<close> on a job whose format is
  \<^verbatim>\<open>input\<close>, at \<^verbatim>\<open>webp()\<close> on a job whose format is \<^verbatim>\<open>jpeg\<close>, and at the qualities 50 and
  90.\<close>

theorem formatOut_selection_witness:
  "fst (jpeg (JObj [(''force'', JBool False), (''compression'', JStr ''hevc'')])
          [''formatOut'' \<mapsto> JStr ''input'']) = None
   \<and> snd (jpeg (JObj [(''force'', JBool False), (''compression'', JStr ''hevc'')])
          [''formatOut'' \<mapsto> JStr ''input'']) ''formatOut'' = Some (JStr ''input'')
   \<and> fst (heif example_env (JObj [(''force'', JBool False), (''compression'', JStr ''hevc'')])
          [''formatOut'' \<mapsto> JStr ''input'']) = None
   \<and> snd (heif example_env (JObj [(''force'', JBool False), (''compression'', JStr ''hevc'')])
          [''formatOut'' \<mapsto> JStr ''input'']) ''formatOut'' = Some (JStr ''input'')
   \<and> fst (webp JUndefined [''formatOut'' \<mapsto> JStr ''jpeg'']) = None
   \<and> snd (webp JUndefined [''formatOut'' \<mapsto> JStr ''jpeg'']) ''formatOut'' = Some (JStr ''webp'')
   \<and> fst (tile example_env (JObj [(''force'', JBool False), (''compression'', JStr ''hevc'')])
          [''formatOut'' \<mapsto> JStr ''input'']) = None
   \<and> snd (tile example_env (JObj [(''force'', JBool False), (''compression'', JStr ''hevc'')])
          [''formatOut'' \<mapsto> JStr ''input'']) ''formatOut'' = Some (JStr ''dz'')
   \<and> (1::int) \<le> 50 \<and> (90::int) \<le> 100
   \<and> snd (jpeg (JObj [(''quality'', num 90)])
            (snd (jpeg (JObj [(''quality'', num 50)]) [''formatOut'' \<mapsto> JStr ''input''])))
        = [''formatOut'' \<mapsto> JStr ''input'', ''jpegQuality'' \<mapsto> num 90,
           ''formatOut'' \<mapsto> JStr ''jpeg'']"
proof -
  let ?o = "JObj [(''force'', JBool False), (''compression'', JStr ''hevc'')]"
  let ?s = "[''formatOut'' \<mapsto> JStr ''input'']"
  have h1: "fst (jpeg ?o ?s) = None" by (simp add: jpeg_def run_defs)
  have h2: "fst (heif example_env ?o ?s) = None" by (simp add: heif_def run_defs example_env_def)
  have h3: "fst (webp JUndefined [''formatOut'' \<mapsto> JStr ''jpeg'']) = None"
    by (simp add: webp_def run_defs)
  have h4: "fst (tile example_env ?o ?s) = None"
    by (simp add: tile_def run_defs setBackgroundColourOption_def example_env_def)
  note a = formatOut_selection[where options="?o" and s="?s" and env=example_env and ?q1.0=50 and ?q2.0=90]
  note b = formatOut_selection[where options=JUndefined and s="[''formatOut'' \<mapsto> JStr ''jpeg'']"
             and env=example_env and ?q1.0=50 and ?q2.0=90]
  have c1: "snd (jpeg ?o ?s) ''formatOut'' = Some (JStr ''input'')" using a h1 by simp
  have c2: "snd (heif example_env ?o ?s) ''formatOut'' = Some (JStr ''input'')" using a h2 by simp
  have c3: "snd (webp JUndefined [''formatOut'' \<mapsto> JStr ''jpeg'']) ''formatOut'' = Some (JStr ''webp'')"
    using b h3 by simp
  have c4: "snd (tile example_env ?o ?s) ''formatOut'' = Some (JStr ''dz'')" using a h4 by simp
  have c5: "snd (jpeg (JObj [(''quality'', num 90)])
            (snd (jpeg (JObj [(''quality'', num 50)]) ?s)))
        = ?s(''jpegQuality'' \<mapsto> num 90, ''formatOut'' \<mapsto> JStr ''jpeg'')"
  proof -
    have q: "(1::int) \<le> 50 \<and> (50::int) \<le> 100 \<and> (1::int) \<le> 90 \<and> (90::int) \<le> 100" by simp
    from a q have "jpeg (JObj [(''quality'', num 90)]) (snd (jpeg (JObj [(''quality'', num 50)]) ?s))
        = (None, ?s(''jpegQuality'' \<mapsto> num 90, ''formatOut'' \<mapsto> JStr ''jpeg''))"
      by blast
    then show ?thesis by simp
  qed
  show ?thesis using h1 h2 h3 h4 c1 c2 c3 c4 c5 by simp
qed

text \<open>
  C4 as stated fails: \<^verbatim>\<open>raw({force: false})\<close> on a job whose format is \<^verbatim>\<open>input\<close> sets
  \<^verbatim>\<open>formatOut\<close> to \<^verbatim>\<open>raw\<close>, \<^verbatim>\<open>tile({force: false})\<close> sets it to \<^verbatim>\<open>dz\<close>, and \<^verbatim>\<open>avif()\<close> sets
  it to \<^verbatim>\<open>heif\<close>, not to \<^verbatim>\<open>avif\<close>.
\<close>

theorem raw_ignores_force:
  "raw (JObj [(''force'', JBool False)]) [''formatOut'' \<mapsto> JStr ''input''] =
     (None, [''formatOut'' \<mapsto> JStr ''raw''])
   \<and> snd (tile example_env (JObj [(''force'', JBool False)]) [''formatOut'' \<mapsto> JStr ''input''])
        ''formatOut'' = Some (JStr ''dz'')
   \<and> snd (avif example_env JUndefined [''formatOut'' \<mapsto> JStr ''input'']) ''formatOut''
        = Some (JStr ''heif'')"
  by (simp add: raw_def tile_def avif_def heif_def run_defs setBackgroundColourOption_def example_env_def)

subsection \<open>Joining inputs\<close>

lemma mapCreateInputDescriptor_all:
  assumes "\<forall>x\<in>set xs. \<forall>t. createInputDescriptor env x JUndefined JUndefined t = (Inr (f x), t)"
  shows "mapCreateInputDescriptor env xs t = (Inr (map f xs), t)"
  using assms by (induction xs arbitrary: t) simp_all

lemma join_too_short:
  assumes "length xs < 2"
  shows "createInputDescriptor env (JArr xs) inputOptions containerOptions this =
           (Inl (Error [Lit ''Expected at least two images to join'']), this)"
  using assms by simp

lemma join_recursive:
  assumes "2 \<le> length xs" and "truthy (opt this ''joining'')"
  shows "createInputDescriptor env (JArr xs) inputOptions containerOptions this =
           (Inl (Error [Lit ''Recursive join is unsupported'']), this)"
  using assms by simp

lemma join_builds:
  assumes len: "2 \<le> length xs" and nj: "\<not> truthy (opt this ''joining'')"
    and each: "\<forall>x\<in>set xs. \<forall>t. createInputDescriptor env x JUndefined JUndefined t = (Inr (f x), t)"
    and opts: "applyInputOptions env (this(''joining'' \<mapsto> JBool True, ''join'' \<mapsto> JArr (map f xs)))
                 (JArr xs) inputOptions initialDescriptor = (None, d)"
  shows "createInputDescriptor env (JArr xs) inputOptions containerOptions this =
           (Inr (JObj d), this(''joining'' \<mapsto> JBool True, ''join'' \<mapsto> JArr (map f xs)))"
  using len nj opts by (simp add: mapCreateInputDescriptor_all[OF each])

lemma applyInputOptions_absent:
  "applyInputOptions env this input JUndefined d = (None, d)"
  by (simp add: applyInputOptions_def is_defined_def skip_def)

lemma direct_input_builds:
  assumes "is_string x \<or> (is_buffer x \<and> js_length x \<noteq> 0)"
  shows "createInputDescriptor env x JUndefined JUndefined t =
           (Inr (JObj (AList.update (if is_string x then ''file'' else ''buffer'') x
                          initialDescriptor)), t)"
  using assms by (cases x) (auto simp: sourceKind_def applyInputOptions_absent)

text \<open>
  C5 (as amended): building an input descriptor from an array of fewer than two inputs
  fails with \<^verbatim>\<open>Expected at least two images to join\<close>, whether or not the instance has join
  state. From an array of two or more inputs, on an instance without join state, each of
  which builds to a descriptor on its own, and with input options that validate, the build
  succeeds: it sets \<^verbatim>\<open>joining\<close> and stores exactly one nested descriptor per array element in
  \<^verbatim>\<open>join\<close>. On the resulting instance every later build from an array of two or more inputs
  fails with \<^verbatim>\<open>Recursive join is unsupported\<close>, and every later build from a shorter array
  fails with \<^verbatim>\<open>Expected at least two images to join\<close>. Likewise, on any instance that
  already has join state, a build from an array of two or more inputs fails with
  \<^verbatim>\<open>Recursive join is unsupported\<close>.
\<close>

theorem join_inputs:
  "(length xs < 2 \<longrightarrow>
      createInputDescriptor env (JArr xs) inputOptions containerOptions this =
        (Inl (Error [Lit ''Expected at least two images to join'']), this))
   \<and> (2 \<le> length xs \<and> \<not> truthy (opt this ''joining'') \<and>
       (\<forall>x\<in>set xs. \<forall>t. createInputDescriptor env x JUndefined JUndefined t = (Inr (f x), t)) \<and>
       applyInputOptions env (this(''joining'' \<mapsto> JBool True, ''join'' \<mapsto> JArr (map f xs)))
         (JArr xs) inputOptions initialDescriptor = (None, d) \<longrightarrow>
      createInputDescriptor env (JArr xs) inputOptions containerOptions this =
        (Inr (JObj d), this(''joining'' \<mapsto> JBool True, ''join'' \<mapsto> JArr (map f xs)))
      \<and> length (map f xs) = length xs
      \<and> (2 \<le> length ys \<longrightarrow>
           createInputDescriptor env (JArr ys) inputOptions' containerOptions'
             (snd (createInputDescriptor env (JArr xs) inputOptions containerOptions this)) =
           (Inl (Error [Lit ''Recursive join is unsupported'']),
            snd (createInputDescriptor env (JArr xs) inputOptions containerOptions this)))
      \<and> (length ys < 2 \<longrightarrow>
           createInputDescriptor env (JArr ys) inputOptions' containerOptions'
             (snd (createInputDescriptor env (JArr xs) inputOptions containerOptions this)) =
           (Inl (Error [Lit ''Expected at least two images to join'']),
            snd (createInputDescriptor env (JArr xs) inputOptions containerOptions this))))
   \<and> (2 \<le> length xs \<and> truthy (opt this ''joining'') \<longrightarrow>
      createInputDescriptor env (JArr xs) inputOptions containerOptions this =
        (Inl (Error [Lit ''Recursive join is unsupported'']), this))"
proof (intro conjI impI)
  assume "length xs < 2"
  then show "createInputDescriptor env (JArr xs) inputOptions containerOptions this =
        (Inl (Error [Lit ''Expected at least two images to join'']), this)"
    by (rule join_too_short)
next
  assume h: "2 \<le> length xs \<and> \<not> truthy (opt this ''joining'') \<and>
       (\<forall>x\<in>set xs. \<forall>t. createInputDescriptor env x JUndefined JUndefined t = (Inr (f x), t)) \<and>
       applyInputOptions env (this(''joining'' \<mapsto> JBool True, ''join'' \<mapsto> JArr (map f xs)))
         (JArr xs) inputOptions initialDescriptor = (None, d)"
  then have r: "createInputDescriptor env (JArr xs) inputOptions containerOptions this =
        (Inr (JObj d), this(''joining'' \<mapsto> JBool True, ''join'' \<mapsto> JArr (map f xs)))"
    by (intro join_builds) simp_all
  then show "createInputDescriptor env (JArr xs) inputOptions containerOptions this =
        (Inr (JObj d), this(''joining'' \<mapsto> JBool True, ''join'' \<mapsto> JArr (map f xs)))" .
  show "length (map f xs) = length xs" by simp
  {
    assume "2 \<le> length ys"
    then show "createInputDescriptor env (JArr ys) inputOptions' containerOptions'
             (snd (createInputDescriptor env (JArr xs) inputOptions containerOptions this)) =
           (Inl (Error [Lit ''Recursive join is unsupported'']),
            snd (createInputDescriptor env (JArr xs) inputOptions containerOptions this))"
      unfolding r by (intro join_recursive) (simp_all add: opt_def)
  }
  {
    assume "length ys < 2"
    then show "createInputDescriptor env (JArr ys) inputOptions' containerOptions'
             (snd (createInputDescriptor env (JArr xs) inputOptions containerOptions this)) =
           (Inl (Error [Lit ''Expected at least two images to join'']),
            snd (createInputDescriptor env (JArr xs) inputOptions containerOptions this))"
      by (rule join_too_short)
  }
next
  assume "2 \<le> length xs \<and> truthy (opt this ''joining'')"
  then show "createInputDescriptor env (JArr xs) inputOptions containerOptions this =
        (Inl (Error [Lit ''Recursive join is unsupported'']), this)"
    by (intro join_recursive) simp_all
qed


text \<open>\<^verbatim>\<open>build([a])\<close> fails, \<^verbatim>\<open>build([a, b, c])\<close> yields three nested descriptors, and a join
  attempted afterwards fails.\<close>

theorem join_inputs_witness:
  "createInputDescriptor example_env (JArr [JStr ''a.png'']) JUndefined JUndefined Map.empty =
     (Inl (Error [Lit ''Expected at least two images to join'']), Map.empty)
   \<and> createInputDescriptor example_env (JArr [JStr ''a.png'', JStr ''b.png'', JStr ''c.png''])
        JUndefined JUndefined Map.empty =
     (Inr (JObj initialDescriptor),
      [''joining'' \<mapsto> JBool True,
       ''join'' \<mapsto> JArr [JObj (AList.update ''file'' (JStr ''a.png'') initialDescriptor),
                         JObj (AList.update ''file'' (JStr ''b.png'') initialDescriptor),
                         JObj (AList.update ''file'' (JStr ''c.png'') initialDescriptor)]])
   \<and> createInputDescriptor example_env (JArr [JStr ''d.png'', JStr ''e.png'']) JUndefined JUndefined
        (snd (createInputDescriptor example_env (JArr [JStr ''a.png'', JStr ''b.png'', JStr ''c.png''])
                JUndefined JUndefined Map.empty)) =
     (Inl (Error [Lit ''Recursive join is unsupported'']),
      snd (createInputDescriptor example_env (JArr [JStr ''a.png'', JStr ''b.png'', JStr ''c.png''])
                JUndefined JUndefined Map.empty))
   \<and> createInputDescriptor example_env (JArr [JStr ''d.png'', JStr ''e.png'']) JUndefined JUndefined
        [''joining'' \<mapsto> JBool True] =
     (Inl (Error [Lit ''Recursive join is unsupported'']), [''joining'' \<mapsto> JBool True])"
proof -
  let ?f = "\<lambda>x. JObj (AList.update ''file'' x initialDescriptor)"
  let ?xs = "[JStr ''a.png'', JStr ''b.png'', JStr ''c.png'']"
  let ?ys = "[JStr ''d.png'', JStr ''e.png'']"
  have each: "\<forall>x\<in>set ?xs. \<forall>t. createInputDescriptor example_env x JUndefined JUndefined t = (Inr (?f x), t)"
    by (simp add: direct_input_builds del: createInputDescriptor.simps)
  have opts: "applyInputOptions example_env
                (Map.empty(''joining'' \<mapsto> JBool True, ''join'' \<mapsto> JArr (map ?f ?xs)))
                (JArr ?xs) JUndefined initialDescriptor = (None, initialDescriptor)"
    by (rule applyInputOptions_absent)
  have nj: "\<not> truthy (opt Map.empty ''joining'')" by (simp add: opt_def)
  note T1 = join_inputs[where xs="[JStr ''a.png'']" and env=example_env and inputOptions=JUndefined
      and containerOptions=JUndefined and this=Map.empty, THEN conjunct1]
  note T2 = join_inputs[where xs="?xs" and env=example_env and inputOptions=JUndefined
      and containerOptions=JUndefined and this=Map.empty and f="?f" and d=initialDescriptor
      and ys="?ys" and inputOptions'=JUndefined and containerOptions'=JUndefined,
      THEN conjunct2, THEN conjunct1]
  note T3 = join_inputs[where xs="?ys" and env=example_env and inputOptions=JUndefined
      and containerOptions=JUndefined and this="[''joining'' \<mapsto> JBool True]",
      THEN conjunct2, THEN conjunct2]
  have a: "createInputDescriptor example_env (JArr [JStr ''a.png'']) JUndefined JUndefined Map.empty =
     (Inl (Error [Lit ''Expected at least two images to join'']), Map.empty)"
    using T1 by simp
  have len: "2 \<le> length ?xs" "2 \<le> length ?ys" by simp_all
  from T2 len nj each opts
  have b: "createInputDescriptor example_env (JArr ?xs) JUndefined JUndefined Map.empty =
        (Inr (JObj initialDescriptor),
         Map.empty(''joining'' \<mapsto> JBool True, ''join'' \<mapsto> JArr (map ?f ?xs)))"
    and c: "createInputDescriptor example_env (JArr ?ys) JUndefined JUndefined
             (snd (createInputDescriptor example_env (JArr ?xs) JUndefined JUndefined Map.empty)) =
           (Inl (Error [Lit ''Recursive join is unsupported'']),
            snd (createInputDescriptor example_env (JArr ?xs) JUndefined JUndefined Map.empty))"
    by blast+
  have d: "createInputDescriptor example_env (JArr ?ys) JUndefined JUndefined
        [''joining'' \<mapsto> JBool True] =
     (Inl (Error [Lit ''Recursive join is unsupported'']), [''joining'' \<mapsto> JBool True])"
    using T3 by (simp add: opt_def)
  have b': "createInputDescriptor example_env (JArr ?xs) JUndefined JUndefined Map.empty =
     (Inr (JObj initialDescriptor),
      [''joining'' \<mapsto> JBool True,
       ''join'' \<mapsto> JArr [JObj (AList.update ''file'' (JStr ''a.png'') initialDescriptor),
                         JObj (AList.update ''file'' (JStr ''b.png'') initialDescriptor),
                         JObj (AList.update ''file'' (JStr ''c.png'') initialDescriptor)]])"
    by (simp only: b list.map)
  show ?thesis using a b' c d by blast
qed

text \<open>
  C5 as stated fails in its last clause: after \<^verbatim>\<open>build([a, b, c])\<close> has set the join state, the
  array-input build \<^verbatim>\<open>build([d])\<close> on the same instance fails with
  \<^verbatim>\<open>Expected at least two images to join\<close>, not with \<^verbatim>\<open>Recursive join is unsupported\<close>: the
  length is tested at line 92, before the join state at line 94.
\<close>

theorem join_inputs_counterexample:
  "createInputDescriptor example_env (JArr [JStr ''a.png'', JStr ''b.png'', JStr ''c.png''])
        JUndefined JUndefined Map.empty =
     (Inr (JObj initialDescriptor),
      [''joining'' \<mapsto> JBool True,
       ''join'' \<mapsto> JArr [JObj (AList.update ''file'' (JStr ''a.png'') initialDescriptor),
                         JObj (AList.update ''file'' (JStr ''b.png'') initialDescriptor),
                         JObj (AList.update ''file'' (JStr ''c.png'') initialDescriptor)]])
   \<and> createInputDescriptor example_env (JArr [JStr ''d.png'']) JUndefined JUndefined
        [''joining'' \<mapsto> JBool True,
         ''join'' \<mapsto> JArr [JObj (AList.update ''file'' (JStr ''a.png'') initialDescriptor),
                           JObj (AList.update ''file'' (JStr ''b.png'') initialDescriptor),
                           JObj (AList.update ''file'' (JStr ''c.png'') initialDescriptor)]] =
     (Inl (Error [Lit ''Expected at least two images to join'']),
      [''joining'' \<mapsto> JBool True,
       ''join'' \<mapsto> JArr [JObj (AList.update ''file'' (JStr ''a.png'') initialDescriptor),
                         JObj (AList.update ''file'' (JStr ''b.png'') initialDescriptor),
                         JObj (AList.update ''file'' (JStr ''c.png'') initialDescriptor)]])
   \<and> Error [Lit ''Expected at least two images to join''] \<noteq>
       Error [Lit ''Recursive join is unsupported'']"
proof -
  let ?f = "\<lambda>x. JObj (AList.update ''file'' x initialDescriptor)"
  let ?xs = "[JStr ''a.png'', JStr ''b.png'', JStr ''c.png'']"
  have each: "\<forall>x\<in>set ?xs. \<forall>t. createInputDescriptor example_env x JUndefined JUndefined t = (Inr (?f x), t)"
    by (simp add: direct_input_builds del: createInputDescriptor.simps)
  have opts: "applyInputOptions example_env
                (Map.empty(''joining'' \<mapsto> JBool True, ''join'' \<mapsto> JArr (map ?f ?xs)))
                (JArr ?xs) JUndefined initialDescriptor = (None, initialDescriptor)"
    by (rule applyInputOptions_absent)
  have nj: "\<not> truthy (opt Map.empty ''joining'')" by (simp add: opt_def)
  have len: "2 \<le> length ?xs" by simp
  have b: "createInputDescriptor example_env (JArr ?xs) JUndefined JUndefined Map.empty =
        (Inr (JObj initialDescriptor),
         Map.empty(''joining'' \<mapsto> JBool True, ''join'' \<mapsto> JArr (map ?f ?xs)))"
    by (rule join_builds[OF len nj each opts])
  have b': "createInputDescriptor example_env (JArr ?xs) JUndefined JUndefined Map.empty =
     (Inr (JObj initialDescriptor),
      [''joining'' \<mapsto> JBool True,
       ''join'' \<mapsto> JArr [JObj (AList.update ''file'' (JStr ''a.png'') initialDescriptor),
                         JObj (AList.update ''file'' (JStr ''b.png'') initialDescriptor),
                         JObj (AList.update ''file'' (JStr ''c.png'') initialDescriptor)]])"
    by (simp only: b list.map)
  have c: "createInputDescriptor example_env (JArr [JStr ''d.png'']) JUndefined JUndefined t =
     (Inl (Error [Lit ''Expected at least two images to join'']), t)" for t
    by (rule join_too_short) simp
  have d: "Error [Lit ''Expected at least two images to join''] \<noteq>
       Error [Lit ''Recursive join is unsupported'']"
    by simp
  show ?thesis using b' c d by (intro conjI)
qed

subsection \<open>The retention mask\<close>

lemma to_int32_of_int32: "to_int32 (of_int32 w) = w"
proof -
  have "to_int32 (JNum (of_int (sint w))) = w"
    unfolding to_int32.simps by (simp only: floor_of_int ceiling_of_int if_cancel) simp
  then show ?thesis by (simp only: of_int32_def)
qed

lemma keep_bit_stored:
  "keep_bit (s(''keepMetadata'' \<mapsto> of_int32 w)) n = bit w n"
  by (simp add: keep_bit_def opt_def to_int32_of_int32)

lemma keepExif_bit: "keep_bit (snd (keepExif t)) 0"
  by (simp add: keepExif_def reading_def assign_def keep_bit_stored bit_or_iff)

lemma block_last3:
  assumes "fst (block [a, b, c] s) = None"
  shows "\<exists>t. snd (block [a, b, c] s) = snd (c t)"
  using block_fst_None_nth[OF assms, of 2] by (auto simp del: block.simps(2))

lemma withExif_bit:
  assumes "fst (withExif exif s) = None"
  shows "keep_bit (snd (withExif exif s)) 0"
proof -
  have "\<exists>t. snd (withExif exif s) = snd (keepExif t)"
    using assms unfolding withExif_def by (rule block_last3)
  then show ?thesis by (auto simp: keepExif_bit)
qed

lemma withXmp_bit:
  assumes "fst (withXmp xmp s) = None"
  shows "keep_bit (snd (withXmp xmp s)) 1"
proof (cases "is_string xmp \<and> 0 < str_length xmp")
  case True
  then show ?thesis
    by (simp add: withXmp_def reading_def assign_def keep_bit_stored bit_or_iff)
next
  case False
  with assms show ?thesis by (simp add: withXmp_def throw_def)
qed

lemma withIccProfile_bit:
  assumes "fst (withIccProfile icc options s) = None"
  shows "snd (withIccProfile icc options s) ''withIccProfile'' = Some icc \<and>
         keep_bit (snd (withIccProfile icc options s)) 3 =
           (\<not> (is_object options \<and> prop_of options ''attach'' = JBool False))"
proof -
  have str: "is_string icc"
    using assms by (auto simp: withIccProfile_def throw_def split: if_splits)
  show ?thesis
  proof (cases "is_object options")
    case False
    then show ?thesis using str
      by (simp add: withIccProfile_def keepIccProfile_def reading_def assign_def skip_def
            keep_bit_stored bit_or_iff)
  next
    case True
    note obj = this
    show ?thesis
    proof (cases "options = JNull")
      case True
      with assms str show ?thesis
        by (simp add: withIccProfile_def keepIccProfile_def reading_def assign_def throw_def)
    next
      case False
      note nn = this
      show ?thesis
      proof (cases "is_defined (prop_of options ''attach'')")
        case False
        then have "prop_of options ''attach'' \<noteq> JBool False" by (auto simp: is_defined_def)
        with False obj nn str show ?thesis
          by (simp add: withIccProfile_def keepIccProfile_def reading_def assign_def skip_def
                keep_bit_stored bit_or_iff)
      next
        case True
        note def = this
        show ?thesis
        proof (cases "prop_of options ''attach''")
          case (JBool b)
          with def obj nn str show ?thesis
            by (cases b) (simp_all add: withIccProfile_def keepIccProfile_def reading_def assign_def skip_def
                  keep_bit_stored bit_or_iff bit_and_iff bit_not_iff opt_def to_int32_of_int32)
        qed (use assms def obj nn str in \<open>simp_all add: withIccProfile_def keepIccProfile_def reading_def assign_def throw_def\<close>)
      qed
    qed
  qed
qed


text \<open>
  C6: a call of \<^verbatim>\<open>withExif\<close> that returns has set bit \<^verbatim>\<open>0b00001\<close> of \<^verbatim>\<open>keepMetadata\<close>, a call of
  \<^verbatim>\<open>withXmp\<close> that returns has set bit \<^verbatim>\<open>0b00010\<close>, and a call of \<^verbatim>\<open>withIccProfile\<close> that
  returns has recorded the profile in \<^verbatim>\<open>withIccProfile\<close> and has set bit \<^verbatim>\<open>0b01000\<close>, except
  that with \<^verbatim>\<open>options.attach === false\<close> it leaves that bit cleared.
\<close>

theorem metadata_bits:
  "(fst (withExif exif s) = None \<longrightarrow> keep_bit (snd (withExif exif s)) 0)
   \<and> (fst (withXmp xmp s) = None \<longrightarrow> keep_bit (snd (withXmp xmp s)) 1)
   \<and> (fst (withIccProfile icc options s) = None \<longrightarrow>
        snd (withIccProfile icc options s) ''withIccProfile'' = Some icc \<and>
        keep_bit (snd (withIccProfile icc options s)) 3 =
          (\<not> (is_object options \<and> prop_of options ''attach'' = JBool False)))"
  using withExif_bit[of exif s] withXmp_bit[of xmp s] withIccProfile_bit[of icc options s]
  by blast

text \<open>The example of the documentation for \<^verbatim>\<open>withExif\<close>, an XMP string, and the profile
  \<^verbatim>\<open>p3\<close> with and without \<^verbatim>\<open>attach: false\<close>.\<close>

theorem metadata_bits_witness:
  "withExif (JObj [(''IFD0'', JObj [(''Copyright'', JStr ''The National Gallery'')])])
      [''withExif'' \<mapsto> JObj [], ''keepMetadata'' \<mapsto> JNum 0] =
     (None, [''withExif'' \<mapsto> JObj [(''exif-ifd0-Copyright'', JStr ''The National Gallery'')],
             ''withExifMerge'' \<mapsto> JBool False, ''keepMetadata'' \<mapsto> JNum 1])
   \<and> keep_bit (snd (withExif (JObj [(''IFD0'', JObj [(''Copyright'', JStr ''The National Gallery'')])])
                      [''withExif'' \<mapsto> JObj [], ''keepMetadata'' \<mapsto> JNum 0])) 0
   \<and> fst (withXmp (JStr ''<x/>'') [''keepMetadata'' \<mapsto> JNum 0]) = None
   \<and> keep_bit (snd (withXmp (JStr ''<x/>'') [''keepMetadata'' \<mapsto> JNum 0])) 1
   \<and> fst (withIccProfile (JStr ''p3'') JUndefined [''keepMetadata'' \<mapsto> JNum 0]) = None
   \<and> keep_bit (snd (withIccProfile (JStr ''p3'') JUndefined [''keepMetadata'' \<mapsto> JNum 0])) 3
   \<and> fst (withIccProfile (JStr ''p3'') (JObj [(''attach'', JBool False)])
            [''keepMetadata'' \<mapsto> JNum 31]) = None
   \<and> \<not> keep_bit (snd (withIccProfile (JStr ''p3'') (JObj [(''attach'', JBool False)])
            [''keepMetadata'' \<mapsto> JNum 31])) 3
   \<and> snd (withIccProfile (JStr ''p3'') (JObj [(''attach'', JBool False)])
            [''keepMetadata'' \<mapsto> JNum 31]) ''withIccProfile'' = Some (JStr ''p3'')"
proof -
  let ?exif = "JObj [(''IFD0'', JObj [(''Copyright'', JStr ''The National Gallery'')])]"
  let ?s0 = "[''withExif'' \<mapsto> JObj [], ''keepMetadata'' \<mapsto> JNum 0]"
  have e: "withExif ?exif ?s0 =
     (None, [''withExif'' \<mapsto> JObj [(''exif-ifd0-Copyright'', JStr ''The National Gallery'')],
             ''withExifMerge'' \<mapsto> JBool False, ''keepMetadata'' \<mapsto> JNum 1])"
    by (simp add: withExif_def assign_member_def keepExif_def toLowerCase_def lower_char_def
          of_int32_def run_defs fun_upd_twist)
  then have e0: "fst (withExif ?exif ?s0) = None" by simp
  have x0: "fst (withXmp (JStr ''<x/>'') [''keepMetadata'' \<mapsto> JNum 0]) = None"
    by (simp add: withXmp_def run_defs)
  have i0: "fst (withIccProfile (JStr ''p3'') JUndefined [''keepMetadata'' \<mapsto> JNum 0]) = None"
    by (simp add: withIccProfile_def keepIccProfile_def run_defs)
  have i1: "fst (withIccProfile (JStr ''p3'') (JObj [(''attach'', JBool False)])
            [''keepMetadata'' \<mapsto> JNum 31]) = None"
    by (simp add: withIccProfile_def keepIccProfile_def run_defs)
  note a = metadata_bits[where exif="?exif" and s="?s0", THEN conjunct1]
  note b = metadata_bits[where xmp="JStr ''<x/>''" and s="[''keepMetadata'' \<mapsto> JNum 0]",
             THEN conjunct2, THEN conjunct1]
  note c = metadata_bits[where icc="JStr ''p3''" and options=JUndefined
             and s="[''keepMetadata'' \<mapsto> JNum 0]", THEN conjunct2, THEN conjunct2]
  note d = metadata_bits[where icc="JStr ''p3''" and options="JObj [(''attach'', JBool False)]"
             and s="[''keepMetadata'' \<mapsto> JNum 31]", THEN conjunct2, THEN conjunct2]
  have c': "keep_bit (snd (withIccProfile (JStr ''p3'') JUndefined [''keepMetadata'' \<mapsto> JNum 0])) 3"
    using c i0 by simp
  have d': "\<not> keep_bit (snd (withIccProfile (JStr ''p3'') (JObj [(''attach'', JBool False)])
            [''keepMetadata'' \<mapsto> JNum 31])) 3
        \<and> snd (withIccProfile (JStr ''p3'') (JObj [(''attach'', JBool False)])
            [''keepMetadata'' \<mapsto> JNum 31]) ''withIccProfile'' = Some (JStr ''p3'')"
    using d i1 by simp
  show ?thesis using e a e0 b x0 c' i0 d' i1 by blast
qed

subsection \<open>Rounding to binary64\<close>

lemma exponent_bounds:
  assumes "0 < x"
  shows "2 powi exponent x \<le> x \<and> x < 2 powi (exponent x + 1)"
proof (cases "1 \<le> x")
  case True
  define n where "n = nat \<lfloor>x\<rfloor>"
  have n: "0 < n" "of_nat n \<le> x" "x < of_nat n + 1"
    using True by (auto simp: n_def) linarith+
  define k where "k = floorlog 2 n"
  have b: "2 ^ (k - 1) \<le> n" "n < 2 ^ k"
    using floorlog_bounds[of n 2] n(1) by (auto simp: k_def)
  have k: "0 < k" using b n(1) by (cases k) auto
  have e: "exponent x = int k - 1"
    using True by (simp add: exponent_def k_def n_def)
  have "(of_nat (2 ^ (k - 1)) :: rat) \<le> of_nat n"
    using b(1) by (rule of_nat_mono)
  then have "(2::rat) ^ (k - 1) \<le> of_nat n"
    by simp
  then have "(2::rat) ^ (k - 1) \<le> x"
    using n(2) by linarith
  then have lo: "(2::rat) powi (int k - 1) \<le> x"
    using k by (simp add: power_int_def nat_diff_distrib')
  have "n + 1 \<le> 2 ^ k" using b(2) by simp
  then have "(of_nat (n + 1) :: rat) \<le> of_nat (2 ^ k)"
    by (rule of_nat_mono)
  then have "(of_nat n :: rat) + 1 \<le> 2 ^ k"
    by simp
  then have hi: "x < (2::rat) powi (int k - 1 + 1)"
    using n(3) by (simp add: power_int_def)
  show ?thesis using lo hi e by simp
next
  case False
  then have x1: "x < 1" by simp
  define y where "y = 1 / x"
  have y: "1 < y" using assms x1 by (simp add: y_def)
  define m where "m = nat (\<lceil>y\<rceil> - 1)"
  have c: "2 \<le> \<lceil>y\<rceil>" using y by linarith
  have m: "0 < m" "of_nat m < y" "y \<le> of_nat m + 1"
    using c by (auto simp: m_def) linarith+
  define k where "k = floorlog 2 m"
  have b: "2 ^ (k - 1) \<le> m" "m < 2 ^ k"
    using floorlog_bounds[of m 2] m(1) by (auto simp: k_def)
  have k: "0 < k" using b m(1) by (cases k) auto
  have e: "exponent x = - int k"
    using False by (simp add: exponent_def k_def m_def y_def)
  have "m + 1 \<le> 2 ^ k" using b(2) by simp
  then have "(of_nat (m + 1) :: rat) \<le> of_nat (2 ^ k)"
    by (rule of_nat_mono)
  then have "(of_nat m :: rat) + 1 \<le> 2 ^ k"
    by simp
  then have "y \<le> 2 ^ k" using m(3) by linarith
  then have "1 / 2 ^ k \<le> x"
    using assms by (simp add: y_def field_simps)
  then have lo: "(2::rat) powi (- int k) \<le> x"
    using k by (simp add: power_int_def field_simps)
  have "(of_nat (2 ^ (k - 1)) :: rat) \<le> of_nat m"
    using b(1) by (rule of_nat_mono)
  then have "(2::rat) ^ (k - 1) \<le> of_nat m"
    by simp
  then have "(2::rat) ^ (k - 1) < y" using m(2) by linarith
  then have "x < 1 / 2 ^ (k - 1)"
    using assms by (simp add: y_def field_simps)
  moreover have "- int k + 1 = - int (k - 1)" using k by simp
  then have "(2::rat) powi (- int k + 1) = 1 / 2 ^ (k - 1)"
    by (simp only: power_int_minus_divide power_int_of_nat)
  ultimately have hi: "x < (2::rat) powi (- int k + 1)"
    by simp
  show ?thesis using lo hi e by simp
qed

lemma exponent_eqI:
  assumes "2 powi e \<le> x" and "x < 2 powi (e + 1)"
  shows "exponent x = e"
proof -
  have pos: "0 < x"
    using assms(1) by (rule less_le_trans[rotated]) simp
  note b = exponent_bounds[OF pos]
  have "(2::rat) powi e < 2 powi (exponent x + 1)"
    using assms(1) b by linarith
  then have 1: "e < exponent x + 1"
    using power_int_increasing[of "exponent x + 1" e "2::rat"] by (cases "e < exponent x + 1") auto
  have "(2::rat) powi exponent x < 2 powi (e + 1)"
    using assms(2) b by linarith
  then have 2: "exponent x < e + 1"
    using power_int_increasing[of "e + 1" "exponent x" "2::rat"] by (cases "exponent x < e + 1") auto
  show ?thesis using 1 2 by simp
qed

lemma round_half_even_error: "\<bar>of_int (round_half_even y) - y\<bar> \<le> 1 / 2"
  unfolding round_half_even_def Let_def
  by (auto simp: abs_if) linarith+


lemma binary64_eqI:
  assumes "2 powi e \<le> \<bar>x\<bar>" and "\<bar>x\<bar> < 2 powi (e + 1)" and "- 1022 \<le> e"
    and "of_int (round_half_even (x / 2 powi (e - 52))) * 2 powi (e - 52) = v"
  shows "binary64 x = v"
proof -
  have "0 < \<bar>x\<bar>"
    using assms(1) by (rule less_le_trans[rotated]) simp
  then have nz: "x \<noteq> 0" by simp
  have "exponent \<bar>x\<bar> = e"
    using assms(1,2) by (rule exponent_eqI)
  then show ?thesis
    using nz assms(3,4) by (simp add: binary64_def Let_def max_def)
qed

lemma binary64_error:
  assumes "\<bar>x\<bar> < 2 powi (k + 1)" and "- 1022 \<le> k"
  shows "\<bar>binary64 x - x\<bar> \<le> 2 powi (k - 53)"
proof (cases "x = 0")
  case True
  then show ?thesis by (simp add: binary64_def)
next
  case False
  then have pos: "0 < \<bar>x\<bar>" by simp
  define e where "e = max (exponent \<bar>x\<bar>) (- 1022)"
  define u :: rat where "u = 2 powi (e - 52)"
  have u: "0 < u" by (simp add: u_def)
  have "(2::rat) powi exponent \<bar>x\<bar> < 2 powi (k + 1)"
    using exponent_bounds[OF pos] assms(1) by linarith
  then have "exponent \<bar>x\<bar> < k + 1"
    using power_int_increasing[of "k + 1" "exponent \<bar>x\<bar>" "2::rat"]
    by (cases "exponent \<bar>x\<bar> < k + 1") auto
  then have ek: "e \<le> k" using assms(2) by (simp add: e_def)
  have b: "binary64 x = of_int (round_half_even (x / u)) * u"
    using False by (simp add: binary64_def Let_def u_def e_def)
  have "binary64 x - x = (of_int (round_half_even (x / u)) - x / u) * u"
    using u by (simp add: b field_simps)
  then have "\<bar>binary64 x - x\<bar> = \<bar>of_int (round_half_even (x / u)) - x / u\<bar> * u"
    using u by (simp add: abs_mult)
  also have "\<dots> \<le> (1 / 2) * u"
    using round_half_even_error[of "x / u"] u by (intro mult_right_mono) simp_all
  also have "\<dots> = 2 powi (e - 53)"
  proof -
    have "(2::rat) powi (e - 53 + 1) = 2 powi (e - 53) * 2"
      by (rule power_int_add_1) simp
    moreover have "e - 53 + 1 = e - 52" by simp
    ultimately have "(2::rat) powi (e - 52) = 2 powi (e - 53) * 2" by simp
    then show ?thesis by (simp add: u_def)
  qed
  also have "\<dots> \<le> 2 powi (k - 53)"
    using ek by (intro power_int_increasing) simp_all
  finally show ?thesis .
qed

lemma binary64_near:
  assumes "\<bar>x\<bar> < 128"
  shows "\<bar>binary64 x - x\<bar> \<le> 1 / 2 ^ 47"
  using binary64_error[of x 6] assms by simp

lemma mul_bound:
  fixes a b :: rat
  assumes "\<bar>a\<bar> \<le> Ma" and "\<bar>b\<bar> \<le> Mb"
  shows "\<bar>a * b\<bar> \<le> Ma * Mb"
  unfolding abs_mult using assms by (intro mult_mono) simp_all

lemma mul_error:
  fixes a b A B :: rat
  assumes "\<bar>a - A\<bar> \<le> da" and "\<bar>b - B\<bar> \<le> db" and "\<bar>a\<bar> \<le> Ma" and "\<bar>B\<bar> \<le> MB"
  shows "\<bar>a * b - A * B\<bar> \<le> Ma * db + MB * da"
proof -
  have "a * b - A * B = a * (b - B) + B * (a - A)" by (simp add: algebra_simps)
  then have "\<bar>a * b - A * B\<bar> \<le> \<bar>a * (b - B)\<bar> + \<bar>B * (a - A)\<bar>"
    by (simp only: abs_triangle_ineq)
  also have "\<dots> \<le> Ma * db + MB * da"
    using mul_bound[OF assms(3) assms(2)] mul_bound[OF assms(4) assms(1)] by linarith
  finally show ?thesis .
qed


lemma floor_rat_numeral:
  "\<lfloor>numeral a / numeral b :: rat\<rfloor> = numeral a div numeral b"
  using floor_divide_of_int_eq[of "numeral a" "numeral b", where ?'a=rat] by simp

lemma floor_rat_neg_numeral:
  "\<lfloor>- (numeral a / numeral b) :: rat\<rfloor> = - numeral a div numeral b"
  using floor_divide_of_int_eq[of "- numeral a" "numeral b", where ?'a=rat] by simp

lemmas binary64_eval = round_half_even_def Let_def floor_rat_numeral floor_rat_neg_numeral

lemma binary64_tenth: "binary64 (1 / 10) = 3602879701896397 / 36028797018963968"
  by (rule binary64_eqI[where e="- 4"]) (simp_all add: binary64_eval)

lemma binary64_nine_hundredths: "binary64 (9 / 100) = 3242591731706757 / 36028797018963968"
  by (rule binary64_eqI[where e="- 4"]) (simp_all add: binary64_eval)

lemma jxl_distance_of_quality_90: "jxl_distance_of_quality 90 = 9007199254740991 / 9007199254740992"
proof -
  have b: "(30::rat) \<le> 90" by simp
  have t: "binary64 (100 - 90) = 10"
    by (rule binary64_eqI[where e=3]) (simp_all add: binary64_eval)
  have p: "binary64 (10 * (3242591731706757 / 36028797018963968)) =
      2026619832316723 / 2251799813685248"
    by (rule binary64_eqI[where e="- 1"]) (simp_all add: binary64_eval)
  have s: "binary64 (3602879701896397 / 36028797018963968 + 2026619832316723 / 2251799813685248) =
      9007199254740991 / 9007199254740992"
    by (rule binary64_eqI[where e="- 1"]) (simp_all add: binary64_eval)
  show ?thesis
    unfolding jxl_distance_of_quality_def js_add_def js_mul_def js_sub_def
    by (simp only: b if_True binary64_tenth binary64_nine_hundredths t p s)
qed

lemma jxl_distance_of_quality_20: "jxl_distance_of_quality 20 = 2552039788843281 / 281474976710656"
proof -
  have b: "\<not> (30::rat) \<le> 20" by simp
  have a: "binary64 (53 / 3000) = 5092069978680241 / 288230376151711744"
    by (rule binary64_eqI[where e="- 6"]) (simp_all add: binary64_eval)
  have b1: "binary64 (5092069978680241 / 288230376151711744 * 20) =
      6365087473350301 / 18014398509481984"
    by (rule binary64_eqI[where e="- 2"]) (simp_all add: binary64_eval)
  have c: "binary64 (6365087473350301 / 18014398509481984 * 20) =
      1989089835421969 / 281474976710656"
    by (rule binary64_eqI[where e=2]) (simp_all add: binary64_eval)
  have d: "binary64 (23 / 20) = 2589569785738035 / 2251799813685248"
    by (rule binary64_eqI[where e=0]) (simp_all add: binary64_eval)
  have f: "binary64 (2589569785738035 / 2251799813685248 * 20) = 23"
    by (rule binary64_eqI[where e=4]) (simp_all add: binary64_eval)
  have g: "binary64 (1989089835421969 / 281474976710656 - 23) =
      - (4484834628923119 / 281474976710656)"
    by (rule binary64_eqI[where e=3]) (simp_all add: binary64_eval)
  have h: "binary64 (- (4484834628923119 / 281474976710656) + 25) =
      2552039788843281 / 281474976710656"
    by (rule binary64_eqI[where e=3]) (simp_all add: binary64_eval)
  show ?thesis
    unfolding jxl_distance_of_quality_def js_add_def js_mul_def js_sub_def js_div_def
    by (simp only: b if_False a b1 c d f g h)
qed

lemma jxl_distance_linear_close:
  assumes "30 \<le> q" and "q \<le> 100"
  shows "\<bar>jxl_distance_of_quality q - (1 / 10 + (100 - q) * (9 / 100))\<bar> \<le> 1 / 10 ^ 11"
proof -
  define eps :: rat where "eps = 1 / 2 ^ 47"
  define c1 where "c1 = binary64 (1 / 10)"
  define c2 where "c2 = binary64 (9 / 100)"
  define t where "t = binary64 (100 - q)"
  define p where "p = binary64 (t * c2)"
  define s where "s = binary64 (c1 + p)"
  have e: "0 < eps" "eps \<le> 1 / 100000000000000" by (simp_all add: eps_def)
  have c1: "\<bar>c1 - 1 / 10\<bar> \<le> eps"
    unfolding c1_def eps_def by (rule binary64_near) simp
  have c2: "\<bar>c2 - 9 / 100\<bar> \<le> eps"
    unfolding c2_def eps_def by (rule binary64_near) simp
  have t: "\<bar>t - (100 - q)\<bar> \<le> eps"
    unfolding t_def eps_def using assms by (intro binary64_near) simp
  have tb: "\<bar>t\<bar> \<le> 71" using t assms e by linarith
  have c2b: "\<bar>c2\<bar> \<le> 1 / 10" using c2 e by linarith
  have tc: "\<bar>t * c2 - (100 - q) * (9 / 100)\<bar> \<le> 71 * eps + 1 / 10 * eps"
  proof -
    have "\<bar>t * c2 - (100 - q) * (9 / 100)\<bar> \<le> 71 * eps + 1 / 10 * eps"
      by (rule mul_error[OF t c2 tb]) simp
    then show ?thesis .
  qed
  have tcb: "\<bar>t * c2\<bar> \<le> 71 * (1 / 10)" by (rule mul_bound[OF tb c2b])
  have p: "\<bar>p - t * c2\<bar> \<le> eps"
    unfolding p_def eps_def using tcb by (intro binary64_near) simp
  have pb: "\<bar>p\<bar> \<le> 8" using p tcb e by linarith
  have c1b: "\<bar>c1\<bar> \<le> 1" using c1 e by linarith
  have s: "\<bar>s - (c1 + p)\<bar> \<le> eps"
    unfolding s_def eps_def using pb c1b by (intro binary64_near) linarith
  have "\<bar>s - (1 / 10 + (100 - q) * (9 / 100))\<bar> \<le> 75 * eps"
    using s c1 p tc e by linarith
  moreover have "75 * eps \<le> 1 / 10 ^ 11" by (simp add: eps_def)
  moreover have "(1::rat) / 10 ^ 11 = 1 / 100000000000" by simp
  moreover have "jxl_distance_of_quality q = s"
    using assms by (simp add: jxl_distance_of_quality_def js_add_def js_mul_def js_sub_def
        s_def p_def t_def c1_def c2_def)
  ultimately show ?thesis by linarith
qed

lemma jxl_distance_quadratic_close:
  assumes "1 \<le> q" and "q < 30"
  shows "\<bar>jxl_distance_of_quality q - (53 / 3000 * q * q - 23 / 20 * q + 25)\<bar> \<le> 1 / 10 ^ 11"
proof -
  define eps :: rat where "eps = 1 / 2 ^ 47"
  define a where "a = binary64 (53 / 3000)"
  define b where "b = binary64 (a * q)"
  define c where "c = binary64 (b * q)"
  define d where "d = binary64 (23 / 20)"
  define f where "f = binary64 (d * q)"
  define g where "g = binary64 (c - f)"
  define h where "h = binary64 (g + 25)"
  have e: "0 < eps" "eps \<le> 1 / 100000000000000" by (simp_all add: eps_def)
  have q: "\<bar>q - q\<bar> \<le> 0" "\<bar>q\<bar> \<le> 30" using assms by simp_all
  have a: "\<bar>a - 53 / 3000\<bar> \<le> eps"
    unfolding a_def eps_def by (rule binary64_near) simp
  have ab: "\<bar>a\<bar> \<le> 1 / 50" using a e by linarith
  have aq: "\<bar>a * q - 53 / 3000 * q\<bar> \<le> 1 / 50 * 0 + 30 * eps"
    by (rule mul_error[OF a q(1) ab q(2)])
  have aqb: "\<bar>a * q\<bar> \<le> 1 / 50 * 30" by (rule mul_bound[OF ab q(2)])
  have b: "\<bar>b - a * q\<bar> \<le> eps"
    unfolding b_def eps_def using aqb by (intro binary64_near) simp
  have b': "\<bar>b - 53 / 3000 * q\<bar> \<le> 31 * eps" using b aq by linarith
  have bb: "\<bar>b\<bar> \<le> 1" using b aqb e by linarith
  have bq: "\<bar>b * q - 53 / 3000 * q * q\<bar> \<le> 1 * 0 + 30 * (31 * eps)"
    by (rule mul_error[OF b' q(1) bb q(2)])
  have bqb: "\<bar>b * q\<bar> \<le> 1 * 30" by (rule mul_bound[OF bb q(2)])
  have c: "\<bar>c - b * q\<bar> \<le> eps"
    unfolding c_def eps_def using bqb by (intro binary64_near) simp
  have cb: "\<bar>c\<bar> \<le> 31" using c bqb e by linarith
  have d: "\<bar>d - 23 / 20\<bar> \<le> eps"
    unfolding d_def eps_def by (rule binary64_near) simp
  have db: "\<bar>d\<bar> \<le> 2" using d e by linarith
  have dq: "\<bar>d * q - 23 / 20 * q\<bar> \<le> 2 * 0 + 30 * eps"
    by (rule mul_error[OF d q(1) db q(2)])
  have dqb: "\<bar>d * q\<bar> \<le> 2 * 30" by (rule mul_bound[OF db q(2)])
  have f: "\<bar>f - d * q\<bar> \<le> eps"
    unfolding f_def eps_def using dqb by (intro binary64_near) simp
  have fb: "\<bar>f\<bar> \<le> 61" using f dqb e by linarith
  have g: "\<bar>g - (c - f)\<bar> \<le> eps"
    unfolding g_def eps_def using cb fb by (intro binary64_near) linarith
  have gb: "\<bar>g\<bar> \<le> 93" using g cb fb e by linarith
  have h: "\<bar>h - (g + 25)\<bar> \<le> eps"
    unfolding h_def eps_def using gb by (intro binary64_near) linarith
  have "\<bar>h - (53 / 3000 * q * q - 23 / 20 * q + 25)\<bar> \<le> 964 * eps"
    using h g c f bq dq e by linarith
  moreover have "964 * eps \<le> 1 / 100000000000" by (simp add: eps_def)
  moreover have "(1::rat) / 10 ^ 11 = 1 / 100000000000" by simp
  moreover have "jxl_distance_of_quality q = h"
    using assms by (simp add: jxl_distance_of_quality_def js_add_def js_mul_def js_sub_def
        js_div_def h_def g_def f_def d_def c_def b_def a_def)
  ultimately show ?thesis by linarith
qed


subsection \<open>The distance of the JPEG XL resolver\<close>

lemma jxl_quality_distance:
  assumes q: "prop_of options ''quality'' = JNum q" and int: "of_int \<lfloor>q\<rfloor> = q"
    and lo: "1 \<le> q" and hi: "q \<le> 100"
  shows "snd (jxl options s) ''jxlDistance'' = Some (JNum (jxl_distance_of_quality q))"
proof -
  have obj: "is_object options \<and> options \<noteq> JNull"
    using q prop_of_not_object[of options "''quality''"] by auto
  show ?thesis
    using obj unfolding jxl_def
    apply (simp only: if_True if_False simp_thms)
    apply (rule block_head_sets)
     apply (rule block_head_sets)
    using q int lo hi apply (simp add: is_defined_def assign_def)
     apply (simp add: preserves_intros)
    apply (simp add: preserves_intros preserves_trySetAnimationOptions preserves_updateFormatOut)
    done
qed

lemma jxl_distance_stored:
  assumes nq: "\<not> is_defined (prop_of options ''quality'')"
    and d: "prop_of options ''distance'' = JNum d" and lo: "0 \<le> d" and hi: "d \<le> 15"
  shows "snd (jxl options s) ''jxlDistance'' = Some (JNum d)"
proof -
  have obj: "is_object options \<and> options \<noteq> JNull"
    using d prop_of_not_object[of options "''distance''"] by auto
  have dd: "is_defined (prop_of options ''distance'')" using d by (simp add: is_defined_def)
  show ?thesis
    using obj unfolding jxl_def
    apply (simp only: if_True if_False simp_thms)
    apply (rule block_head_sets)
     apply (rule block_head_sets)
    using nq dd lo hi apply (simp add: d assign_def)
     apply (simp add: preserves_intros)
    apply (simp add: preserves_intros preserves_trySetAnimationOptions preserves_updateFormatOut)
    done
qed

lemma jxl_distance_rejected:
  assumes nq: "\<not> is_defined (prop_of options ''quality'')"
    and d: "is_defined (prop_of options ''distance'')"
    and bad: "\<not> (is_number (prop_of options ''distance'') \<and> is_inRange (prop_of options ''distance'') 0 15)"
  shows "jxl options s =
           (Some (invalidParameterError ''distance'' ''number between 0.0 and 15.0''
                    (prop_of options ''distance'')), s)"
proof -
  have obj: "is_object options \<and> options \<noteq> JNull"
    using d prop_of_not_object[of options "''distance''"] by (auto simp: is_defined_def)
  have bad': "(is_number (prop_of options ''distance'') \<and>
               is_inRange (prop_of options ''distance'') 0 15) = False"
    using bad by simp
  show ?thesis
    using obj unfolding jxl_def
    apply (simp only: if_True if_False simp_thms)
    apply (rule block_throws_head)
    apply (rule block_throws_head)
    apply (simp only: nq d bad' if_True if_False throw_def)
    done
qed

lemma jxl_decodingTier:
  assumes ok: "fst (jxl options s) = None"
    and dt: "is_defined (prop_of options ''decodingTier'')"
  shows "is_integer (prop_of options ''decodingTier'') \<and>
         is_inRange (prop_of options ''decodingTier'') 0 4 \<and>
         snd (jxl options s) ''jxlDecodingTier'' = Some (prop_of options ''decodingTier'')"
proof -
  have obj: "is_object options \<and> options \<noteq> JNull"
    using dt prop_of_not_object[of options "''decodingTier''"] by (auto simp: is_defined_def)
  have valid: "is_integer (prop_of options ''decodingTier'') \<and>
         is_inRange (prop_of options ''decodingTier'') 0 4"
    using ok obj unfolding jxl_def
    apply (simp only: if_True if_False simp_thms)
    apply (drule block_fst_None_nth[where i=0])
     apply simp
    apply (simp only: nth_Cons_0)
    apply (elim conjE)
    apply (drule block_fst_None_nth[where i=1])
     apply simp
    using dt apply (simp add: throw_def split: if_splits)
    done
  have "snd (jxl options s) ''jxlDecodingTier'' = Some (prop_of options ''decodingTier'')"
    using ok obj unfolding jxl_def
    apply (simp only: if_True if_False simp_thms)
    apply (erule block_sets_nth[where i=0])
      apply simp
     apply (simp only: nth_Cons_0)
     apply (erule block_sets_nth[where i=1])
       apply simp
    using dt valid apply (simp add: assign_def)
     apply (simp add: preserves_intros)
    apply (simp add: preserves_intros preserves_trySetAnimationOptions preserves_updateFormatOut)
    done
  with valid show ?thesis by simp
qed


lemma jxl_ignores_distance:
  assumes q: "prop_of options ''quality'' = JNum q"
    and same: "\<forall>k. k \<noteq> ''distance'' \<longrightarrow> prop_of options' k = prop_of options k"
  shows "jxl options' s = jxl options s"
proof -
  have obj: "is_object options" "options \<noteq> JNull"
    using q prop_of_not_object[of options "''quality''"] by auto
  have q': "prop_of options' ''quality'' = JNum q"
    using same q by simp
  have obj': "is_object options'" "options' \<noteq> JNull"
    using q' prop_of_not_object[of options' "''quality''"] by auto
  have keys: "prop_of options' ''decodingTier'' = prop_of options ''decodingTier''"
    "prop_of options' ''lossless'' = prop_of options ''lossless''"
    "prop_of options' ''effort'' = prop_of options ''effort''"
    "prop_of options' ''loop'' = prop_of options ''loop''"
    "prop_of options' ''delay'' = prop_of options ''delay''"
    "prop_of options' ''force'' = prop_of options ''force''"
    using same by simp_all
  have dq: "is_defined (JNum q)" by (simp add: is_defined_def)
  show ?thesis
    unfolding jxl_def trySetAnimationOptions_def updateFormatOut_def
    by (simp only: obj obj' q q' keys dq if_True if_False simp_thms)
qed

text \<open>
  C7: for every call \<^verbatim>\<open>jxl(options)\<close> whose \<^verbatim>\<open>quality\<close> is an integer \<open>q\<close> from 1 to 100,
  \<^verbatim>\<open>jxlDistance\<close> is left equal to the value of \<^verbatim>\<open>0.1 + (100 - q) * 0.09\<close> when \<open>q \<ge> 30\<close> and
  of \<^verbatim>\<open>53 / 3000 * q * q - 23 / 20 * q + 25\<close> when \<open>q < 30\<close>, as JavaScript evaluates them, each
  operation rounded to binary64, whether or not a later option is rejected; that value lies
  within \<open>10 ^ -11\<close> of the exact value of the formula. \<^verbatim>\<open>options.distance\<close> is ignored: the
  call has the same outcome, error and Job Options, as the call on any options that differ
  in \<^verbatim>\<open>distance\<close> only. When \<^verbatim>\<open>quality\<close> is not defined, a \<^verbatim>\<open>distance\<close> that is a number from 0
  to 15 is stored as it is, and any other defined \<^verbatim>\<open>distance\<close> is rejected with the
  InvalidParameter error, the Job Options unchanged; a call that returns with
  \<^verbatim>\<open>decodingTier\<close> defined has found it an integer from 0 to 4 and stored it.
\<close>

theorem jxl_distance:
  "(prop_of options ''quality'' = JNum q \<and> of_int \<lfloor>q\<rfloor> = q \<and> 1 \<le> q \<and> q \<le> 100 \<longrightarrow>
      snd (jxl options s) ''jxlDistance'' = Some (JNum (jxl_distance_of_quality q))
      \<and> jxl_distance_of_quality q =
          (if 30 \<le> q
           then js_add (binary64 (1 / 10)) (js_mul (js_sub 100 q) (binary64 (9 / 100)))
           else js_add (js_sub (js_mul (js_mul (js_div 53 3000) q) q)
                          (js_mul (js_div 23 20) q)) 25)
      \<and> \<bar>jxl_distance_of_quality q -
           (if 30 \<le> q then 1 / 10 + (100 - q) * (9 / 100)
            else 53 / 3000 * q * q - 23 / 20 * q + 25)\<bar> \<le> 1 / 10 ^ 11
      \<and> ((\<forall>k. k \<noteq> ''distance'' \<longrightarrow> prop_of options' k = prop_of options k) \<longrightarrow>
           jxl options' s = jxl options s))
   \<and> (\<not> is_defined (prop_of options ''quality'') \<and> prop_of options ''distance'' = JNum d \<and>
       0 \<le> d \<and> d \<le> 15 \<longrightarrow>
      snd (jxl options s) ''jxlDistance'' = Some (JNum d))
   \<and> (\<not> is_defined (prop_of options ''quality'') \<and> is_defined (prop_of options ''distance'') \<and>
       \<not> (is_number (prop_of options ''distance'') \<and> is_inRange (prop_of options ''distance'') 0 15)
       \<longrightarrow>
      jxl options s =
        (Some (InvalidParameter ''distance'' [Lit ''number between 0.0 and 15.0'']
                 (prop_of options ''distance'')), s))
   \<and> (fst (jxl options s) = None \<and> is_defined (prop_of options ''decodingTier'') \<longrightarrow>
        is_integer (prop_of options ''decodingTier'') \<and>
        is_inRange (prop_of options ''decodingTier'') 0 4 \<and>
        snd (jxl options s) ''jxlDecodingTier'' = Some (prop_of options ''decodingTier''))"
proof (intro conjI impI)
  assume h: "prop_of options ''quality'' = JNum q \<and> of_int \<lfloor>q\<rfloor> = q \<and> 1 \<le> q \<and> q \<le> 100"
  then show "snd (jxl options s) ''jxlDistance'' = Some (JNum (jxl_distance_of_quality q))"
    by (intro jxl_quality_distance) simp_all
  show "jxl_distance_of_quality q =
          (if 30 \<le> q
           then js_add (binary64 (1 / 10)) (js_mul (js_sub 100 q) (binary64 (9 / 100)))
           else js_add (js_sub (js_mul (js_mul (js_div 53 3000) q) q)
                          (js_mul (js_div 23 20) q)) 25)"
    by (rule jxl_distance_of_quality_def)
  show "\<bar>jxl_distance_of_quality q -
           (if 30 \<le> q then 1 / 10 + (100 - q) * (9 / 100)
            else 53 / 3000 * q * q - 23 / 20 * q + 25)\<bar> \<le> 1 / 10 ^ 11"
    using h jxl_distance_linear_close[of q] jxl_distance_quadratic_close[of q]
    by (cases "30 \<le> q") simp_all
  assume "\<forall>k. k \<noteq> ''distance'' \<longrightarrow> prop_of options' k = prop_of options k"
  with h show "jxl options' s = jxl options s"
    by (intro jxl_ignores_distance[of options q]) simp_all
next
  assume "\<not> is_defined (prop_of options ''quality'') \<and> prop_of options ''distance'' = JNum d \<and>
       0 \<le> d \<and> d \<le> 15"
  then show "snd (jxl options s) ''jxlDistance'' = Some (JNum d)"
    by (intro jxl_distance_stored) simp_all
next
  assume "\<not> is_defined (prop_of options ''quality'') \<and> is_defined (prop_of options ''distance'') \<and>
       \<not> (is_number (prop_of options ''distance'') \<and> is_inRange (prop_of options ''distance'') 0 15)"
  then show "jxl options s =
        (Some (InvalidParameter ''distance'' [Lit ''number between 0.0 and 15.0'']
                 (prop_of options ''distance'')), s)"
    using jxl_distance_rejected[of options s] by (simp add: invalidParameterError_def)
next
  assume h: "fst (jxl options s) = None \<and> is_defined (prop_of options ''decodingTier'')"
  then show "is_integer (prop_of options ''decodingTier'')"
    and "is_inRange (prop_of options ''decodingTier'') 0 4"
    and "snd (jxl options s) ''jxlDecodingTier'' = Some (prop_of options ''decodingTier'')"
    using jxl_decodingTier[of options s] by simp_all
qed

text \<open>\<^verbatim>\<open>jxl({quality: 90, distance: 99})\<close> stores 0.9999999999999999, which is
  \<open>1 - 2 ^ -53\<close>, where the exact value of the formula is 1, and has the outcome of
  \<^verbatim>\<open>jxl({quality: 90})\<close> although 99 is no valid distance; \<^verbatim>\<open>jxl({quality: 20})\<close> stores
  9.066666666666666, \<^verbatim>\<open>jxl({distance: 1.5})\<close> stores 1.5, \<^verbatim>\<open>jxl({distance: 16})\<close> is rejected,
  and \<^verbatim>\<open>jxl({decodingTier: 2})\<close> stores 2.\<close>

theorem jxl_distance_witness:
  "snd (jxl (JObj [(''quality'', JNum 90), (''distance'', JNum 99)]) Map.empty) ''jxlDistance''
      = Some (JNum (9007199254740991 / 9007199254740992))
   \<and> \<bar>9007199254740991 / 9007199254740992 - (1 / 10 + (100 - 90) * (9 / 100))\<bar>
        \<le> (1 :: rat) / 10 ^ 11
   \<and> jxl (JObj [(''quality'', JNum 90), (''distance'', JNum 99)]) Map.empty =
       jxl (JObj [(''quality'', JNum 90)]) Map.empty
   \<and> fst (jxl (JObj [(''quality'', JNum 90), (''distance'', JNum 99)]) Map.empty) = None
   \<and> snd (jxl (JObj [(''quality'', JNum 20)]) Map.empty) ''jxlDistance''
      = Some (JNum (2552039788843281 / 281474976710656))
   \<and> snd (jxl (JObj [(''distance'', JNum (3 / 2))]) Map.empty) ''jxlDistance''
      = Some (JNum (3 / 2))
   \<and> jxl (JObj [(''distance'', JNum 16)]) Map.empty =
        (Some (InvalidParameter ''distance'' [Lit ''number between 0.0 and 15.0''] (JNum 16)),
         Map.empty)
   \<and> fst (jxl (JObj [(''decodingTier'', JNum 2)]) Map.empty) = None
   \<and> snd (jxl (JObj [(''decodingTier'', JNum 2)]) Map.empty) ''jxlDecodingTier'' = Some (JNum 2)"
proof -
  let ?o = "JObj [(''quality'', JNum 90)]"
  let ?o' = "JObj [(''quality'', JNum 90), (''distance'', JNum 99)]"
  have pre: "prop_of ?o' ''quality'' = JNum 90 \<and> of_int \<lfloor>90 :: rat\<rfloor> = (90 :: rat) \<and>
      (1 :: rat) \<le> 90 \<and> (90 :: rat) \<le> 100"
    "prop_of ?o ''quality'' = JNum 90 \<and> of_int \<lfloor>90 :: rat\<rfloor> = (90 :: rat) \<and>
      (1 :: rat) \<le> 90 \<and> (90 :: rat) \<le> 100"
    by simp_all
  note T90 = jxl_distance[where options="?o'" and options'="?o'" and q=90 and s=Map.empty,
      THEN conjunct1, THEN mp, OF pre(1)]
  note T90' = jxl_distance[where options="?o" and options'="?o'" and q=90 and s=Map.empty,
      THEN conjunct1, THEN mp, OF pre(2)]
  have same: "\<forall>k. k \<noteq> ''distance'' \<longrightarrow> prop_of ?o' k = prop_of ?o k"
    by simp
  have a: "snd (jxl ?o' Map.empty) ''jxlDistance'' = Some (JNum (9007199254740991 / 9007199254740992))"
    using T90[THEN conjunct1] by (simp only: jxl_distance_of_quality_90)
  have a2: "\<bar>9007199254740991 / 9007199254740992 - (1 / 10 + (100 - 90) * (9 / 100))\<bar>
        \<le> (1 :: rat) / 10 ^ 11"
    using T90[THEN conjunct2, THEN conjunct2, THEN conjunct1]
    by (simp add: jxl_distance_of_quality_90)
  have a3: "jxl ?o' Map.empty = jxl ?o Map.empty"
    using T90'[THEN conjunct2, THEN conjunct2, THEN conjunct2, THEN mp, OF same] .
  have a4: "fst (jxl ?o' Map.empty) = None"
    unfolding a3 by (simp add: jxl_def run_defs)
  have b: "snd (jxl (JObj [(''quality'', JNum 20)]) Map.empty) ''jxlDistance''
      = Some (JNum (2552039788843281 / 281474976710656))"
    using jxl_distance[where options="JObj [(''quality'', JNum 20)]"
        and q=20 and s=Map.empty, THEN conjunct1, THEN mp, THEN conjunct1]
    by (simp add: jxl_distance_of_quality_20)
  have c: "snd (jxl (JObj [(''distance'', JNum (3 / 2))]) Map.empty) ''jxlDistance''
      = Some (JNum (3 / 2))"
    using jxl_distance[where options="JObj [(''distance'', JNum (3 / 2))]"
        and d="3 / 2" and s=Map.empty, THEN conjunct2, THEN conjunct1]
    by (simp add: is_defined_def)
  have d: "jxl (JObj [(''distance'', JNum 16)]) Map.empty =
        (Some (InvalidParameter ''distance'' [Lit ''number between 0.0 and 15.0''] (JNum 16)),
         Map.empty)"
    using jxl_distance[where options="JObj [(''distance'', JNum 16)]"
        and s=Map.empty, THEN conjunct2, THEN conjunct2, THEN conjunct1]
    by (simp add: is_defined_def)
  have e: "fst (jxl (JObj [(''decodingTier'', JNum 2)]) Map.empty) = None"
    by (simp add: jxl_def run_defs)
  have f: "snd (jxl (JObj [(''decodingTier'', JNum 2)]) Map.empty) ''jxlDecodingTier'' = Some (JNum 2)"
    using jxl_distance[where options="JObj [(''decodingTier'', JNum 2)]"
        and s=Map.empty, THEN conjunct2, THEN conjunct2, THEN conjunct2] e
    by (simp add: is_defined_def)
  show ?thesis using a a2 a3 a4 b c d e f by (intro conjI)
qed



subsection \<open>Raw pixel input\<close>

lemma positive_num: "positive (num n) = (0 < n)" by (simp add: num_def)

text \<open>
  C8: for positive integers \<open>w\<close> and \<open>h\<close> and \<open>c\<close> from 1 to 4, building an input descriptor
  from a \<^verbatim>\<open>Uint16Array\<close> of \<open>w * h * c\<close> elements (a view that lies within its
  \<^verbatim>\<open>ArrayBuffer\<close>) with the options \<^verbatim>\<open>{raw: {width: w, height: h, channels: c}}\<close> returns a
  descriptor whose \<^verbatim>\<open>rawDepth\<close> is \<^verbatim>\<open>ushort\<close> and whose \<^verbatim>\<open>buffer\<close> holds \<open>2 * w * h * c\<close>
  bytes; the Job Options are unchanged.
\<close>

theorem raw_ushort_descriptor:
  assumes w: "0 < w" and h: "0 < h" and c: "1 \<le> c" "c \<le> 4"
    and len: "length xs = nat (w * h * c)"
    and view: "off + 2 * length xs \<le> length bs"
  shows "createInputDescriptor env (JTypedArray Uint16Array bs off xs)
           (JObj [(''raw'', JObj [(''width'', num w), (''height'', num h), (''channels'', num c)])])
           containerOptions this =
         (Inr (JObj (initialDescriptor @
                 [(''buffer'', JBuffer (take (2 * length xs) (drop off bs))),
                  (''rawWidth'', num w), (''rawHeight'', num h), (''rawChannels'', num c),
                  (''rawDepth'', JStr ''ushort''), (''rawPremultiplied'', JBool False),
                  (''rawPageHeight'', JNum 0)])), this)
       \<and> length (take (2 * length xs) (drop off bs)) = nat (2 * w * h * c)"
proof -
  have "0 < w * h * c" using w h c by (simp add: zero_less_mult_iff)
  with len have ne: "length xs \<noteq> 0" by simp
  have src: "sourceKind (JTypedArray Uint16Array bs off xs)
           (JObj [(''raw'', JObj [(''width'', num w), (''height'', num h), (''channels'', num c)])])
           containerOptions =
        Inr (initialDescriptor @ [(''buffer'', JBuffer (take (2 * length xs) (drop off bs)))],
             JObj [(''raw'', JObj [(''width'', num w), (''height'', num h), (''channels'', num c)])])"
    using ne view by (simp add: sourceKind_def buffer_from_def initialDescriptor_def mult.commute)
  have app: "applyInputOptions env this (JTypedArray Uint16Array bs off xs)
           (JObj [(''raw'', JObj [(''width'', num w), (''height'', num h), (''channels'', num c)])])
           (initialDescriptor @ [(''buffer'', JBuffer (take (2 * length xs) (drop off bs)))]) =
        (None, initialDescriptor @
                 [(''buffer'', JBuffer (take (2 * length xs) (drop off bs))),
                  (''rawWidth'', num w), (''rawHeight'', num h), (''rawChannels'', num c),
                  (''rawDepth'', JStr ''ushort''), (''rawPremultiplied'', JBool False),
                  (''rawPageHeight'', JNum 0)])"
    using w h c
    by (simp add: applyInputOptions_def inputOptions_raw_def is_defined_def is_integer_num
          is_inRange_num positive_num num_neq set_field_def skip_def throw_def initialDescriptor_def)
  have l: "length (take (2 * length xs) (drop off bs)) = nat (2 * w * h * c)"
    using view len by (simp add: nat_mult_distrib mult.assoc)
  show ?thesis using src app l by simp
qed


text \<open>A 2 by 3 image of one channel: six elements, twelve bytes.\<close>

theorem raw_ushort_descriptor_witness:
  "(0::int) < 2 \<and> (0::int) < 3 \<and> (1::int) \<le> 1 \<and> (1::int) \<le> 4
   \<and> length (replicate 6 (JNum 0)) = nat (2 * 3 * 1)
   \<and> 0 + 2 * length (replicate 6 (JNum 0)) \<le> length (replicate 12 (0 :: 8 word))
   \<and> (case fst (createInputDescriptor example_env
                  (JTypedArray Uint16Array (replicate 12 0) 0 (replicate 6 (JNum 0)))
                  (JObj [(''raw'', JObj [(''width'', num 2), (''height'', num 3),
                                         (''channels'', num 1)])])
                  JUndefined Map.empty) of
         Inl e \<Rightarrow> False
       | Inr d \<Rightarrow> prop_of d ''rawDepth'' = JStr ''ushort'' \<and>
                 byteLength (prop_of d ''buffer'') = 12)"
proof -
  have w: "(0::int) < 2" and h: "(0::int) < 3" and c: "(1::int) \<le> 1" "(1::int) \<le> 4" by simp_all
  have len: "length (replicate 6 (JNum 0)) = nat (2 * 3 * 1)" by simp
  have view: "0 + 2 * length (replicate 6 (JNum 0)) \<le> length (replicate 12 (0 :: 8 word))" by simp
  note T = raw_ushort_descriptor[OF w h c len view, of example_env JUndefined Map.empty]
  show ?thesis
    using w h c len view
    by (simp add: T[THEN conjunct1] initialDescriptor_def del: createInputDescriptor.simps)
qed

subsection \<open>The guards of toFile\<close>

text \<open>
  C9: \<^verbatim>\<open>toFile\<close> enters \<^verbatim>\<open>_pipeline\<close>, the only caller of the engine, only when no guard
  fails. When the output path is not a string the error \<^verbatim>\<open>Missing output file path\<close> is
  handed to the callback, if one is supplied, and otherwise returned as a rejected promise;
  when the output path resolves to the path of a file input the error is
  \<^verbatim>\<open>Cannot use same file for input and output\<close>; when the extension of the output path is a
  JPEG 2000 extension and the engine build has no JP2 file output, an error is delivered the
  same way: the JP2 error, unless the path is also that of the input file. In each case the
  Job Options are unchanged.
\<close>

theorem toFile_guards:
  "(\<not> is_string fileOut \<longrightarrow>
      toFile env fileOut callback this =
        (if is_fn callback then CallbackCalled (Error [Lit ''Missing output file path''])
         else PromiseRejected (Error [Lit ''Missing output file path'']), this))
   \<and> (is_string fileOut \<and> is_string (prop_of (opt this ''input'') ''file'') \<and>
       path_resolve env (str_of (prop_of (opt this ''input'') ''file'')) =
         path_resolve env (str_of fileOut) \<longrightarrow>
      toFile env fileOut callback this =
        (if is_fn callback
         then CallbackCalled (Error [Lit ''Cannot use same file for input and output''])
         else PromiseRejected (Error [Lit ''Cannot use same file for input and output'']), this))
   \<and> (is_string fileOut \<and> jp2Regex_test (path_extname env (str_of fileOut)) \<and>
       \<not> jp2k_output_file env \<longrightarrow>
      (\<exists>e. e \<in> {Error [Lit ''Cannot use same file for input and output''], errJp2Save} \<and>
           toFile env fileOut callback this =
             (if is_fn callback then CallbackCalled e else PromiseRejected e, this)))
   \<and> (is_string fileOut \<and> jp2Regex_test (path_extname env (str_of fileOut)) \<and>
       \<not> jp2k_output_file env \<and>
       \<not> (is_string (prop_of (opt this ''input'') ''file'') \<and>
          path_resolve env (str_of (prop_of (opt this ''input'') ''file'')) =
            path_resolve env (str_of fileOut)) \<longrightarrow>
      toFile env fileOut callback this =
        (if is_fn callback then CallbackCalled errJp2Save else PromiseRejected errJp2Save, this))
   \<and> ((\<exists>d. fst (toFile env fileOut callback this) = Pipeline d) \<longrightarrow>
        is_string fileOut \<and>
        \<not> (is_string (prop_of (opt this ''input'') ''file'') \<and>
           path_resolve env (str_of (prop_of (opt this ''input'') ''file'')) =
             path_resolve env (str_of fileOut)) \<and>
        \<not> (jp2Regex_test (path_extname env (str_of fileOut)) \<and> \<not> jp2k_output_file env))"
  by (auto simp: toFile_def Let_def)


text \<open>One call for each guard, and a call that passes all three and reaches the engine.\<close>

theorem toFile_guards_witness:
  "toFile example_env JUndefined (JFunction 0) [''input'' \<mapsto> JObj [(''file'', JStr ''in.png'')]] =
     (CallbackCalled (Error [Lit ''Missing output file path'']),
      [''input'' \<mapsto> JObj [(''file'', JStr ''in.png'')]])
   \<and> toFile example_env (JStr ''in.png'') JUndefined
        [''input'' \<mapsto> JObj [(''file'', JStr ''in.png'')]] =
     (PromiseRejected (Error [Lit ''Cannot use same file for input and output'']),
      [''input'' \<mapsto> JObj [(''file'', JStr ''in.png'')]])
   \<and> toFile (example_env\<lparr>jp2k_output_file := False\<rparr>) (JStr ''out.JP2'') JUndefined
        [''input'' \<mapsto> JObj [(''file'', JStr ''in.png'')]] =
     (PromiseRejected errJp2Save, [''input'' \<mapsto> JObj [(''file'', JStr ''in.png'')]])
   \<and> toFile example_env (JStr ''out.png'') JUndefined
        [''input'' \<mapsto> JObj [(''file'', JStr ''in.png'')]] =
     (Pipeline (EngineCalled ByPromise),
      [''input'' \<mapsto> JObj [(''file'', JStr ''in.png'')], ''fileOut'' \<mapsto> JStr ''out.png''])
   \<and> path_resolve example_env ''in.png'' \<noteq> path_resolve example_env ''out.png''"
proof -
  let ?job = "[''input'' \<mapsto> JObj [(''file'', JStr ''in.png'')]]"
  let ?env = "example_env\<lparr>jp2k_output_file := False\<rparr>"
  have ext: "path_extname example_env ''out.JP2'' = ''.JP2''"
    "path_extname example_env ''out.png'' = ''.png''"
    "path_resolve example_env = (\<lambda>p. p)" "path_resolve ?env = (\<lambda>p. p)"
    "jp2k_output_file ?env = False" "jp2k_output_file example_env = True"
    by (simp_all add: example_env_def)
  have re: "jp2Regex_test ''.JP2''" "\<not> jp2Regex_test ''.png''"
    by (simp_all add: jp2Regex_test_def toLowerCase_def lower_char_def)
  have g1: "toFile example_env JUndefined (JFunction 0) ?job =
     (CallbackCalled (Error [Lit ''Missing output file path'']), ?job)"
    using toFile_guards[where env=example_env and fileOut=JUndefined and callback="JFunction 0"
        and this="?job", THEN conjunct1]
    by simp
  have g2: "toFile example_env (JStr ''in.png'') JUndefined ?job =
     (PromiseRejected (Error [Lit ''Cannot use same file for input and output'']), ?job)"
    using toFile_guards[where env=example_env and fileOut="JStr ''in.png''" and callback=JUndefined
        and this="?job", THEN conjunct2, THEN conjunct1]
    by (simp add: opt_def ext)
  have g3: "toFile ?env (JStr ''out.JP2'') JUndefined ?job = (PromiseRejected errJp2Save, ?job)"
    using toFile_guards[where env="?env" and fileOut="JStr ''out.JP2''" and callback=JUndefined
        and this="?job", THEN conjunct2, THEN conjunct2, THEN conjunct2, THEN conjunct1]
    by (simp add: opt_def ext re)
  have run: "toFile example_env (JStr ''out.png'') JUndefined ?job =
     (Pipeline (EngineCalled ByPromise), ?job(''fileOut'' \<mapsto> JStr ''out.png''))"
    by (simp add: toFile_def Let_def opt_def ext re pipeline_def isStreamInput_def)
  have g5: "path_resolve example_env ''in.png'' \<noteq> path_resolve example_env ''out.png''"
    using toFile_guards[where env=example_env and fileOut="JStr ''out.png''" and callback=JUndefined
        and this="?job", THEN conjunct2, THEN conjunct2, THEN conjunct2, THEN conjunct2] run
    by (simp add: opt_def)
  show ?thesis using g1 g2 g3 run g5 by simp
qed

subsection \<open>Failure is not atomic\<close>

text \<open>
  C10: validation failure inside a resolver is not atomic. The call
  \<^verbatim>\<open>jpeg({quality: 50, chromaSubsampling: 'bad'})\<close> throws the InvalidParameter error for
  \<^verbatim>\<open>chromaSubsampling\<close> and leaves the Job Options with \<^verbatim>\<open>jpegQuality\<close> already
  overwritten by 50: started with \<^verbatim>\<open>jpegQuality\<close> 80, the record after the failed call
  differs from the record before it.
\<close>

theorem jpeg_failure_not_atomic:
  "jpeg (JObj [(''quality'', JNum 50), (''chromaSubsampling'', JStr ''bad'')]) s =
     (Some (InvalidParameter ''chromaSubsampling'' [Lit ''one of: 4:2:0, 4:4:4''] (JStr ''bad'')),
      s(''jpegQuality'' \<mapsto> JNum 50))
   \<and> snd (jpeg (JObj [(''quality'', JNum 50), (''chromaSubsampling'', JStr ''bad'')])
            (Map.empty(''jpegQuality'' \<mapsto> JNum 80)))
       \<noteq> Map.empty(''jpegQuality'' \<mapsto> JNum 80)"
proof -
  have run: "jpeg (JObj [(''quality'', JNum 50), (''chromaSubsampling'', JStr ''bad'')]) t =
     (Some (InvalidParameter ''chromaSubsampling'' [Lit ''one of: 4:2:0, 4:4:4''] (JStr ''bad'')),
      t(''jpegQuality'' \<mapsto> JNum 50))" for t
    by (simp add: jpeg_def is_defined_def is_inArray_def invalidParameterError_def
          assign_def throw_def skip_def)
  have "(Map.empty(''jpegQuality'' \<mapsto> JNum 80))(''jpegQuality'' \<mapsto> JNum 50)
          \<noteq> Map.empty(''jpegQuality'' \<mapsto> JNum 80)"
    by (auto dest: map_upd_eqD1)
  then show ?thesis
    by (simp only: run snd_conv simp_thms)
qed

end
